theory Spec2Isabelle
  imports Complex_Main "HOL-Library.AList" "HOL-Library.Log_Nat"
begin

section \<open>Errors and fallible computations\<close>

text \<open>
  Every failure of \<^verbatim>\<open>treevec.py\<close> is a Python exception. The rules raise
  \<^verbatim>\<open>ValueError\<close> with a message that tells the failures apart; the model keeps one
  constructor per message, named after the error kind the specification gives it, with
  the axis the message reports:
  \<^item> \<open>ConflictingStructure\<close>: \<^verbatim>\<open>conflicting treedefs along axis=...\<close> (n-ary and concatenate
    rules), \<^verbatim>\<open>conflicting treedefs: ...\<close> (contraction rule);
  \<^item> \<open>ConflictingShape\<close>: \<^verbatim>\<open>conflicting shapes along axis=...\<close>, \<^verbatim>\<open>conflicting shapes: ...\<close>;
  \<^item> \<open>ShapeMismatch\<close>: \<^verbatim>\<open>mismatched axis shape\<close> (\<^verbatim>\<open>_split_leaf\<close>);
  \<^item> \<open>InvalidLeafshapes\<close>: \<^verbatim>\<open>invalid leafshapes ... along axis=...\<close> (\<^verbatim>\<open>_split_leaves\<close>);
  \<^item> \<open>InvalidConcatenateAxis\<close>: \<^verbatim>\<open>non-trivial treedefs along concatenated axis=...\<close> and
    \<^verbatim>\<open>shapes along concatenated axis are not all 1D\<close>;
  \<^item> \<open>InvalidSqueezeAxis\<close>: \<^verbatim>\<open>cannot squeeze dimension ... because it corresponds to a
    non-trivial pytree\<close>.

  The other constructors are the implicit failures of Python: unflattening with a wrong
  number of leaves, a missing dictionary key, an index out of range, a failed
  \<^verbatim>\<open>assert\<close>, a failed unpacking \<^verbatim>\<open>x, = xs\<close>, \<^verbatim>\<open>reduce\<close> of an empty list, and a
  failure inside a compute kernel.
\<close>

datatype error =
    ConflictingStructure nat
  | ConflictingShape nat
  | ShapeMismatch
  | InvalidLeafshapes nat
  | InvalidConcatenateAxis nat
  | InvalidSqueezeAxis nat
  | LeafCountError
  | KeyError "nat list"
  | IndexError
  | AssertionError
  | UnpackError
  | TypeError
  | KernelError

definition bindE :: "error + 'a \<Rightarrow> ('a \<Rightarrow> error + 'b) \<Rightarrow> error + 'b" where
  "bindE m f = (case m of Inl e \<Rightarrow> Inl e | Inr x \<Rightarrow> f x)"

text \<open>A list comprehension whose body may raise: the first failure aborts it.\<close>

fun mapE :: "('a \<Rightarrow> error + 'b) \<Rightarrow> 'a list \<Rightarrow> error + 'b list" where
  "mapE f [] = Inr []"
| "mapE f (x # xs) =
     (case f x of Inl e \<Rightarrow> Inl e
      | Inr y \<Rightarrow> (case mapE f xs of Inl e \<Rightarrow> Inl e | Inr ys \<Rightarrow> Inr (y # ys)))"

text \<open>A \<^verbatim>\<open>for\<close> loop that updates a state and may raise.\<close>

fun foldE :: "('a \<Rightarrow> 's \<Rightarrow> error + 's) \<Rightarrow> 'a list \<Rightarrow> 's \<Rightarrow> error + 's" where
  "foldE f [] s = Inr s"
| "foldE f (x # xs) s = (case f x s of Inl e \<Rightarrow> Inl e | Inr s' \<Rightarrow> foldE f xs s')"

text \<open>\<^verbatim>\<open>xs[i]\<close> for a non-negative index.\<close>

definition nth_py :: "'a list \<Rightarrow> nat \<Rightarrow> error + 'a" where
  "nth_py xs i = (if i < length xs then Inr (xs ! i) else Inl IndexError)"

text \<open>\<^verbatim>\<open>x, = xs\<close>: unpacking a collection that must hold exactly one element.\<close>

definition unpack1 :: "'a list \<Rightarrow> error + 'a" where
  "unpack1 xs = (case xs of [x] \<Rightarrow> Inr x | _ \<Rightarrow> Inl UnpackError)"

text \<open>\<^verbatim>\<open>xs.insert(i, x)\<close>: past the end, Python appends.\<close>

definition list_insert :: "nat \<Rightarrow> 'a \<Rightarrow> 'a list \<Rightarrow> 'a list" where
  "list_insert i x xs = take i xs @ [x] @ drop i xs"

text \<open>
  A Python \<^verbatim>\<open>dict\<close> is an association list in insertion order with at most one entry per
  key: \<^verbatim>\<open>d[k] = v\<close> is \<^const>\<open>AList.update\<close>, \<^verbatim>\<open>d[k]\<close> is \<^const>\<open>map_of\<close>, raising
  \<^verbatim>\<open>KeyError\<close> on a missing key.
\<close>

definition lookup :: "(nat list \<times> 'v) list \<Rightarrow> nat list \<Rightarrow> error + 'v" where
  "lookup d k = (case map_of d k of None \<Rightarrow> Inl (KeyError k) | Some v \<Rightarrow> Inr v)"

definition dict_of :: "('k \<times> 'v) list \<Rightarrow> ('k \<times> 'v) list" where
  "dict_of kvs = fold (\<lambda>kv d. AList.update (fst kv) (snd kv) d) kvs []"

section \<open>The nested-container utility\<close>

text \<open>
  Modelled from the spec: the flatten/unflatten utility \<^verbatim>\<open>jax.tree_util\<close>
  (\<^verbatim>\<open>tree_flatten\<close>, \<^verbatim>\<open>tree_unflatten\<close>, \<^verbatim>\<open>tree_structure\<close>, \<^verbatim>\<open>num_leaves\<close>), which the
  engine consumes as a black box: flattening yields the ordered leaves and a comparable
  descriptor, unflattening rebuilds a container of that shape from as many leaves as the
  descriptor counts. A container node is \<^verbatim>\<open>None\<close>, a tuple, a list or a dictionary; a
  dictionary is given by its keys in sorted order, the order in which it is flattened.
\<close>

datatype node_kind = NoneNode | TupleNode | ListNode | DictNode "string list"

datatype 'a pytree = PLeaf 'a | PNode node_kind "'a pytree list"

datatype treedef = TLeaf | TNode node_kind "treedef list"

fun tree_leaves :: "'a pytree \<Rightarrow> 'a list" where
  "tree_leaves (PLeaf x) = [x]"
| "tree_leaves (PNode k cs) = concat (map tree_leaves cs)"

fun tree_structure :: "'a pytree \<Rightarrow> treedef" where
  "tree_structure (PLeaf x) = TLeaf"
| "tree_structure (PNode k cs) = TNode k (map tree_structure cs)"

definition tree_flatten :: "'a pytree \<Rightarrow> 'a list \<times> treedef" where
  "tree_flatten t = (tree_leaves t, tree_structure t)"

fun num_leaves :: "treedef \<Rightarrow> nat" where
  "num_leaves TLeaf = 1"
| "num_leaves (TNode k ts) = sum_list (map num_leaves ts)"

text \<open>
  Unflattening puts the given objects at the leaf positions, in order. The objects may
  themselves be containers (\<^verbatim>\<open>restore_tree\<close> nests one unflattening in another), so they
  are trees here.
\<close>

fun build :: "treedef \<Rightarrow> 'a pytree list \<Rightarrow> 'a pytree"
  and build_list :: "treedef list \<Rightarrow> 'a pytree list \<Rightarrow> 'a pytree list" where
  "build TLeaf xs = hd xs"
| "build (TNode k ts) xs = PNode k (build_list ts xs)"
| "build_list [] xs = []"
| "build_list (t # ts) xs =
     build t (take (num_leaves t) xs) # build_list ts (drop (num_leaves t) xs)"

definition tree_unflatten :: "treedef \<Rightarrow> 'a pytree list \<Rightarrow> error + 'a pytree" where
  "tree_unflatten td xs =
     (if length xs = num_leaves td then Inr (build td xs) else Inl LeafCountError)"

definition TRIVIAL_TREEDEF :: treedef where
  "TRIVIAL_TREEDEF = TLeaf"

section \<open>Arrays\<close>

text \<open>
  A concrete array has an element type, a shape and its elements in row-major order. A
  Python scalar is the array of shape \<open>[]\<close> with one element. Elements are real numbers:
  the compute kernels are modelled on exact numbers, and the rounding of an element type
  enters only through the cast \<^verbatim>\<open>jnp.asarray\<close>.
\<close>

datatype dtype = DBool | DInt | DFloat

record ndarray =
  dtype :: dtype
  shape :: "nat list"
  elems :: "real list"

type_synonym leafshapes = "nat list list list"
type_synonym 'v leaves = "(nat list \<times> 'v) list"

section \<open>Axis structure and coordinates\<close>

text \<open>
  \<^verbatim>\<open>is_trivial_axis\<close> tests \<^verbatim>\<open>treedef is TRIVIAL_TREEDEF\<close>; descriptors are values here,
  and the test is equality.
\<close>

definition is_trivial_axis :: "treedef \<Rightarrow> nat list list \<Rightarrow> bool" where
  "is_trivial_axis treedef shapes \<longleftrightarrow>
     treedef = TRIVIAL_TREEDEF \<and> length shapes = 1 \<and> length (shapes ! 0) = 1"

definition iter_leaf_coords :: "treedef list \<Rightarrow> nat list list" where
  "iter_leaf_coords tds = product_lists (map (\<lambda>td. [0..<num_leaves td]) tds)"

definition iter_leaf_coords2 :: "leafshapes \<Rightarrow> nat list list" where
  "iter_leaf_coords2 lss = product_lists (map (\<lambda>shapes. [0..<length shapes]) lss)"

definition axis_length :: "nat list list \<Rightarrow> nat" where
  "axis_length shapes = sum_list (map prod_list shapes)"

definition concat_tuple :: "'a list list \<Rightarrow> 'a list" where
  "concat_tuple tuples = concat tuples"

definition leafshape :: "leafshapes \<Rightarrow> nat list \<Rightarrow> error + nat list" where
  "leafshape lss coords =
     bindE (mapE (\<lambda>ij. bindE (nth_py lss (fst ij)) (\<lambda>segs. nth_py segs (snd ij)))
             (enumerate 0 coords))
       (\<lambda>shapes. Inr (concat_tuple shapes))"

fun axes_for_leaf_loop ::
  "leafshapes \<Rightarrow> nat list \<Rightarrow> (nat \<times> nat) list \<Rightarrow> nat list \<Rightarrow> nat \<Rightarrow> error + nat list" where
  "axes_for_leaf_loop lss axes [] out_axes leaf_axis = Inr out_axes"
| "axes_for_leaf_loop lss axes (ac # rest) out_axes leaf_axis =
     (case bindE (nth_py lss (fst ac)) (\<lambda>segs. nth_py segs (snd ac)) of
        Inl e \<Rightarrow> Inl e
      | Inr seg \<Rightarrow>
          axes_for_leaf_loop lss axes rest
            (if fst ac \<in> set axes
             then out_axes @ [leaf_axis..<leaf_axis + length seg] else out_axes)
            (leaf_axis + length seg))"

definition axes_for_leaf :: "leafshapes \<Rightarrow> nat list \<Rightarrow> nat list \<Rightarrow> error + nat list" where
  "axes_for_leaf lss coords axes = axes_for_leaf_loop lss axes (enumerate 0 coords) [] 0"

section \<open>The structured value\<close>

record tree_tracer =
  treedefs :: "treedef list"
  leafshapes :: leafshapes
  leaves :: "ndarray leaves"

text \<open>
  \<^verbatim>\<open>TreeTracer.__init__\<close>: the assertions in their order. \<^verbatim>\<open>zip\<close> stops at the shorter
  list; \<^verbatim>\<open>leaves[coords]\<close> raises \<^verbatim>\<open>KeyError\<close> where a block is missing.
\<close>

definition check_leaf :: "leafshapes \<Rightarrow> ndarray leaves \<Rightarrow> nat list \<Rightarrow> error + unit" where
  "check_leaf lss lvs coords =
     bindE (leafshape lss coords) (\<lambda>expected_shape.
     bindE (lookup lvs coords) (\<lambda>leaf.
       if shape leaf = expected_shape then Inr () else Inl AssertionError))"

definition TreeTracer_init ::
  "treedef list \<Rightarrow> leafshapes \<Rightarrow> ndarray leaves \<Rightarrow> error + tree_tracer" where
  "TreeTracer_init tds lss lvs =
     (if length tds \<noteq> length lss then Inl AssertionError
      else if \<not> list_all (\<lambda>ts. num_leaves (fst ts) = length (snd ts)) (zip tds lss)
        then Inl AssertionError
      else if lvs = [] then Inl AssertionError
      else bindE (mapE (check_leaf lss lvs) (iter_leaf_coords tds))
        (\<lambda>_. Inr \<lparr>treedefs = tds, leafshapes = lss, leaves = lvs\<rparr>))"

text \<open>\<^verbatim>\<open>aval\<close>: the logical shape, and the element type of the first block stored.\<close>

definition aval :: "tree_tracer \<Rightarrow> nat list \<times> dtype" where
  "aval t = (map axis_length (leafshapes t), dtype (snd (hd (leaves t))))"

section \<open>The conversion boundary\<close>

text \<open>
  \<^verbatim>\<open>convert_vectorized_tree\<close>. The promotion \<^verbatim>\<open>jnp.result_type\<close> and the cast
  \<^verbatim>\<open>jnp.asarray\<close> are parameters \<open>rt\<close> and \<open>asarr\<close>.
\<close>

definition convert_vectorized_tree ::
  "(ndarray list \<Rightarrow> error + dtype) \<Rightarrow> (ndarray \<Rightarrow> dtype \<Rightarrow> ndarray) \<Rightarrow> ndarray pytree
     \<Rightarrow> error + (treedef list \<times> leafshapes \<times> ndarray leaves)" where
  "convert_vectorized_tree rt asarr tree =
     (let (xs, treedef) = tree_flatten tree;
          leafshape = map shape xs
      in bindE (rt xs) (\<lambda>dt.
           Inr ([treedef], [leafshape],
                dict_of (map (\<lambda>il. ([fst il], asarr (snd il) dt)) (enumerate 0 xs)))))"

text \<open>
  \<^verbatim>\<open>restore_tree\<close>: the loop peels the last axis off, replacing the blocks that differ
  only in their last coordinate by the container they unflatten to.
\<close>

definition restore_step ::
  "treedef list \<Rightarrow> 'a pytree leaves \<Rightarrow> error + 'a pytree leaves" where
  "restore_step tds lvs =
     bindE (mapE (\<lambda>coords.
              bindE (mapE (\<lambda>i. lookup lvs (coords @ [i])) [0..<num_leaves (last tds)])
                (\<lambda>leaf_list. bindE (tree_unflatten (last tds) leaf_list)
                   (\<lambda>t. Inr (coords, t))))
            (iter_leaf_coords (butlast tds)))
       (\<lambda>kvs. Inr (dict_of kvs))"

function restore_loop :: "treedef list \<Rightarrow> 'a pytree leaves \<Rightarrow> error + 'a pytree" where
  "restore_loop tds lvs =
     (if tds = [] then lookup lvs []
      else (case restore_step tds lvs of
              Inl e \<Rightarrow> Inl e
            | Inr flattened_leaves \<Rightarrow> restore_loop (butlast tds) flattened_leaves))"
  by pat_completeness auto
termination
  by (relation "measure (\<lambda>p. length (fst p))") auto

declare restore_loop.simps [simp del]

definition restore_tree :: "treedef list \<Rightarrow> 'a leaves \<Rightarrow> error + 'a pytree" where
  "restore_tree tds lvs = restore_loop tds (map (\<lambda>kv. (fst kv, PLeaf (snd kv))) lvs)"

section \<open>Compute kernels\<close>

text \<open>
  Modelled from the spec: the shape kernels of \<^verbatim>\<open>jax.lax\<close> and \<^verbatim>\<open>jax.numpy\<close> that the
  rules call by name (\<^verbatim>\<open>lax.squeeze\<close>, \<^verbatim>\<open>lax.expand_dims\<close>, \<^verbatim>\<open>jnp.split\<close> followed by
  \<^verbatim>\<open>reshape\<close>), with their ordinary array semantics. A kernel that rejects its
  arguments raises; the model returns \<^const>\<open>KernelError\<close>.
\<close>

definition squeeze :: "ndarray \<Rightarrow> nat list \<Rightarrow> error + ndarray" where
  "squeeze a dims =
     (if distinct dims \<and> list_all (\<lambda>d. d < length (shape a) \<and> shape a ! d = 1) dims
      then Inr (a\<lparr>shape := map snd (filter (\<lambda>is. fst is \<notin> set dims) (enumerate 0 (shape a)))\<rparr>)
      else Inl KernelError)"

definition expand_dims :: "ndarray \<Rightarrow> nat list \<Rightarrow> error + ndarray" where
  "expand_dims a dims =
     (if distinct dims \<and> list_all (\<lambda>d. d < length (shape a) + length dims) dims
      then Inr (a\<lparr>shape := fold (\<lambda>i s. list_insert i 1 s) (sort dims) (shape a)\<rparr>)
      else Inl KernelError)"

text \<open>
  The part of an array between the positions \<open>off\<close> and \<open>off + len\<close> of one dimension,
  in row-major order: what \<^verbatim>\<open>jnp.split\<close> cuts out.
\<close>

definition split_piece :: "ndarray \<Rightarrow> nat \<Rightarrow> nat \<Rightarrow> nat \<Rightarrow> real list" where
  "split_piece a axis off len =
     (let inner = prod_list (drop (Suc axis) (shape a));
          row = (shape a ! axis) * inner
      in concat (map (\<lambda>r. take (len * inner) (drop (r * row + off * inner) (elems a)))
                   [0..<prod_list (take axis (shape a))]))"

section \<open>Splitting an axis\<close>

definition split_leaf :: "ndarray \<Rightarrow> nat \<Rightarrow> nat list list \<Rightarrow> error + ndarray list" where
  "split_leaf array axis shapes =
     bindE (nth_py (shape array) axis) (\<lambda>n.
       if axis_length shapes \<noteq> n then Inl ShapeMismatch
       else Inr (map (\<lambda>ks.
                   \<lparr>dtype = dtype array,
                    shape = take axis (shape array) @ snd ks @ drop (Suc axis) (shape array),
                    elems = split_piece array axis
                              (sum_list (map prod_list (take (fst ks) shapes)))
                              (prod_list (snd ks))\<rparr>)
                 (enumerate 0 shapes)))"

definition split_leaves ::
  "leafshapes \<Rightarrow> ndarray leaves \<Rightarrow> nat \<Rightarrow> nat list list \<Rightarrow> error + ndarray leaves" where
  "split_leaves lss lvs axis shapes =
     bindE (nth_py lss axis) (\<lambda>segs.
       if length segs \<noteq> 1 \<or> length (segs ! 0) \<noteq> 1 then Inl (InvalidLeafshapes axis)
       else
         bindE (mapE (\<lambda>in_coords.
                  bindE (lookup lvs in_coords) (\<lambda>leaf.
                  bindE (axes_for_leaf lss in_coords [axis]) (\<lambda>leaf_axes.
                  bindE (unpack1 leaf_axes) (\<lambda>leaf_axis.
                  bindE (split_leaf leaf leaf_axis shapes) (\<lambda>new_leaves.
                    Inr (map (\<lambda>il. (take axis in_coords @ [fst il] @ drop (Suc axis) in_coords,
                                     snd il))
                           (enumerate 0 new_leaves)))))))
                (iter_leaf_coords2 lss))
           (\<lambda>kvss. Inr (dict_of (concat kvss))))"

section \<open>The n-ary elementwise rule\<close>

text \<open>
  An operand of a rule is the triple of one tracer's \<^verbatim>\<open>treedefs\<close>, \<^verbatim>\<open>leafshapes\<close> and
  \<^verbatim>\<open>leaves\<close>; the rules receive the three as parallel tuples, built by \<^verbatim>\<open>unzip3\<close> in
  \<^verbatim>\<open>process_primitive\<close>.
\<close>

type_synonym operand = "treedef list \<times> leafshapes \<times> ndarray leaves"

fun filter_scalar_leaves ::
  "nat \<Rightarrow> operand list \<Rightarrow> error + (operand list \<times> (nat \<times> ndarray) list)" where
  "filter_scalar_leaves i [] = Inr ([], [])"
| "filter_scalar_leaves i (opnd # rest) =
     (if fst opnd \<noteq> []
      then bindE (filter_scalar_leaves (Suc i) rest)
             (\<lambda>r. Inr (opnd # fst r, snd r))
      else bindE (lookup (snd (snd opnd)) [])
             (\<lambda>x. bindE (filter_scalar_leaves (Suc i) rest)
                (\<lambda>r. Inr (fst r, (i, x) # snd r))))"

text \<open>
  The body of the loop over the axes: the adopted container descriptor and segment
  layout of one axis. A Python set of the operands' entries is the list without
  duplicates.
\<close>

definition naryop_axis :: "operand list \<Rightarrow> nat \<Rightarrow> error + (treedef \<times> nat list list)" where
  "naryop_axis ops axis =
     bindE (mapE (\<lambda>opnd. nth_py (fst opnd) axis) ops) (\<lambda>tds.
       let non_trivial_treedefs = remdups (filter (\<lambda>td. td \<noteq> TRIVIAL_TREEDEF) tds) in
       if length non_trivial_treedefs > 1 then Inl (ConflictingStructure axis)
       else
         let treedef = (if length non_trivial_treedefs = 1 then hd non_trivial_treedefs
                        else TRIVIAL_TREEDEF) in
         bindE (mapE (\<lambda>opnd. nth_py (fst (snd opnd)) axis) ops) (\<lambda>shs.
           let non_trivial_shapes = remdups (filter (\<lambda>s. length s \<noteq> 1) shs) in
           if length non_trivial_shapes > 1 then Inl (ConflictingShape axis)
           else if length non_trivial_shapes = 1 then Inr (treedef, hd non_trivial_shapes)
           else Inr (treedef, [[foldr max (map axis_length shs) 0]])))"

text \<open>
  The loop that splits an operand's axes to match the output segment layout. The source
  passes the operand's original \<^verbatim>\<open>leafshapes\<close> to every split and updates the copy
  \<^verbatim>\<open>leafshapes_\<close>.
\<close>

definition naryop_fix_axis ::
  "leafshapes \<Rightarrow> leafshapes \<Rightarrow> nat \<Rightarrow> leafshapes \<times> ndarray leaves
     \<Rightarrow> error + (leafshapes \<times> ndarray leaves)" where
  "naryop_fix_axis out_lss lss axis st =
     bindE (nth_py lss axis) (\<lambda>own.
     bindE (nth_py out_lss axis) (\<lambda>adopted.
       if own \<noteq> adopted \<and> axis_length own \<noteq> 1
       then bindE (split_leaves lss (snd st) axis adopted)
              (\<lambda>lvs'. Inr ((fst st)[axis := adopted], lvs'))
       else Inr st))"

definition naryop_fix ::
  "leafshapes \<Rightarrow> nat \<Rightarrow> operand \<Rightarrow> error + (leafshapes \<times> ndarray leaves)" where
  "naryop_fix out_lss ndim opnd =
     foldE (naryop_fix_axis out_lss (fst (snd opnd))) [0..<ndim]
       (fst (snd opnd), snd (snd opnd))"

definition naryop_arg ::
  "leafshapes \<Rightarrow> nat list \<Rightarrow> leafshapes \<times> ndarray leaves \<Rightarrow> error + ndarray" where
  "naryop_arg out_lss out_coords fixed =
     bindE (mapE (\<lambda>ac. bindE (nth_py (fst fixed) (fst ac))
                    (\<lambda>segs. Inr (if length segs \<noteq> 1 then snd ac else 0)))
             (enumerate 0 out_coords)) (\<lambda>in_coords.
     bindE (lookup (snd fixed) in_coords) (\<lambda>leaf.
       let broadcasting_dims =
             map fst (filter (\<lambda>as. snd as = [[1]]) (enumerate 0 (fst fixed))) in
       bindE (axes_for_leaf (fst fixed) in_coords broadcasting_dims) (\<lambda>remove_dims.
       bindE (axes_for_leaf out_lss out_coords broadcasting_dims) (\<lambda>insert_dims.
       bindE (squeeze leaf remove_dims) (\<lambda>squeezed.
         expand_dims squeezed insert_dims)))))"

definition naryop_tree_rule ::
  "(ndarray list \<Rightarrow> error + ndarray) \<Rightarrow> operand list
     \<Rightarrow> error + (treedef list \<times> leafshapes \<times> ndarray leaves)" where
  "naryop_tree_rule prim ops_in =
     bindE (filter_scalar_leaves 0 ops_in) (\<lambda>fs.
       let ops = fst fs; scalars = snd fs in
       if ops = [] then bindE (prim (map snd scalars)) (\<lambda>r. Inr ([], [], [([], r)]))
       else
         bindE (unpack1 (remdups (map (\<lambda>opnd. length (fst opnd)) ops))) (\<lambda>ndim.
         bindE (mapE (naryop_axis ops) [0..<ndim]) (\<lambda>outs.
           let out_treedefs = map fst outs; out_leafshapes = map snd outs in
           bindE (mapE (naryop_fix out_leafshapes ndim) ops) (\<lambda>fixed.
           bindE (mapE (\<lambda>out_coords.
                    bindE (mapE (naryop_arg out_leafshapes out_coords) fixed) (\<lambda>args.
                    bindE (prim (fold (\<lambda>s as. list_insert (fst s) (snd s) as) scalars args))
                      (\<lambda>r. Inr (out_coords, r))))
                  (iter_leaf_coords out_treedefs))
             (\<lambda>kvs. Inr (out_treedefs, out_leafshapes, dict_of kvs))))))"

section \<open>The concatenate rule\<close>

definition concatenate_axis ::
  "operand list \<Rightarrow> nat \<Rightarrow> nat \<Rightarrow> error + (treedef \<times> nat list list)" where
  "concatenate_axis ops dimension axis =
     bindE (mapE (\<lambda>opnd. nth_py (fst opnd) axis) ops) (\<lambda>tds.
       let non_trivial_treedefs = remdups (filter (\<lambda>td. td \<noteq> TRIVIAL_TREEDEF) tds) in
       if axis = dimension \<and> non_trivial_treedefs \<noteq> [] then Inl (InvalidConcatenateAxis axis)
       else if length non_trivial_treedefs > 1 then Inl (ConflictingStructure axis)
       else
         let treedef = (if length non_trivial_treedefs = 1 then hd non_trivial_treedefs
                        else TRIVIAL_TREEDEF) in
         bindE (mapE (\<lambda>opnd. nth_py (fst (snd opnd)) axis) ops) (\<lambda>shs.
           let non_trivial_shapes = remdups (filter (\<lambda>s. length s \<noteq> 1) shs) in
           if axis = dimension \<and> non_trivial_shapes \<noteq> [] then Inl (InvalidConcatenateAxis axis)
           else if length non_trivial_shapes > 1 then Inl (ConflictingShape axis)
           else if length non_trivial_shapes = 1 then Inr (treedef, hd non_trivial_shapes)
           else
             let lengths = map axis_length shs in
             if axis = dimension then Inr (treedef, [[sum_list lengths]])
             else bindE (unpack1 lengths) (\<lambda>size. Inr (treedef, [[size]]))))"

definition concatenate_fix_axis ::
  "leafshapes \<Rightarrow> nat \<Rightarrow> leafshapes \<Rightarrow> nat \<Rightarrow> ndarray leaves \<Rightarrow> error + ndarray leaves" where
  "concatenate_fix_axis out_lss dimension lss axis lvs =
     (if axis \<noteq> dimension
      then bindE (nth_py lss axis) (\<lambda>own.
           bindE (nth_py out_lss axis) (\<lambda>adopted.
             if own \<noteq> adopted then split_leaves lss lvs axis adopted else Inr lvs))
      else Inr lvs)"

definition concatenate_fix ::
  "leafshapes \<Rightarrow> nat \<Rightarrow> nat \<Rightarrow> operand \<Rightarrow> error + ndarray leaves" where
  "concatenate_fix out_lss ndim dimension opnd =
     foldE (concatenate_fix_axis out_lss dimension (fst (snd opnd))) [0..<ndim]
       (snd (snd opnd))"

definition concatenate_tree_rule ::
  "(ndarray list \<Rightarrow> nat \<Rightarrow> error + ndarray) \<Rightarrow> operand list \<Rightarrow> nat
     \<Rightarrow> error + (treedef list \<times> leafshapes \<times> ndarray leaves)" where
  "concatenate_tree_rule concat_p ops dimension =
     bindE (unpack1 (remdups (map (\<lambda>opnd. length (fst opnd)) ops))) (\<lambda>ndim.
     bindE (mapE (concatenate_axis ops dimension) [0..<ndim]) (\<lambda>outs.
       let out_treedefs = map fst outs; out_leafshapes = map snd outs in
       bindE (mapE (concatenate_fix out_leafshapes ndim dimension) ops) (\<lambda>leaves_fixed.
       bindE (mapE (\<lambda>coords.
                bindE (mapE (\<lambda>lvs. lookup lvs coords) leaves_fixed) (\<lambda>args.
                bindE (axes_for_leaf out_leafshapes coords [dimension]) (\<lambda>leaf_dims.
                bindE (unpack1 leaf_dims) (\<lambda>leaf_dim.
                bindE (concat_p args leaf_dim) (\<lambda>r. Inr (coords, r))))))
              (iter_leaf_coords out_treedefs))
         (\<lambda>kvs. Inr (out_treedefs, out_leafshapes, dict_of kvs)))))"

section \<open>The squeeze rule\<close>

definition squeeze_check :: "nat list \<Rightarrow> nat \<times> treedef \<Rightarrow> error + unit" where
  "squeeze_check dimensions itd =
     (if fst itd \<in> set dimensions \<and> snd itd \<noteq> TRIVIAL_TREEDEF
      then Inl (InvalidSqueezeAxis (fst itd)) else Inr ())"

definition drop_axes :: "nat list \<Rightarrow> 'a list \<Rightarrow> 'a list" where
  "drop_axes dimensions xs =
     map snd (filter (\<lambda>ix. fst ix \<notin> set dimensions) (enumerate 0 xs))"

definition squeeze_tree_rule ::
  "operand list \<Rightarrow> nat list \<Rightarrow> error + (treedef list \<times> leafshapes \<times> ndarray leaves)" where
  "squeeze_tree_rule ops dimensions =
     bindE (unpack1 ops) (\<lambda>opnd.
       let tds = fst opnd; lss = fst (snd opnd); lvs = snd (snd opnd) in
       bindE (mapE (squeeze_check dimensions) (enumerate 0 tds)) (\<lambda>_.
         let out_treedefs = drop_axes dimensions tds;
             out_leafshapes = drop_axes dimensions lss in
         bindE (mapE (\<lambda>io.
                  bindE (lookup lvs (fst io)) (\<lambda>leaf.
                  bindE (axes_for_leaf lss (fst io) dimensions) (\<lambda>leaf_dims.
                  bindE (squeeze leaf leaf_dims) (\<lambda>r. Inr (snd io, r)))))
                (zip (iter_leaf_coords tds) (iter_leaf_coords out_treedefs)))
           (\<lambda>kvs. Inr (out_treedefs, out_leafshapes, dict_of kvs))))"

section \<open>The reduction rule\<close>

text \<open>\<^verbatim>\<open>functools.reduce\<close> without an initial value: it raises on an empty list.\<close>

definition reduce_py ::
  "('a \<Rightarrow> 'a \<Rightarrow> error + 'a) \<Rightarrow> 'a list \<Rightarrow> error + 'a" where
  "reduce_py binop v =
     (case v of [] \<Rightarrow> Inl TypeError
      | x # xs \<Rightarrow> foldE (\<lambda>y acc. binop acc y) xs x)"

definition nodes_append ::
  "nat list \<Rightarrow> 'a \<Rightarrow> 'a list leaves \<Rightarrow> error + 'a list leaves" where
  "nodes_append out_coords x nodes =
     bindE (lookup nodes out_coords) (\<lambda>v. Inr (AList.update out_coords (v @ [x]) nodes))"

definition reduce_nodes ::
  "('a \<Rightarrow> 'a \<Rightarrow> error + 'a) \<Rightarrow> 'a list leaves \<Rightarrow> error + 'a leaves" where
  "reduce_nodes binop nodes =
     bindE (mapE (\<lambda>kv. bindE (reduce_py binop (snd kv)) (\<lambda>r. Inr (fst kv, r))) nodes)
       (\<lambda>kvs. Inr (dict_of kvs))"

text \<open>
  Both accumulating rules run one loop over input coordinates whose body computes an
  output coordinate and a kernel result, and appends the result to the list stored at
  that coordinate.
\<close>

definition accumulate ::
  "('c \<Rightarrow> error + (nat list \<times> 'a)) \<Rightarrow> 'c list \<Rightarrow> 'a list leaves \<Rightarrow> error + 'a list leaves" where
  "accumulate contrib cs out_nodes =
     foldE (\<lambda>c nodes. bindE (contrib c) (\<lambda>kx. nodes_append (fst kx) (snd kx) nodes))
       cs out_nodes"

definition reducer_contrib ::
  "(ndarray \<Rightarrow> nat list \<Rightarrow> error + ndarray) \<Rightarrow> leafshapes \<Rightarrow> ndarray leaves \<Rightarrow> nat list
     \<Rightarrow> nat list \<Rightarrow> error + (nat list \<times> ndarray)" where
  "reducer_contrib prim lss lvs axes in_coords =
     (let out_coords = drop_axes axes in_coords in
      bindE (axes_for_leaf lss in_coords axes) (\<lambda>leaf_axes.
      bindE (lookup lvs in_coords) (\<lambda>leaf.
      bindE (prim leaf leaf_axes) (\<lambda>reduced_leaf.
        Inr (out_coords, reduced_leaf)))))"

definition reducer_tree_rule ::
  "(ndarray \<Rightarrow> nat list \<Rightarrow> error + ndarray) \<Rightarrow> (ndarray \<Rightarrow> ndarray \<Rightarrow> error + ndarray)
     \<Rightarrow> operand list \<Rightarrow> nat list
     \<Rightarrow> error + (treedef list \<times> leafshapes \<times> ndarray leaves)" where
  "reducer_tree_rule prim binop ops axes =
     bindE (unpack1 ops) (\<lambda>opnd.
       let tds = fst opnd; lss = fst (snd opnd); lvs = snd (snd opnd);
           out_treedefs = drop_axes axes tds;
           out_leafshapes = drop_axes axes lss;
           out_nodes = dict_of (map (\<lambda>coords. (coords, [])) (iter_leaf_coords out_treedefs))
       in
       bindE (accumulate (reducer_contrib prim lss lvs axes) (iter_leaf_coords tds) out_nodes)
         (\<lambda>nodes. bindE (reduce_nodes binop nodes)
            (\<lambda>out_leaves. Inr (out_treedefs, out_leafshapes, out_leaves))))"

section \<open>The contraction rule\<close>

type_synonym dimension_numbers = "(nat list \<times> nat list) \<times> (nat list \<times> nat list)"

definition unpack2 :: "'a list \<Rightarrow> error + ('a \<times> 'a)" where
  "unpack2 xs = (case xs of [x, y] \<Rightarrow> Inr (x, y) | _ \<Rightarrow> Inl UnpackError)"

definition dot_check :: "operand \<Rightarrow> operand \<Rightarrow> nat \<times> nat \<Rightarrow> error + unit" where
  "dot_check lhs rhs lr =
     bindE (nth_py (fst lhs) (fst lr)) (\<lambda>ltd.
     bindE (nth_py (fst rhs) (snd lr)) (\<lambda>rtd.
       if ltd \<noteq> rtd then Inl (ConflictingStructure (fst lr))
       else
         bindE (nth_py (fst (snd lhs)) (fst lr)) (\<lambda>lsh.
         bindE (nth_py (fst (snd rhs)) (snd lr)) (\<lambda>rsh.
           if lsh \<noteq> rsh then Inl (ConflictingShape (fst lr)) else Inr ()))))"

definition dot_rhs_coords ::
  "nat list \<Rightarrow> nat list \<Rightarrow> nat list \<Rightarrow> nat list \<Rightarrow> nat list \<Rightarrow> error + nat list" where
  "dot_rhs_coords lhs_contracting rhs_contracting batch lhs_coords rhs_nonbatch_coords =
     bindE (foldE (\<lambda>lr rhs_only_coords.
                     bindE (nth_py lhs_coords (fst lr))
                       (\<lambda>c. Inr (list_insert (snd lr) c rhs_only_coords)))
              (zip lhs_contracting rhs_contracting) rhs_nonbatch_coords)
       (\<lambda>rhs_only_coords. Inr (take (length batch) lhs_coords @ rhs_only_coords))"

definition dot_contrib ::
  "(ndarray \<Rightarrow> ndarray \<Rightarrow> dimension_numbers \<Rightarrow> error + ndarray) \<Rightarrow> operand \<Rightarrow> operand
     \<Rightarrow> nat list \<Rightarrow> nat list \<Rightarrow> nat list \<Rightarrow> nat list \<Rightarrow> nat list
     \<Rightarrow> nat list \<times> nat list \<Rightarrow> error + (nat list \<times> ndarray)" where
  "dot_contrib dot_p lhs rhs lhs_contracting rhs_contracting batch lhs_remaining rhs_remaining
      cc =
     (let lhs_coords = fst cc in
      bindE (dot_rhs_coords lhs_contracting rhs_contracting batch lhs_coords (snd cc))
        (\<lambda>rhs_coords.
      bindE (mapE (nth_py lhs_coords) (batch @ lhs_remaining)) (\<lambda>out_l.
      bindE (mapE (nth_py rhs_coords) rhs_remaining) (\<lambda>out_r.
      bindE (axes_for_leaf (fst (snd lhs)) lhs_coords lhs_contracting) (\<lambda>leaf_lhs_contracting.
      bindE (axes_for_leaf (fst (snd rhs)) rhs_coords rhs_contracting) (\<lambda>leaf_rhs_contracting.
      bindE (axes_for_leaf (fst (snd lhs)) lhs_coords batch) (\<lambda>leaf_batch.
      bindE (axes_for_leaf (fst (snd rhs)) rhs_coords batch) (\<lambda>leaf_batch_rhs.
        if leaf_batch \<noteq> leaf_batch_rhs then Inl AssertionError
        else
          bindE (lookup (snd (snd lhs)) lhs_coords) (\<lambda>l.
          bindE (lookup (snd (snd rhs)) rhs_coords) (\<lambda>r.
          bindE (dot_p l r ((leaf_lhs_contracting, leaf_rhs_contracting),
                            (leaf_batch, leaf_batch))) (\<lambda>reduced_leaf.
            Inr (out_l @ out_r, reduced_leaf))))))))))))"

definition dot_general_tree_rule ::
  "(ndarray \<Rightarrow> ndarray \<Rightarrow> dimension_numbers \<Rightarrow> error + ndarray)
     \<Rightarrow> (ndarray \<Rightarrow> ndarray \<Rightarrow> error + ndarray) \<Rightarrow> operand list \<Rightarrow> dimension_numbers
     \<Rightarrow> error + (treedef list \<times> leafshapes \<times> ndarray leaves)" where
  "dot_general_tree_rule dot_p add ops dimension_numbers =
     (let lhs_contracting = fst (fst dimension_numbers);
          rhs_contracting = snd (fst dimension_numbers);
          lhs_batch = fst (snd dimension_numbers);
          rhs_batch = snd (snd dimension_numbers) in
      bindE (unpack1 (remdups [lhs_batch, rhs_batch])) (\<lambda>batch.
      bindE (unpack2 ops) (\<lambda>lr.
        let lhs = fst lr; rhs = snd lr in
        bindE (mapE (dot_check lhs rhs)
                 (zip batch batch @ zip lhs_contracting rhs_contracting)) (\<lambda>_.
          let lhs_remaining =
                filter (\<lambda>i. i \<notin> set (lhs_contracting @ batch)) [0..<length (fst lhs)];
              rhs_remaining =
                filter (\<lambda>i. i \<notin> set (rhs_contracting @ batch)) [0..<length (fst rhs)] in
          bindE (mapE (nth_py (fst lhs)) (batch @ lhs_remaining)) (\<lambda>td_l.
          bindE (mapE (nth_py (fst rhs)) rhs_remaining) (\<lambda>td_r.
          bindE (mapE (nth_py (fst (snd lhs))) (batch @ lhs_remaining)) (\<lambda>ls_l.
          bindE (mapE (nth_py (fst (snd rhs))) rhs_remaining) (\<lambda>ls_r.
            let out_treedefs = td_l @ td_r;
                out_leafshapes = ls_l @ ls_r;
                out_nodes = dict_of (map (\<lambda>coords. (coords, []))
                                       (iter_leaf_coords out_treedefs)) in
            bindE (mapE (nth_py (fst rhs)) rhs_remaining) (\<lambda>rhs_nonbatch_treedefs.
            bindE (accumulate (dot_contrib dot_p lhs rhs lhs_contracting rhs_contracting batch
                            lhs_remaining rhs_remaining)
                     (List.product (iter_leaf_coords (fst lhs))
                        (iter_leaf_coords rhs_nonbatch_treedefs))
                     out_nodes) (\<lambda>nodes.
            bindE (reduce_nodes add nodes) (\<lambda>out_leaves.
              Inr (out_treedefs, out_leafshapes, out_leaves))))))))))))"

section \<open>Kernels for the worked examples\<close>

text \<open>
  Modelled from the spec: the numeric kernels of \<^verbatim>\<open>jax.lax\<close> (\<^verbatim>\<open>reduce_sum_p\<close>,
  \<^verbatim>\<open>reduce_max_p\<close>, \<^verbatim>\<open>add_p\<close>, \<^verbatim>\<open>max_p\<close>, \<^verbatim>\<open>dot_general_p\<close>, \<^verbatim>\<open>concatenate_p\<close>) and
  the promotion and cast of \<^verbatim>\<open>jax.numpy\<close> (\<^verbatim>\<open>result_type\<close>, \<^verbatim>\<open>asarray\<close>), with their
  ordinary array semantics on exact numbers. The rules take their kernels as arguments;
  these definitions instantiate them.
\<close>

definition all_indices :: "nat list \<Rightarrow> nat list list" where
  "all_indices shp = product_lists (map (\<lambda>n. [0..<n]) shp)"

definition ravel :: "nat list \<Rightarrow> nat list \<Rightarrow> nat" where
  "ravel shp idx = foldl (\<lambda>acc ni. acc * fst ni + snd ni) 0 (zip shp idx)"

definition elem_at :: "ndarray \<Rightarrow> nat list \<Rightarrow> real" where
  "elem_at a idx = elems a ! ravel (shape a) idx"

definition reduce_kernel ::
  "(real list \<Rightarrow> error + real) \<Rightarrow> ndarray \<Rightarrow> nat list \<Rightarrow> error + ndarray" where
  "reduce_kernel comb a axes =
     (if list_all (\<lambda>d. d < length (shape a)) axes
      then bindE (mapE (\<lambda>oidx.
                    comb (map (elem_at a)
                            (filter (\<lambda>idx. drop_axes axes idx = oidx) (all_indices (shape a)))))
                  (all_indices (drop_axes axes (shape a))))
             (\<lambda>es. Inr \<lparr>dtype = dtype a, shape = drop_axes axes (shape a), elems = es\<rparr>)
      else Inl KernelError)"

definition reduce_sum_p :: "ndarray \<Rightarrow> nat list \<Rightarrow> error + ndarray" where
  "reduce_sum_p = reduce_kernel (\<lambda>vs. Inr (sum_list vs))"

definition reduce_max_p :: "ndarray \<Rightarrow> nat list \<Rightarrow> error + ndarray" where
  "reduce_max_p =
     reduce_kernel (\<lambda>vs. case vs of [] \<Rightarrow> Inl KernelError | v # ws \<Rightarrow> Inr (foldl max v ws))"

text \<open>
  The elementwise kernels are defined on operands of one shape and element type;
  broadcasting inside a kernel is not modelled.
\<close>

definition binary_kernel ::
  "(real \<Rightarrow> real \<Rightarrow> real) \<Rightarrow> ndarray \<Rightarrow> ndarray \<Rightarrow> error + ndarray" where
  "binary_kernel f a b =
     (if shape a = shape b \<and> dtype a = dtype b
      then Inr \<lparr>dtype = dtype a, shape = shape a, elems = map2 f (elems a) (elems b)\<rparr>
      else Inl KernelError)"

definition add_p :: "ndarray \<Rightarrow> ndarray \<Rightarrow> error + ndarray" where
  "add_p = binary_kernel (+)"

definition max_p :: "ndarray \<Rightarrow> ndarray \<Rightarrow> error + ndarray" where
  "max_p = binary_kernel max"

text \<open>A binary kernel bound to its argument list, as \<^verbatim>\<open>prim.bind(*args)\<close> receives it.\<close>

definition bind2 ::
  "(ndarray \<Rightarrow> ndarray \<Rightarrow> error + ndarray) \<Rightarrow> ndarray list \<Rightarrow> error + ndarray" where
  "bind2 f args = (case args of [a, b] \<Rightarrow> f a b | _ \<Rightarrow> Inl KernelError)"

definition assemble :: "nat \<Rightarrow> (nat \<times> nat) list \<Rightarrow> nat list" where
  "assemble n dv = map (\<lambda>d. case map_of dv d of None \<Rightarrow> 0 | Some v \<Rightarrow> v) [0..<n]"

definition dot_general_p ::
  "ndarray \<Rightarrow> ndarray \<Rightarrow> dimension_numbers \<Rightarrow> error + ndarray" where
  "dot_general_p a b dn =
     (let lc = fst (fst dn); rc = snd (fst dn); lb = fst (snd dn); rb = snd (snd dn);
          la = length (shape a); ra = length (shape b);
          lf = filter (\<lambda>d. d \<notin> set (lc @ lb)) [0..<la];
          rf = filter (\<lambda>d. d \<notin> set (rc @ rb)) [0..<ra] in
      if length lc = length rc \<and> length lb = length rb
         \<and> distinct (lc @ lb) \<and> distinct (rc @ rb)
         \<and> list_all (\<lambda>d. d < la) (lc @ lb) \<and> list_all (\<lambda>d. d < ra) (rc @ rb)
         \<and> map ((!) (shape a)) (lc @ lb) = map ((!) (shape b)) (rc @ rb)
         \<and> dtype a = dtype b
      then
        let bs = map ((!) (shape a)) lb; cs = map ((!) (shape a)) lc;
            lfs = map ((!) (shape a)) lf; rfs = map ((!) (shape b)) rf in
        Inr \<lparr>dtype = dtype a, shape = bs @ lfs @ rfs,
             elems =
               map (\<lambda>oi.
                      let bi = take (length bs) oi;
                          li = take (length lfs) (drop (length bs) oi);
                          ri = drop (length bs + length lfs) oi in
                      sum_list
                        (map (\<lambda>ci.
                                elem_at a (assemble la (zip lb bi @ zip lc ci @ zip lf li))
                                * elem_at b (assemble ra (zip rb bi @ zip rc ci @ zip rf ri)))
                           (all_indices cs)))
                 (all_indices (bs @ lfs @ rfs))\<rparr>
      else Inl KernelError)"

definition concatenate_p :: "ndarray list \<Rightarrow> nat \<Rightarrow> error + ndarray" where
  "concatenate_p args d =
     (case args of
        [] \<Rightarrow> Inl KernelError
      | a # rest \<Rightarrow>
          if d < length (shape a)
             \<and> list_all (\<lambda>b. dtype b = dtype a \<and> length (shape b) = length (shape a)
                              \<and> (shape b)[d := 0] = (shape a)[d := 0]) rest
          then
            let inner = prod_list (drop (Suc d) (shape a)) in
            Inr \<lparr>dtype = dtype a,
                 shape = (shape a)[d := sum_list (map (\<lambda>b. shape b ! d) args)],
                 elems =
                   concat (map (\<lambda>r. concat (map (\<lambda>b.
                                       take (shape b ! d * inner)
                                         (drop (r * (shape b ! d * inner)) (elems b))) args))
                             [0..<prod_list (take d (shape a))])\<rparr>
          else Inl KernelError)"

definition dtype_rank :: "dtype \<Rightarrow> nat" where
  "dtype_rank d = (case d of DBool \<Rightarrow> 0 | DInt \<Rightarrow> 1 | DFloat \<Rightarrow> 2)"

definition result_type :: "ndarray list \<Rightarrow> error + dtype" where
  "result_type xs =
     (case xs of
        [] \<Rightarrow> Inl KernelError
      | x # rest \<Rightarrow>
          Inr (fold (\<lambda>y d. if dtype_rank d < dtype_rank (dtype y) then dtype y else d)
                 rest (dtype x)))"

definition asarray :: "ndarray \<Rightarrow> dtype \<Rightarrow> ndarray" where
  "asarray x d = x\<lparr>dtype := d\<rparr>"

text \<open>
  Modelled from the spec: the cast \<^verbatim>\<open>jnp.asarray\<close> of \<^verbatim>\<open>jax.numpy\<close> with the rounding
  of its element types, for JAX's default 32-bit types. A cast to the floating-point type
  rounds every element to the nearest number with a significand of 24 bits, a tie going
  to the even significand; below the normal range the spacing is \<open>2 ^ - 149\<close>. A cast to
  the integer type truncates towards zero, and a cast to the boolean type tests for
  zero. The infinities beyond the largest finite floating-point number and the
  wrap-around of the integer type are not modelled.
\<close>

definition round_half_even :: "real \<Rightarrow> int" where
  "round_half_even x =
     (let f = \<lfloor>x\<rfloor>; d = x - of_int f in
      if d < 1 / 2 then f else if 1 / 2 < d then f + 1 else if even f then f else f + 1)"

text \<open>The exponent \<open>e\<close> of a number that is not zero: \<open>2 ^ e \<le> \<bar>x\<bar> < 2 ^ (e + 1)\<close>.\<close>

definition float32_exponent :: "real \<Rightarrow> int" where
  "float32_exponent x =
     (if 1 \<le> \<bar>x\<bar> then bitlen \<lfloor>\<bar>x\<bar>\<rfloor> - 1 else - bitlen (\<lceil>1 / \<bar>x\<bar>\<rceil> - 1))"

definition round_float32 :: "real \<Rightarrow> real" where
  "round_float32 x =
     (if x = 0 then 0
      else let e = max (float32_exponent x) (- 126); q = 2 powi (e - 23)
           in of_int (round_half_even (x / q)) * q)"

definition cast_elem :: "dtype \<Rightarrow> real \<Rightarrow> real" where
  "cast_elem d v =
     (case d of
        DBool \<Rightarrow> (if v = 0 then 0 else 1)
      | DInt \<Rightarrow> of_int (if 0 \<le> v then \<lfloor>v\<rfloor> else \<lceil>v\<rceil>)
      | DFloat \<Rightarrow> round_float32 v)"

definition asarray_rounding :: "ndarray \<Rightarrow> dtype \<Rightarrow> ndarray" where
  "asarray_rounding x d = x\<lparr>dtype := d, elems := map (cast_elem d) (elems x)\<rparr>"

section \<open>Worked examples\<close>

definition scalar :: "dtype \<Rightarrow> real \<Rightarrow> ndarray" where
  "scalar d v = \<lparr>dtype = d, shape = [], elems = [v]\<rparr>"

text \<open>
  The container \<^verbatim>\<open>{'x': 1.0, 'y': [2.0], 'z': [[3.0, 4.0]]}\<close> of the tests
  \<^verbatim>\<open>test_reduce\<close> and \<^verbatim>\<open>test_dot\<close>, whose values are arrays of shapes \<open>()\<close>, \<open>(1,)\<close>
  and \<open>(1, 2)\<close>; and the same container read as nested Python lists of scalars.
\<close>

definition example_tree :: "ndarray pytree" where
  "example_tree =
     PNode (DictNode [''x'', ''y'', ''z''])
       [PLeaf (scalar DFloat 1),
        PLeaf \<lparr>dtype = DFloat, shape = [1], elems = [2]\<rparr>,
        PLeaf \<lparr>dtype = DFloat, shape = [1, 2], elems = [3, 4]\<rparr>]"

definition example_tree_lists :: "ndarray pytree" where
  "example_tree_lists =
     PNode (DictNode [''x'', ''y'', ''z''])
       [PLeaf (scalar DFloat 1),
        PNode ListNode [PLeaf (scalar DFloat 2)],
        PNode ListNode [PNode ListNode [PLeaf (scalar DFloat 3), PLeaf (scalar DFloat 4)]]]"

text \<open>
  The container \<^verbatim>\<open>{'a': 0, 'b': np.array([1.0]), 'c': np.array([2, 3])}\<close> of
  \<^verbatim>\<open>test_convert_vectorized_tree\<close>: integer and floating-point leaves.
\<close>

definition mixed_tree :: "ndarray pytree" where
  "mixed_tree =
     PNode (DictNode [''a'', ''b'', ''c''])
       [PLeaf (scalar DInt 0),
        PLeaf \<lparr>dtype = DFloat, shape = [1], elems = [1]\<rparr>,
        PLeaf \<lparr>dtype = DInt, shape = [2], elems = [2, 3]\<rparr>]"

text \<open>
  The container \<^verbatim>\<open>{'a': 16777217, 'b': 1.0}\<close>: the integer \<open>2 ^ 24 + 1\<close> is not a
  32-bit floating-point number. And the container \<^verbatim>\<open>{}\<close>, which has no leaves.
\<close>

definition large_int_tree :: "ndarray pytree" where
  "large_int_tree =
     PNode (DictNode [''a'', ''b''])
       [PLeaf (scalar DInt 16777217), PLeaf (scalar DFloat 1)]"

definition leafless_tree :: "ndarray pytree" where
  "leafless_tree = PNode (DictNode []) []"

text \<open>Restoring the container of a rule's result.\<close>

definition restore_state ::
  "treedef list \<times> leafshapes \<times> ndarray leaves \<Rightarrow> error + ndarray pytree" where
  "restore_state st = restore_tree (fst st) (snd (snd st))"

text \<open>
  Operands for the structural checks. The descriptors of \<^verbatim>\<open>{'a': 0, 'b': 0}\<close> and
  \<^verbatim>\<open>{'c': 0, 'd': 0}\<close>; one-axis values built from these containers; and two-axis
  values, as \<^verbatim>\<open>x[:, None] + y[None, :]\<close> produces them, whose first axes share the
  descriptor of \<^verbatim>\<open>{'a', 'b'}\<close> with scalar segments in one and segments of shape \<open>(1,)\<close>
  in the other, and whose second axes carry the two different descriptors.
\<close>

definition treedef_ab :: treedef where
  "treedef_ab = TNode (DictNode [''a'', ''b'']) [TLeaf, TLeaf]"

definition treedef_cd :: treedef where
  "treedef_cd = TNode (DictNode [''c'', ''d'']) [TLeaf, TLeaf]"

definition operand_ab :: operand where
  "operand_ab = ([treedef_ab], [[[], []]], [([0], scalar DInt 0), ([1], scalar DInt 0)])"

definition operand_cd :: operand where
  "operand_cd = ([treedef_cd], [[[], []]], [([0], scalar DInt 0), ([1], scalar DInt 0)])"

definition operand_ab_ab :: operand where
  "operand_ab_ab =
     ([treedef_ab, treedef_ab], [[[], []], [[], []]],
      [([0, 0], scalar DInt 1), ([0, 1], scalar DInt 2),
       ([1, 0], scalar DInt 3), ([1, 1], scalar DInt 4)])"

definition operand_ab1_cd :: operand where
  "operand_ab1_cd =
     ([treedef_ab, treedef_cd], [[[1], [1]], [[], []]],
      [([0, 0], \<lparr>dtype = DInt, shape = [1], elems = [1]\<rparr>),
       ([0, 1], \<lparr>dtype = DInt, shape = [1], elems = [2]\<rparr>),
       ([1, 0], \<lparr>dtype = DInt, shape = [1], elems = [3]\<rparr>),
       ([1, 1], \<lparr>dtype = DInt, shape = [1], elems = [4]\<rparr>)])"

text \<open>
  The plain vectors \<^verbatim>\<open>jnp.arange(3)\<close> and \<^verbatim>\<open>jnp.arange(3, 5)\<close> of
  \<^verbatim>\<open>test_concatenate_trivial\<close>, as \<^verbatim>\<open>convert_leaf_array\<close> represents them.
\<close>

definition operand_arange3 :: operand where
  "operand_arange3 = ([TLeaf], [[[3]]], [([0], \<lparr>dtype = DInt, shape = [3], elems = [0, 1, 2]\<rparr>)])"

definition operand_arange2 :: operand where
  "operand_arange2 = ([TLeaf], [[[2]]], [([0], \<lparr>dtype = DInt, shape = [2], elems = [3, 4]\<rparr>)])"

text \<open>
  The value \<^verbatim>\<open>x[:, None]\<close> for \<^verbatim>\<open>x = {'a': 1, 'b': 2}\<close>: a container axis followed by a
  plain axis of length 1.
\<close>

definition operand_ab_expanded :: operand where
  "operand_ab_expanded =
     ([treedef_ab, TLeaf], [[[], []], [[1]]],
      [([0, 0], \<lparr>dtype = DInt, shape = [1], elems = [1]\<rparr>),
       ([1, 0], \<lparr>dtype = DInt, shape = [1], elems = [2]\<rparr>)])"

text \<open>
  Operands for a batched contraction, as \<^verbatim>\<open>lax.dot_general\<close> with
  \<^verbatim>\<open>dimension_numbers=(((2,), (1,)), ((0,), (0,)))\<close> receives them: a left value with
  the axes (batch, row, contracted) and a right value with the axes (batch, contracted,
  column). The batch and row axes are plain of length 1; the contracted axis carries the
  container \<^verbatim>\<open>{'a', 'b'}\<close> and the column axis the container \<^verbatim>\<open>{'c', 'd'}\<close>, with
  scalar segments. The left blocks hold \<open>1\<close> and \<open>2\<close>; the right blocks hold the matrix
  with the rows \<open>(3, 4)\<close> and \<open>(5, 6)\<close>.
\<close>

definition operand_bmk :: operand where
  "operand_bmk =
     ([TLeaf, TLeaf, treedef_ab], [[[1]], [[1]], [[], []]],
      [([0, 0, 0], \<lparr>dtype = DFloat, shape = [1, 1], elems = [1]\<rparr>),
       ([0, 0, 1], \<lparr>dtype = DFloat, shape = [1, 1], elems = [2]\<rparr>)])"

definition operand_bkn :: operand where
  "operand_bkn =
     ([TLeaf, treedef_ab, treedef_cd], [[[1]], [[], []], [[], []]],
      [([0, 0, 0], \<lparr>dtype = DFloat, shape = [1], elems = [3]\<rparr>),
       ([0, 0, 1], \<lparr>dtype = DFloat, shape = [1], elems = [4]\<rparr>),
       ([0, 1, 0], \<lparr>dtype = DFloat, shape = [1], elems = [5]\<rparr>),
       ([0, 1, 1], \<lparr>dtype = DFloat, shape = [1], elems = [6]\<rparr>)])"

text \<open>
  A plain matrix of shape \<open>(1, 2)\<close>, as \<^verbatim>\<open>convert_leaf_array\<close> represents it.
\<close>

definition operand_m12 :: operand where
  "operand_m12 =
     ([TLeaf, TLeaf], [[[1]], [[2]]],
      [([0, 0], \<lparr>dtype = DInt, shape = [1, 2], elems = [1, 2]\<rparr>)])"

section \<open>Basic facts\<close>

lemma bindE_Inl [simp]: "bindE (Inl e) f = Inl e"
  by (simp add: bindE_def)

lemma bindE_Inr [simp]: "bindE (Inr x) f = f x"
  by (simp add: bindE_def)

lemma bindE_eq_Inr: "bindE m f = Inr y \<longleftrightarrow> (\<exists>x. m = Inr x \<and> f x = Inr y)"
  by (cases m) simp_all

lemma bindE_assoc: "bindE (bindE m f) g = bindE m (\<lambda>x. bindE (f x) g)"
  by (cases m) simp_all

lemma mapE_total: "mapE (\<lambda>x. Inr (g x)) xs = Inr (map g xs)"
  by (induction xs) simp_all

lemma mapE_cong_set: "(\<And>x. x \<in> set xs \<Longrightarrow> f x = g x) \<Longrightarrow> mapE f xs = mapE g xs"
  by (induction xs) (simp_all cong: sum.case_cong)

lemma mapE_eq_Inr:
  "mapE f xs = Inr ys \<longleftrightarrow> list_all2 (\<lambda>x y. f x = Inr y) xs ys"
proof (induction xs arbitrary: ys)
  case Nil
  then show ?case by auto
next
  case (Cons x xs)
  show ?case
  proof (cases ys)
    case Nil
    then show ?thesis by (simp split: sum.splits)
  next
    case (Cons y ys')
    have "mapE f xs = Inr ys' \<longleftrightarrow> list_all2 (\<lambda>x y. f x = Inr y) xs ys'"
      by (rule Cons.IH)
    then show ?thesis
      using Cons by (cases "f x"; cases "mapE f xs") auto
  qed
qed

lemma update_fresh: "k \<notin> fst ` set d \<Longrightarrow> AList.update k v d = d @ [(k, v)]"
  by (induction d) auto

lemma fold_update_distinct:
  "distinct (map fst kvs) \<Longrightarrow> fst ` set kvs \<inter> fst ` set d = {} \<Longrightarrow>
   fold (\<lambda>kv d. AList.update (fst kv) (snd kv) d) kvs d = d @ kvs"
proof (induction kvs arbitrary: d)
  case Nil
  then show ?case by simp
next
  case (Cons kv kvs)
  have fresh: "fst kv \<notin> fst ` set d" using Cons.prems(2) by auto
  have "fst ` set kvs \<inter> fst ` set (d @ [kv]) = {}"
    using Cons.prems by auto
  with Cons show ?case by (simp add: update_fresh [OF fresh])
qed

lemma dict_of_distinct: "distinct (map fst kvs) \<Longrightarrow> dict_of kvs = kvs"
  by (simp add: dict_of_def fold_update_distinct)

lemma num_leaves_structure: "num_leaves (tree_structure c) = length (tree_leaves c)"
proof (induction c)
  case (PLeaf x)
  show ?case by simp
next
  case (PNode k cs)
  then show ?case
    by (induction cs) (simp_all add: length_concat)
qed

lemma build_list_graft:
  assumes "\<And>c. c \<in> set cs \<Longrightarrow> build (tree_structure c) (map (\<lambda>x. PLeaf (f x)) (tree_leaves c)) = map_pytree f c"
  shows "build_list (map tree_structure cs) (map (\<lambda>x. PLeaf (f x)) (concat (map tree_leaves cs)))
         = map (map_pytree f) cs"
  using assms
proof (induction cs)
  case Nil
  show ?case by simp
next
  case (Cons c cs)
  then show ?case by (simp add: num_leaves_structure)
qed

lemma build_graft:
  "build (tree_structure c) (map (\<lambda>x. PLeaf (f x)) (tree_leaves c)) = map_pytree f c"
proof (induction c)
  case (PLeaf x)
  show ?case by simp
next
  case (PNode k cs)
  then show ?case by (simp add: build_list_graft)
qed

lemma structure_map: "tree_structure (map_pytree f c) = tree_structure c"
  by (induction c) simp_all

lemma leaves_map: "tree_leaves (map_pytree f c) = map f (tree_leaves c)"
  by (induction c) (simp_all add: map_concat comp_def cong: map_cong)

lemma enumerate_keys_distinct: "distinct (map fst (map (\<lambda>il. ([fst il], g il)) (enumerate n xs)))"
proof -
  have "map fst (map (\<lambda>il. ([fst il], g il)) (enumerate n xs))
        = map (\<lambda>i. [i]) (map fst (enumerate n xs))"
    by (simp add: comp_def del: map_fst_enumerate)
  then show ?thesis
    by (simp add: distinct_map inj_on_def del: map_map)
qed

lemma convert_leaves:
  assumes "convert_vectorized_tree rt asarr c = Inr (tds, lss, lvs)"
  shows "\<exists>dt. rt (tree_leaves c) = Inr dt \<and> tds = [tree_structure c]
           \<and> lss = [map shape (tree_leaves c)]
           \<and> lvs = map (\<lambda>il. ([fst il], asarr (snd il) dt)) (enumerate 0 (tree_leaves c))"
  using assms
  by (auto simp: convert_vectorized_tree_def tree_flatten_def bindE_eq_Inr
        dict_of_distinct [OF enumerate_keys_distinct])

lemma lookup_enumerated:
  assumes "i < length xs"
  shows "lookup (map (\<lambda>il. ([fst il], g (snd il))) (enumerate 0 xs)) [i] = Inr (g (xs ! i))"
proof -
  have "(i, xs ! i) \<in> set (enumerate 0 xs)"
    using assms by (simp add: in_set_enumerate_eq)
  then have "([i], g (xs ! i)) \<in> set (map (\<lambda>il. ([fst il], g (snd il))) (enumerate 0 xs))"
    by force
  then have "map_of (map (\<lambda>il. ([fst il], g (snd il))) (enumerate 0 xs)) [i] = Some (g (xs ! i))"
    using enumerate_keys_distinct [of "\<lambda>il. g (snd il)" 0 xs] by (intro map_of_is_SomeI) auto
  then show ?thesis by (simp add: lookup_def)
qed

lemma mapE_lookup_enumerated:
  "mapE (\<lambda>i. lookup (map (\<lambda>il. ([fst il], g (snd il))) (enumerate 0 xs)) ([] @ [i]))
     [0..<length xs] = Inr (map g xs)"
proof -
  have "mapE (\<lambda>i. lookup (map (\<lambda>il. ([fst il], g (snd il))) (enumerate 0 xs)) ([] @ [i]))
          [0..<length xs] = mapE (\<lambda>i. Inr (g (xs ! i))) [0..<length xs]"
    apply (rule mapE_cong_set)
    apply (simp only: append_Nil)
    apply (subst lookup_enumerated)
     apply simp
    apply (rule refl)
    done
  also have "\<dots> = Inr (map (\<lambda>i. g (xs ! i)) [0..<length xs])"
    by (rule mapE_total)
  also have "map (\<lambda>i. g (xs ! i)) [0..<length xs] = map g (map ((!) xs) [0..<length xs])"
    by (simp only: map_map comp_def)
  also have "map ((!) xs) [0..<length xs] = xs"
    by (rule map_nth)
  finally show ?thesis .
qed

lemma restore_step_single:
  "restore_step [tree_structure c]
     (map (\<lambda>il. ([fst il], PLeaf (f (snd il)))) (enumerate 0 (tree_leaves c)))
   = Inr [([], map_pytree f c)]"
proof -
  have leaf_list:
    "mapE (\<lambda>i. lookup (map (\<lambda>il. ([fst il], PLeaf (f (snd il))))
                          (enumerate 0 (tree_leaves c))) ([] @ [i]))
       [0..<num_leaves (tree_structure c)] = Inr (map (\<lambda>x. PLeaf (f x)) (tree_leaves c))"
    unfolding num_leaves_structure by (rule mapE_lookup_enumerated)
  have unflat: "tree_unflatten (tree_structure c) (map (\<lambda>x. PLeaf (f x)) (tree_leaves c))
                = Inr (map_pytree f c)"
    by (simp add: tree_unflatten_def num_leaves_structure build_graft)
  have coords: "iter_leaf_coords (butlast [tree_structure c]) = [[]]"
    by (simp add: iter_leaf_coords_def)
  have last: "last [tree_structure c] = tree_structure c"
    by simp
  show ?thesis
    unfolding restore_step_def coords last
    by (simp only: mapE.simps leaf_list unflat bindE_Inr sum.case dict_of_def fold.simps
        AList.update.simps id_apply comp_apply fst_conv snd_conv)
qed

lemma restore_loop_nil: "restore_loop [] [([], t)] = Inr t"
  apply (subst restore_loop.simps)
  apply (simp add: lookup_def)
  done

lemma restore_loop_single:
  "restore_step [td] lvs = Inr fl \<Longrightarrow> restore_loop [td] lvs = restore_loop [] fl"
  apply (subst restore_loop.simps)
  apply simp
  done

lemma restore_single:
  "restore_tree [tree_structure c] (map (\<lambda>il. ([fst il], f (snd il))) (enumerate 0 (tree_leaves c)))
   = Inr (map_pytree f c)"
proof -
  have L: "map (\<lambda>kv. (fst kv, PLeaf (snd kv)))
             (map (\<lambda>il. ([fst il], f (snd il))) (enumerate 0 (tree_leaves c)))
           = map (\<lambda>il. ([fst il], PLeaf (f (snd il)))) (enumerate 0 (tree_leaves c))"
    by (simp only: map_map comp_def fst_conv snd_conv)
  show ?thesis
    unfolding restore_tree_def L
    by (simp only: restore_loop_single [OF restore_step_single] restore_loop_nil)
qed

section \<open>The conversion boundary: round trip and promotion\<close>

lemma convert_value:
  assumes "rt (tree_leaves c) = Inr dt"
  shows "convert_vectorized_tree rt asarr c
         = Inr ([tree_structure c], [map shape (tree_leaves c)],
                map (\<lambda>il. ([fst il], asarr (snd il) dt)) (enumerate 0 (tree_leaves c)))"
  using assms
  by (simp add: convert_vectorized_tree_def tree_flatten_def
      dict_of_distinct [OF enumerate_keys_distinct])

lemma convert_fails:
  "rt (tree_leaves c) = Inl e \<Longrightarrow> convert_vectorized_tree rt asarr c = Inl e"
  by (simp add: convert_vectorized_tree_def tree_flatten_def)

lemma map_pytree_unchanged:
  "(\<forall>x \<in> set (tree_leaves c). f x = x) \<Longrightarrow> map_pytree f c = c"
proof (induction c)
  case (PLeaf x)
  then show ?case by simp
next
  case (PNode k cs)
  have "map (map_pytree f) cs = map (\<lambda>c. c) cs"
  proof (rule map_cong [OF refl])
    fix c' assume c': "c' \<in> set cs"
    with PNode.prems have "\<forall>x \<in> set (tree_leaves c'). f x = x" by auto
    with c' show "map_pytree f c' = c'" by (rule PNode.IH)
  qed
  then show ?case by simp
qed

lemma result_type_defined: "xs \<noteq> [] \<Longrightarrow> \<exists>dt. result_type xs = Inr dt"
  by (cases xs) (simp_all add: result_type_def)

text \<open>
  Claim C2, as the code has it. Conversion needs the promoted element type of the
  leaves: where \<^verbatim>\<open>jnp.result_type\<close> fails, as it does on a container without leaves,
  conversion fails with it. Where it yields a type, conversion succeeds, and restoring
  what it produced yields the container with every leaf cast to that type: it has the
  container structure of the original, its leaves are, in order, the casts of the original
  leaves, and it is the original container when the cast changes none of its leaves.
  With a cast that keeps the shape and the elements of every leaf of the container, as
  the cast to the promoted type does unless it rounds, the restored leaves have the
  shapes and the elements of the original ones.
\<close>

theorem convert_restore_roundtrip:
  "(rt (tree_leaves c) = Inr dt \<longrightarrow>
      (\<exists>tds lss lvs. convert_vectorized_tree rt asarr c = Inr (tds, lss, lvs)
          \<and> restore_tree tds lvs = Inr (map_pytree (\<lambda>x. asarr x dt) c))
      \<and> tree_structure (map_pytree (\<lambda>x. asarr x dt) c) = tree_structure c
      \<and> tree_leaves (map_pytree (\<lambda>x. asarr x dt) c) = map (\<lambda>x. asarr x dt) (tree_leaves c)
      \<and> ((\<forall>x \<in> set (tree_leaves c). asarr x dt = x) \<longrightarrow> map_pytree (\<lambda>x. asarr x dt) c = c)
      \<and> ((\<forall>x \<in> set (tree_leaves c). shape (asarr x dt) = shape x \<and> elems (asarr x dt) = elems x)
            \<longrightarrow> map shape (tree_leaves (map_pytree (\<lambda>x. asarr x dt) c))
                  = map shape (tree_leaves c)
                \<and> map elems (tree_leaves (map_pytree (\<lambda>x. asarr x dt) c))
                  = map elems (tree_leaves c)))
   \<and> (rt (tree_leaves c) = Inl e \<longrightarrow> convert_vectorized_tree rt asarr c = Inl e)
   \<and> (tree_leaves c \<noteq> [] \<longrightarrow> (\<exists>dt'. result_type (tree_leaves c) = Inr dt'))
   \<and> (tree_leaves c = [] \<longrightarrow> convert_vectorized_tree result_type asarr c = Inl KernelError)"
proof (intro conjI impI)
  assume dt: "rt (tree_leaves c) = Inr dt"
  have "restore_tree [tree_structure c]
          (map (\<lambda>il. ([fst il], asarr (snd il) dt)) (enumerate 0 (tree_leaves c)))
        = Inr (map_pytree (\<lambda>x. asarr x dt) c)"
    by (rule restore_single)
  with convert_value [of rt c dt asarr, OF dt]
  show "\<exists>tds lss lvs. convert_vectorized_tree rt asarr c = Inr (tds, lss, lvs)
          \<and> restore_tree tds lvs = Inr (map_pytree (\<lambda>x. asarr x dt) c)"
    by blast
next
  show "tree_structure (map_pytree (\<lambda>x. asarr x dt) c) = tree_structure c"
    by (rule structure_map)
next
  show "tree_leaves (map_pytree (\<lambda>x. asarr x dt) c) = map (\<lambda>x. asarr x dt) (tree_leaves c)"
    by (rule leaves_map)
next
  assume "\<forall>x \<in> set (tree_leaves c). asarr x dt = x"
  then show "map_pytree (\<lambda>x. asarr x dt) c = c"
    by (rule map_pytree_unchanged)
next
  assume keep: "\<forall>x \<in> set (tree_leaves c).
                  shape (asarr x dt) = shape x \<and> elems (asarr x dt) = elems x"
  then show "map shape (tree_leaves (map_pytree (\<lambda>x. asarr x dt) c)) = map shape (tree_leaves c)"
    by (simp add: leaves_map)
  from keep
  show "map elems (tree_leaves (map_pytree (\<lambda>x. asarr x dt) c)) = map elems (tree_leaves c)"
    by (simp add: leaves_map)
next
  assume "rt (tree_leaves c) = Inl e"
  then show "convert_vectorized_tree rt asarr c = Inl e"
    by (rule convert_fails)
next
  assume "tree_leaves c \<noteq> []"
  then show "\<exists>dt'. result_type (tree_leaves c) = Inr dt'"
    by (rule result_type_defined)
next
  assume "tree_leaves c = []"
  then have "result_type (tree_leaves c) = Inl KernelError"
    by (simp add: result_type_def)
  then show "convert_vectorized_tree result_type asarr c = Inl KernelError"
    by (rule convert_fails)
qed

text \<open>
  The container \<^verbatim>\<open>{'a': 0, 'b': np.array([1.0]), 'c': np.array([2, 3])}\<close> of the
  round-trip test comes back with its structure, shapes and elements, as floating-point
  leaves; the container of \<^verbatim>\<open>test_reduce\<close>, whose leaves have the promoted type
  already, comes back as it is.
\<close>

theorem convert_restore_roundtrip_witness:
  "(\<exists>tds lss lvs. convert_vectorized_tree result_type asarray_rounding mixed_tree
                     = Inr (tds, lss, lvs)
        \<and> restore_tree tds lvs = Inr (map_pytree (\<lambda>x. asarray_rounding x DFloat) mixed_tree))
   \<and> map shape (tree_leaves (map_pytree (\<lambda>x. asarray_rounding x DFloat) mixed_tree))
      = map shape (tree_leaves mixed_tree)
   \<and> map elems (tree_leaves (map_pytree (\<lambda>x. asarray_rounding x DFloat) mixed_tree))
      = map elems (tree_leaves mixed_tree)
   \<and> map_pytree (\<lambda>x. asarray_rounding x DFloat) example_tree = example_tree"
proof -
  have rt: "result_type (tree_leaves mixed_tree) = Inr DFloat"
    by code_simp
  have keep: "\<forall>x \<in> set (tree_leaves mixed_tree).
                shape (asarray_rounding x DFloat) = shape x
                \<and> elems (asarray_rounding x DFloat) = elems x"
    by code_simp
  have rt': "result_type (tree_leaves example_tree) = Inr DFloat"
    by code_simp
  have same: "\<forall>x \<in> set (tree_leaves example_tree). asarray_rounding x DFloat = x"
    by code_simp
  note mixed = convert_restore_roundtrip [of result_type mixed_tree DFloat asarray_rounding,
      THEN conjunct1, THEN mp, OF rt]
  note ex = convert_restore_roundtrip [of result_type example_tree DFloat asarray_rounding,
      THEN conjunct1, THEN mp, OF rt']
  note shapes = mixed [THEN conjunct2, THEN conjunct2, THEN conjunct2, THEN conjunct2,
      THEN mp, OF keep]
  show ?thesis
    by (rule conjI [OF mixed [THEN conjunct1] conjI [OF shapes [THEN conjunct1]
          conjI [OF shapes [THEN conjunct2]
            ex [THEN conjunct2, THEN conjunct2, THEN conjunct2, THEN conjunct1,
                THEN mp, OF same]]]])
qed

text \<open>
  Claim C2, as stated, fails. The integer leaf \<open>16777217\<close> of the container
  \<^verbatim>\<open>{'a': 16777217, 'b': 1.0}\<close> is cast to the promoted floating-point type, which
  rounds it: the restored container holds \<open>16777216.0\<close>. And the container \<^verbatim>\<open>{}\<close> has
  no leaves to promote: its conversion fails and there is nothing to restore.
\<close>

theorem convert_restore_roundtrip_counterexample:
  "bindE (convert_vectorized_tree result_type asarray_rounding large_int_tree) restore_state
     = Inr (PNode (DictNode [''a'', ''b''])
              [PLeaf (scalar DFloat 16777216), PLeaf (scalar DFloat 1)])
   \<and> map elems (tree_leaves large_int_tree) = [[16777217], [1]]
   \<and> convert_vectorized_tree result_type asarray_rounding leafless_tree = Inl KernelError"
  by code_simp

text \<open>
  Claim C10. \<^verbatim>\<open>convert_vectorized_tree\<close> computes one promoted element type from all
  the leaves and stores, for every leaf, the leaf cast to that type; a cast returning an
  array of the requested type, all stored blocks have that one element type. The element
  type of a stored block can differ from that of the leaf it comes from: in the container
  \<^verbatim>\<open>{'a': 0, 'b': np.array([1.0]), 'c': np.array([2, 3])}\<close> the integer leaf \<^verbatim>\<open>a\<close> is
  stored as a floating-point block.
\<close>

theorem convert_promotes_dtype:
  assumes conv: "convert_vectorized_tree rt asarr c = Inr (tds, lss, lvs)"
    and cast: "\<And>x d. dtype (asarr x d) = d"
  shows "(\<exists>dt. rt (tree_leaves c) = Inr dt
            \<and> map fst lvs = map (\<lambda>i. [i]) [0..<length (tree_leaves c)]
            \<and> map snd lvs = map (\<lambda>x. asarr x dt) (tree_leaves c)
            \<and> (\<forall>kv \<in> set lvs. dtype (snd kv) = dt))
         \<and> (\<exists>lvs'. convert_vectorized_tree result_type asarray mixed_tree
                      = Inr ([tree_structure mixed_tree],
                             [map shape (tree_leaves mixed_tree)], lvs')
               \<and> dtype (tree_leaves mixed_tree ! 0) = DInt
               \<and> map_of lvs' [0] = Some (scalar DFloat 0))"
proof -
  from convert_leaves [OF conv] obtain dt where dt: "rt (tree_leaves c) = Inr dt"
    and lvs: "lvs = map (\<lambda>il. ([fst il], asarr (snd il) dt)) (enumerate 0 (tree_leaves c))"
    by blast
  have "map fst lvs = map (\<lambda>i. [i]) (map fst (enumerate 0 (tree_leaves c)))"
    unfolding lvs by (simp only: map_map comp_def fst_conv)
  then have keys: "map fst lvs = map (\<lambda>i. [i]) [0..<length (tree_leaves c)]"
    by (simp only: map_fst_enumerate add_0)
  have "map snd lvs = map (\<lambda>x. asarr x dt) (map snd (enumerate 0 (tree_leaves c)))"
    unfolding lvs by (simp only: map_map comp_def snd_conv)
  then have vals: "map snd lvs = map (\<lambda>x. asarr x dt) (tree_leaves c)"
    by (simp only: map_snd_enumerate)
  have "\<forall>kv \<in> set lvs. dtype (snd kv) = dt"
    unfolding lvs using cast by auto
  moreover have "\<exists>lvs'. convert_vectorized_tree result_type asarray mixed_tree
                      = Inr ([tree_structure mixed_tree],
                             [map shape (tree_leaves mixed_tree)], lvs')
               \<and> dtype (tree_leaves mixed_tree ! 0) = DInt
               \<and> map_of lvs' [0] = Some (scalar DFloat 0)"
    by (rule exI [of _ "[([0], scalar DFloat 0),
             ([1], \<lparr>dtype = DFloat, shape = [1], elems = [1]\<rparr>),
             ([2], \<lparr>dtype = DFloat, shape = [2], elems = [2, 3]\<rparr>)]"]) code_simp
  ultimately show ?thesis
    using dt keys vals by blast
qed

theorem convert_promotes_dtype_witness:
  "convert_vectorized_tree result_type asarray mixed_tree
     = Inr ([TNode (DictNode [''a'', ''b'', ''c'']) [TLeaf, TLeaf, TLeaf]],
            [[[], [1], [2]]],
            [([0], scalar DFloat 0),
             ([1], \<lparr>dtype = DFloat, shape = [1], elems = [1]\<rparr>),
             ([2], \<lparr>dtype = DFloat, shape = [2], elems = [2, 3]\<rparr>)])
   \<and> (\<exists>dt. result_type (tree_leaves mixed_tree) = Inr dt
          \<and> (\<forall>kv \<in> set [([0], scalar DFloat 0),
                           ([1], \<lparr>dtype = DFloat, shape = [1], elems = [1]\<rparr>),
                           ([2::nat], \<lparr>dtype = DFloat, shape = [2], elems = [2, 3]\<rparr>)].
                dtype (snd kv) = dt))"
proof -
  have conv: "convert_vectorized_tree result_type asarray mixed_tree
     = Inr ([TNode (DictNode [''a'', ''b'', ''c'']) [TLeaf, TLeaf, TLeaf]],
            [[[], [1], [2]]],
            [([0], scalar DFloat 0),
             ([1], \<lparr>dtype = DFloat, shape = [1], elems = [1]\<rparr>),
             ([2], \<lparr>dtype = DFloat, shape = [2], elems = [2, 3]\<rparr>)])"
    by code_simp
  have cast: "\<And>x d. dtype (asarray x d) = d"
    by (simp add: asarray_def)
  from convert_promotes_dtype [OF conv cast] conv show ?thesis
    by blast
qed


section \<open>Construction of a structured value\<close>


lemma mapE_succeeds_iff:
  "(\<exists>ys. mapE f xs = Inr ys) \<longleftrightarrow> (\<forall>x \<in> set xs. \<exists>y. f x = Inr y)"
proof (induction xs)
  case Nil
  show ?case by simp
next
  case (Cons x xs)
  show ?case
  proof (cases "f x")
    case (Inl e)
    then show ?thesis by auto
  next
    case (Inr y)
    with Cons show ?thesis by (cases "mapE f xs") auto
  qed
qed

lemma in_iter_leaf_coords:
  "coords \<in> set (iter_leaf_coords tds) \<longleftrightarrow>
     length coords = length tds \<and> (\<forall>k < length tds. coords ! k < num_leaves (tds ! k))"
  by (auto simp: iter_leaf_coords_def product_lists_set list_all2_conv_all_nth)

lemma in_iter_leaf_coords2:
  "coords \<in> set (iter_leaf_coords2 lss) \<longleftrightarrow>
     length coords = length lss \<and> (\<forall>k < length lss. coords ! k < length (lss ! k))"
  by (auto simp: iter_leaf_coords2_def product_lists_set list_all2_conv_all_nth)

lemma nth_py_ok: "i < length xs \<Longrightarrow> nth_py xs i = Inr (xs ! i)"
  by (simp add: nth_py_def)

lemma map_enumerate_nth:
  "map (\<lambda>ij. g (fst ij) (snd ij)) (enumerate 0 xs) = map (\<lambda>k. g k (xs ! k)) [0..<length xs]"
  by (rule nth_equalityI) (simp_all add: nth_enumerate_eq)

lemma leafshape_value:
  assumes "length coords \<le> length lss"
    and "\<forall>k < length coords. coords ! k < length (lss ! k)"
  shows "leafshape lss coords
         = Inr (concat (map (\<lambda>k. lss ! k ! (coords ! k)) [0..<length coords]))"
proof -
  have "mapE (\<lambda>ij. bindE (nth_py lss (fst ij)) (\<lambda>segs. nth_py segs (snd ij)))
          (enumerate 0 coords)
        = mapE (\<lambda>ij. Inr (lss ! fst ij ! snd ij)) (enumerate 0 coords)"
  proof (rule mapE_cong_set)
    fix ij assume "ij \<in> set (enumerate 0 coords)"
    then have "(fst ij, snd ij) \<in> set (enumerate 0 coords)"
      by simp
    then have "fst ij < length coords" and "snd ij = coords ! fst ij"
      unfolding in_set_enumerate_eq by simp_all
    with assms have "fst ij < length lss" and "snd ij < length (lss ! fst ij)"
      by auto
    then show "bindE (nth_py lss (fst ij)) (\<lambda>segs. nth_py segs (snd ij))
               = Inr (lss ! fst ij ! snd ij)"
      by (simp add: nth_py_ok)
  qed
  also have "\<dots> = Inr (map (\<lambda>ij. lss ! fst ij ! snd ij) (enumerate 0 coords))"
    by (rule mapE_total)
  finally show ?thesis
    by (simp add: leafshape_def concat_tuple_def map_enumerate_nth [where g = "\<lambda>i j. lss ! i ! j"])
qed

lemma check_leaf_iff:
  assumes "leafshape lss coords = Inr expected"
  shows "(\<exists>u. check_leaf lss lvs coords = Inr u) \<longleftrightarrow>
         (\<exists>leaf. map_of lvs coords = Some leaf \<and> shape leaf = expected)"
  using assms by (auto simp: check_leaf_def lookup_def split: option.splits)

lemma list_all_zip_nth:
  "length xs = length ys \<Longrightarrow>
   list_all P (zip xs ys) \<longleftrightarrow> (\<forall>i < length xs. P (xs ! i, ys ! i))"
  by (simp add: list_all_length)

lemma TreeTracer_init_unfold:
  assumes "length tds = length lss"
    and "\<forall>i < length tds. num_leaves (tds ! i) = length (lss ! i)"
    and "lvs \<noteq> []"
  shows "TreeTracer_init tds lss lvs
         = bindE (mapE (check_leaf lss lvs) (iter_leaf_coords tds))
             (\<lambda>_. Inr \<lparr>treedefs = tds, leafshapes = lss, leaves = lvs\<rparr>)"
proof -
  have "list_all (\<lambda>ts. num_leaves (fst ts) = length (snd ts)) (zip tds lss)"
    using assms(1,2) by (simp add: list_all_zip_nth)
  then show ?thesis
    using assms(1,3) by (simp add: TreeTracer_init_def)
qed

lemma TreeTracer_init_reject:
  assumes "\<not> (length tds = length lss
     \<and> (\<forall>i < length tds. num_leaves (tds ! i) = length (lss ! i)) \<and> lvs \<noteq> [])"
  shows "TreeTracer_init tds lss lvs = Inl AssertionError"
proof (cases "length tds = length lss")
  case False
  then show ?thesis by (simp add: TreeTracer_init_def)
next
  case True
  show ?thesis
  proof (cases "\<forall>i < length tds. num_leaves (tds ! i) = length (lss ! i)")
    case False
    then have "\<not> list_all (\<lambda>ts. num_leaves (fst ts) = length (snd ts)) (zip tds lss)"
      using True by (simp add: list_all_zip_nth)
    then show ?thesis by (simp add: TreeTracer_init_def)
  next
    case all: True
    with True assms have "lvs = []" by blast
    then show ?thesis by (simp add: TreeTracer_init_def)
  qed
qed

lemma TreeTracer_init_iff:
  "TreeTracer_init tds lss lvs = Inr t \<longleftrightarrow>
     length tds = length lss
     \<and> (\<forall>i < length tds. num_leaves (tds ! i) = length (lss ! i))
     \<and> lvs \<noteq> []
     \<and> (\<forall>coords \<in> set (iter_leaf_coords tds).
           \<exists>leaf. map_of lvs coords = Some leaf
             \<and> shape leaf = concat (map (\<lambda>k. lss ! k ! (coords ! k)) [0..<length coords]))
     \<and> t = \<lparr>treedefs = tds, leafshapes = lss, leaves = lvs\<rparr>
     \<and> aval t = (map axis_length lss, dtype (snd (hd lvs)))"
  (is "?L \<longleftrightarrow> ?A \<and> ?B \<and> ?C \<and> ?D \<and> ?E")
proof (cases "?A \<and> ?B \<and> ?C")
  case False
  from TreeTracer_init_reject [OF False] have "\<not> ?L" by simp
  with False show ?thesis by blast
next
  case True
  then have len: ?A and nl: ?B and ne: ?C by blast+
  have shape_of: "leafshape lss coords
         = Inr (concat (map (\<lambda>k. lss ! k ! (coords ! k)) [0..<length coords]))"
    if "coords \<in> set (iter_leaf_coords tds)" for coords
  proof (rule leafshape_value)
    from that show "length coords \<le> length lss"
      using len by (simp add: in_iter_leaf_coords)
    from that show "\<forall>k<length coords. coords ! k < length (lss ! k)"
      using len nl by (simp add: in_iter_leaf_coords)
  qed
  have D: "(\<exists>us. mapE (check_leaf lss lvs) (iter_leaf_coords tds) = Inr us) \<longleftrightarrow> ?D"
    unfolding mapE_succeeds_iff
    by (intro ball_cong refl check_leaf_iff shape_of)
  have unfold: "TreeTracer_init tds lss lvs
         = bindE (mapE (check_leaf lss lvs) (iter_leaf_coords tds))
             (\<lambda>_. Inr \<lparr>treedefs = tds, leafshapes = lss, leaves = lvs\<rparr>)"
    by (rule TreeTracer_init_unfold [OF len nl ne])
  show ?thesis
  proof (cases "mapE (check_leaf lss lvs) (iter_leaf_coords tds)")
    case (Inl e)
    then have "\<not> ?D" using D by simp
    moreover have "\<not> ?L" using Inl unfold by simp
    ultimately show ?thesis by blast
  next
    case (Inr us)
    then have ?D using D by blast
    moreover have "?L \<longleftrightarrow> ?E" using Inr unfold by (auto simp: aval_def)
    ultimately show ?thesis using len nl ne by blast
  qed
qed

text \<open>
  Claim C3, as the code has it. Constructing a structured value succeeds exactly when
  \<^verbatim>\<open>treedefs\<close> and \<^verbatim>\<open>leafshapes\<close> agree in length and in the number of segments of every
  axis, the block mapping is not empty, and for every coordinate of the Cartesian product
  of the partition-index ranges a block exists whose shape is the concatenation of the
  segment shapes the coordinate selects. The element type of the blocks is not examined:
  \<^verbatim>\<open>aval\<close> reads it off the first stored block.
\<close>

theorem TreeTracer_init_checks:
  "TreeTracer_init tds lss lvs = Inr t \<longleftrightarrow>
     length tds = length lss
     \<and> (\<forall>i < length tds. num_leaves (tds ! i) = length (lss ! i))
     \<and> lvs \<noteq> []
     \<and> (\<forall>coords \<in> set (iter_leaf_coords tds).
           \<exists>leaf. map_of lvs coords = Some leaf
             \<and> shape leaf = concat (map (\<lambda>k. lss ! k ! (coords ! k)) [0..<length coords]))
     \<and> t = \<lparr>treedefs = tds, leafshapes = lss, leaves = lvs\<rparr>
     \<and> aval t = (map axis_length lss, dtype (snd (hd lvs)))"
  by (rule TreeTracer_init_iff)

theorem TreeTracer_init_checks_witness:
  "TreeTracer_init [TNode (DictNode [''a'', ''b'']) [TLeaf, TLeaf]] [[[], [2]]]
     [([0], scalar DFloat 1), ([1], \<lparr>dtype = DFloat, shape = [2], elems = [2, 3]\<rparr>)]
   = Inr \<lparr>treedefs = [TNode (DictNode [''a'', ''b'']) [TLeaf, TLeaf]],
          leafshapes = [[[], [2]]],
          leaves = [([0], scalar DFloat 1),
                    ([1], \<lparr>dtype = DFloat, shape = [2], elems = [2, 3]\<rparr>)]\<rparr>"
proof -
  have coords: "iter_leaf_coords [TNode (DictNode [''a'', ''b'']) [TLeaf, TLeaf]] = [[0], [1]]"
    by code_simp
  show ?thesis
    unfolding TreeTracer_init_checks coords
    by (simp add: scalar_def aval_def)
qed

text \<open>
  Claim C3, as stated, fails: a value whose two blocks have different element types
  passes every check of the constructor.
\<close>

theorem TreeTracer_init_dtype_counterexample:
  "TreeTracer_init [TNode (DictNode [''a'', ''b'']) [TLeaf, TLeaf]] [[[], []]]
     [([0], scalar DFloat 1), ([1], scalar DInt 2)]
   = Inr \<lparr>treedefs = [TNode (DictNode [''a'', ''b'']) [TLeaf, TLeaf]],
          leafshapes = [[[], []]],
          leaves = [([0], scalar DFloat 1), ([1], scalar DInt 2)]\<rparr>
   \<and> dtype (scalar DFloat 1) \<noteq> dtype (scalar DInt 2)"
  by code_simp


section \<open>Physical dimensions of a logical axis\<close>

lemma axes_for_leaf_loop_value:
  assumes "\<forall>k < length cs. n + k < length lss \<and> cs ! k < length (lss ! (n + k))"
  shows "axes_for_leaf_loop lss axes (enumerate n cs) out la
     = Inr (out @ concat (map (\<lambda>a. if a \<in> set axes
                then [la + sum_list (map (\<lambda>j. length (lss ! j ! (cs ! (j - n)))) [n..<a])
                      ..< la + sum_list (map (\<lambda>j. length (lss ! j ! (cs ! (j - n)))) [n..<Suc a])]
                else []) [n..<n + length cs]))"
  using assms
proof (induction cs arbitrary: n out la)
  case Nil
  show ?case by simp
next
  case (Cons c cs)
  let ?len = "length (lss ! n ! c)"
  let ?out = "if n \<in> set axes then out @ [la..<la + ?len] else out"
  have n: "n < length lss" and c: "c < length (lss ! n)"
    using Cons.prems by force+
  have rest: "\<forall>k < length cs. Suc n + k < length lss \<and> cs ! k < length (lss ! (Suc n + k))"
    using Cons.prems by force
  have step: "axes_for_leaf_loop lss axes (enumerate n (c # cs)) out la
        = axes_for_leaf_loop lss axes (enumerate (Suc n) cs) ?out (la + ?len)"
    using n c by (simp add: nth_py_ok)
  have shift: "(c # cs) ! (j - n) = cs ! (j - Suc n)" if "Suc n \<le> j" for j
    using that by (simp add: Suc_diff_le)
  have sum_shift: "sum_list (map (\<lambda>j. length (lss ! j ! ((c # cs) ! (j - n)))) [n..<a])
        = ?len + sum_list (map (\<lambda>j. length (lss ! j ! (cs ! (j - Suc n)))) [Suc n..<a])"
    if "Suc n \<le> a" for a
  proof -
    have upt: "[n..<a] = n # [Suc n..<a]"
      using that by (simp add: upt_conv_Cons)
    have tl: "map (\<lambda>j. length (lss ! j ! ((c # cs) ! (j - n)))) [Suc n..<a]
        = map (\<lambda>j. length (lss ! j ! (cs ! (j - Suc n)))) [Suc n..<a]"
      by (rule map_cong) (simp_all add: shift)
    show ?thesis
      unfolding upt list.map tl by simp
  qed
  have tail: "map (\<lambda>a. if a \<in> set axes
                then [la + sum_list (map (\<lambda>j. length (lss ! j ! ((c # cs) ! (j - n)))) [n..<a])
                      ..< la + sum_list (map (\<lambda>j. length (lss ! j ! ((c # cs) ! (j - n)))) [n..<Suc a])]
                else []) [Suc n..<Suc n + length cs]
      = map (\<lambda>a. if a \<in> set axes
                then [la + ?len + sum_list (map (\<lambda>j. length (lss ! j ! (cs ! (j - Suc n)))) [Suc n..<a])
                      ..< la + ?len + sum_list (map (\<lambda>j. length (lss ! j ! (cs ! (j - Suc n)))) [Suc n..<Suc a])]
                else []) [Suc n..<Suc n + length cs]"
  proof (rule map_cong [OF refl])
    fix a assume "a \<in> set [Suc n..<Suc n + length cs]"
    then have "Suc n \<le> a"
      unfolding set_upt atLeastLessThan_iff by (rule conjunct1)
    moreover from this have "Suc n \<le> Suc a" by simp
    ultimately show "(if a \<in> set axes
                then [la + sum_list (map (\<lambda>j. length (lss ! j ! ((c # cs) ! (j - n)))) [n..<a])
                      ..< la + sum_list (map (\<lambda>j. length (lss ! j ! ((c # cs) ! (j - n)))) [n..<Suc a])]
                else [])
      = (if a \<in> set axes
                then [la + ?len + sum_list (map (\<lambda>j. length (lss ! j ! (cs ! (j - Suc n)))) [Suc n..<a])
                      ..< la + ?len + sum_list (map (\<lambda>j. length (lss ! j ! (cs ! (j - Suc n)))) [Suc n..<Suc a])]
                else [])"
      by (simp only: sum_shift add.assoc)
  qed
  have "n < n + length (c # cs)" by simp
  from upt_conv_Cons [OF this]
  have upt: "[n..<n + length (c # cs)] = n # [Suc n..<Suc n + length cs]"
    by (simp only: length_Cons add_Suc_right add_Suc)
  show ?case
    unfolding step Cons.IH [OF rest] upt list.map concat.simps tail
    by simp
qed

lemma axes_for_leaf_value:
  assumes "\<forall>k < length coords. k < length lss \<and> coords ! k < length (lss ! k)"
  shows "axes_for_leaf lss coords axes
     = Inr (concat (map (\<lambda>a. if a \<in> set axes
                then [sum_list (map (\<lambda>j. length (lss ! j ! (coords ! j))) [0..<a])
                      ..< sum_list (map (\<lambda>j. length (lss ! j ! (coords ! j))) [0..<Suc a])]
                else []) [0..<length coords]))"
  using axes_for_leaf_loop_value [of coords 0 lss axes "[]" 0] assms
  by (simp add: axes_for_leaf_def cong: if_cong)


lemma concat_single_axis:
  "axis < m \<Longrightarrow> concat (map (\<lambda>a. if a \<in> set [axis] then f a else []) [0..<m]) = f axis"
proof (induction m)
  case 0
  then show ?case by simp
next
  case (Suc m)
  show ?case
  proof (cases "axis = m")
    case True
    have "concat (map (\<lambda>a. if a \<in> set [m] then f a else []) [0..<m]) = []"
      by (simp cong: if_cong)
    with True show ?thesis by simp
  next
    case False
    with Suc show ?thesis by simp
  qed
qed

lemma axes_for_leaf_single:
  assumes "\<forall>k < length coords. k < length lss \<and> coords ! k < length (lss ! k)"
    and "axis < length coords"
  shows "axes_for_leaf lss coords [axis]
     = Inr [sum_list (map (\<lambda>j. length (lss ! j ! (coords ! j))) [0..<axis])
            ..< sum_list (map (\<lambda>j. length (lss ! j ! (coords ! j))) [0..<Suc axis])]"
  unfolding axes_for_leaf_value [OF assms(1)]
  by (simp only: concat_single_axis [OF assms(2)])

lemma nth_concat_offset:
  "k < length xss \<Longrightarrow> i < length (xss ! k) \<Longrightarrow>
   sum_list (map length (take k xss)) + i < length (concat xss)
   \<and> concat xss ! (sum_list (map length (take k xss)) + i) = xss ! k ! i"
proof (induction xss arbitrary: k)
  case Nil
  then show ?case by simp
next
  case (Cons xs xss)
  show ?case
  proof (cases k)
    case 0
    with Cons.prems show ?thesis by (simp add: nth_append)
  next
    case (Suc k')
    with Cons.prems have "k' < length xss" and "i < length (xss ! k')" by simp_all
    from Cons.IH [OF this] Suc show ?thesis
      by (simp add: nth_append add.assoc)
  qed
qed


section \<open>Splitting an axis: failures\<close>

lemma split_leaf_mismatch:
  "axis < length (shape array) \<Longrightarrow> axis_length shapes \<noteq> shape array ! axis \<Longrightarrow>
   split_leaf array axis shapes = Inl ShapeMismatch"
  by (simp add: split_leaf_def nth_py_ok)

lemma split_leaves_invalid:
  "axis < length lss \<Longrightarrow> length (lss ! axis) \<noteq> 1 \<or> length (lss ! axis ! 0) \<noteq> 1 \<Longrightarrow>
   split_leaves lss lvs axis shapes = Inl (InvalidLeafshapes axis)"
  by (simp add: split_leaves_def nth_py_ok)

lemma mapE_first_fails: "xs \<noteq> [] \<Longrightarrow> f (hd xs) = Inl e \<Longrightarrow> mapE f xs = Inl e"
  by (cases xs) simp_all

lemma iter_coords_agree:
  assumes "length tds = length lss"
    and "\<forall>i < length tds. num_leaves (tds ! i) = length (lss ! i)"
  shows "iter_leaf_coords tds = iter_leaf_coords2 lss"
proof -
  have "map (\<lambda>td. [0..<num_leaves td]) tds = map (\<lambda>shapes. [0..<length shapes]) lss"
    using assms by (intro nth_equalityI) simp_all
  then show ?thesis
    by (simp only: iter_leaf_coords_def iter_leaf_coords2_def)
qed

lemma split_block_mismatch:
  assumes coords: "coords \<in> set (iter_leaf_coords2 lss)"
    and block: "map_of lvs coords = Some leaf"
    and shp: "shape leaf = concat (map (\<lambda>k. lss ! k ! (coords ! k)) [0..<length coords])"
    and axis: "axis < length lss"
    and seg: "lss ! axis = [[n]]"
    and len: "axis_length shapes \<noteq> n"
  shows "bindE (lookup lvs coords) (\<lambda>leaf.
         bindE (axes_for_leaf lss coords [axis]) (\<lambda>leaf_axes.
         bindE (unpack1 leaf_axes) (\<lambda>leaf_axis.
         bindE (split_leaf leaf leaf_axis shapes) (\<lambda>new_leaves.
           Inr (map (\<lambda>il. (take axis coords @ [fst il] @ drop (Suc axis) coords, snd il))
                  (enumerate 0 new_leaves)))))) = Inl ShapeMismatch"
proof -
  let ?segs = "map (\<lambda>k. lss ! k ! (coords ! k)) [0..<length coords]"
  let ?off = "sum_list (map (\<lambda>j. length (lss ! j ! (coords ! j))) [0..<axis])"
  from coords have lc: "length coords = length lss"
    and rng: "\<forall>k < length lss. coords ! k < length (lss ! k)"
    by (simp_all add: in_iter_leaf_coords2)
  from rng axis seg have c0: "coords ! axis = 0" by force
  have wf: "\<forall>k < length coords. k < length lss \<and> coords ! k < length (lss ! k)"
    using lc rng by simp
  have "axes_for_leaf lss coords [axis]
     = Inr [?off ..< sum_list (map (\<lambda>j. length (lss ! j ! (coords ! j))) [0..<Suc axis])]"
    using axis lc by (intro axes_for_leaf_single wf) simp
  also have "sum_list (map (\<lambda>j. length (lss ! j ! (coords ! j))) [0..<Suc axis]) = Suc ?off"
    by (simp add: seg c0)
  finally have la: "axes_for_leaf lss coords [axis] = Inr [?off]"
    by simp
  have k: "axis < length ?segs" using axis lc by simp
  have i: "0 < length (?segs ! axis)" using axis lc by (simp add: seg c0)
  have take: "sum_list (map length (take axis ?segs)) = ?off"
    using axis lc by (simp add: take_map comp_def)
  from nth_concat_offset [OF k i]
  have "?off < length (shape leaf)" and "shape leaf ! ?off = n"
    unfolding take shp using axis lc by (simp_all add: seg c0)
  then have "split_leaf leaf ?off shapes = Inl ShapeMismatch"
    using len by (intro split_leaf_mismatch) simp_all
  then show ?thesis
    by (simp add: lookup_def block la unpack1_def)
qed

text \<open>
  Claim C9. A block is split along one of its dimensions only into segments whose total
  length is the length of that dimension, and fails with \<^verbatim>\<open>ShapeMismatch\<close> otherwise;
  a value is split along an axis only where it holds a single one-dimensional segment;
  and splitting a constructed value along such an axis of length \<open>n\<close> into segments of
  another total length fails with \<^verbatim>\<open>ShapeMismatch\<close>, as soon as there is a block to split.
\<close>

theorem split_shape_mismatch:
  "(leaf_axis < length (shape array) \<longrightarrow> axis_length shapes \<noteq> shape array ! leaf_axis
      \<longrightarrow> split_leaf array leaf_axis shapes = Inl ShapeMismatch)
   \<and> (axis < length lss \<longrightarrow> (length (lss ! axis) \<noteq> 1 \<or> length (lss ! axis ! 0) \<noteq> 1)
      \<longrightarrow> split_leaves lss lvs axis shapes = Inl (InvalidLeafshapes axis))
   \<and> (TreeTracer_init tds lss lvs = Inr t \<longrightarrow> axis < length lss \<longrightarrow> lss ! axis = [[n]]
      \<longrightarrow> iter_leaf_coords2 lss \<noteq> [] \<longrightarrow> axis_length shapes \<noteq> n
      \<longrightarrow> split_leaves lss lvs axis shapes = Inl ShapeMismatch)"
proof (intro conjI impI)
  assume "leaf_axis < length (shape array)" "axis_length shapes \<noteq> shape array ! leaf_axis"
  then show "split_leaf array leaf_axis shapes = Inl ShapeMismatch"
    by (rule split_leaf_mismatch)
next
  assume "axis < length lss" "length (lss ! axis) \<noteq> 1 \<or> length (lss ! axis ! 0) \<noteq> 1"
  then show "split_leaves lss lvs axis shapes = Inl (InvalidLeafshapes axis)"
    by (rule split_leaves_invalid)
next
  assume init: "TreeTracer_init tds lss lvs = Inr t" and axis: "axis < length lss"
    and seg: "lss ! axis = [[n]]" and ne: "iter_leaf_coords2 lss \<noteq> []"
    and len: "axis_length shapes \<noteq> n"
  from init have eq: "iter_leaf_coords tds = iter_leaf_coords2 lss"
    and blocks: "\<forall>coords \<in> set (iter_leaf_coords tds).
           \<exists>leaf. map_of lvs coords = Some leaf
             \<and> shape leaf = concat (map (\<lambda>k. lss ! k ! (coords ! k)) [0..<length coords])"
    unfolding TreeTracer_init_iff by (simp_all add: iter_coords_agree)
  let ?c = "hd (iter_leaf_coords2 lss)"
  from ne have c: "?c \<in> set (iter_leaf_coords2 lss)" by simp
  with blocks eq obtain leaf where leaf: "map_of lvs ?c = Some leaf"
    and shp: "shape leaf = concat (map (\<lambda>k. lss ! k ! (?c ! k)) [0..<length ?c])"
    by auto
  have "mapE (\<lambda>in_coords.
                  bindE (lookup lvs in_coords) (\<lambda>leaf.
                  bindE (axes_for_leaf lss in_coords [axis]) (\<lambda>leaf_axes.
                  bindE (unpack1 leaf_axes) (\<lambda>leaf_axis.
                  bindE (split_leaf leaf leaf_axis shapes) (\<lambda>new_leaves.
                    Inr (map (\<lambda>il. (take axis in_coords @ [fst il] @ drop (Suc axis) in_coords,
                                     snd il))
                           (enumerate 0 new_leaves)))))))
                (iter_leaf_coords2 lss) = Inl ShapeMismatch"
    by (rule mapE_first_fails [OF ne]) (rule split_block_mismatch [OF c leaf shp axis seg len])
  then show "split_leaves lss lvs axis shapes = Inl ShapeMismatch"
    using axis by (simp add: split_leaves_def nth_py_ok seg)
qed

theorem split_shape_mismatch_witness:
  "split_leaf \<lparr>dtype = DFloat, shape = [3], elems = [1, 2, 3]\<rparr> 0 [[1], [1]] = Inl ShapeMismatch
   \<and> split_leaves [[[], [2]]]
        [([0], scalar DFloat 1), ([1], \<lparr>dtype = DFloat, shape = [2], elems = [2, 3]\<rparr>)]
        0 [[1], [1]] = Inl (InvalidLeafshapes 0)
   \<and> split_leaves [[[3]]] [([0], \<lparr>dtype = DFloat, shape = [3], elems = [1, 2, 3]\<rparr>)]
        0 [[1], [1]] = Inl ShapeMismatch"
proof -
  have init: "TreeTracer_init [TLeaf] [[[3]]]
                [([0], \<lparr>dtype = DFloat, shape = [3], elems = [1, 2, 3]\<rparr>)]
              = Inr \<lparr>treedefs = [TLeaf], leafshapes = [[[3]]],
                     leaves = [([0], \<lparr>dtype = DFloat, shape = [3], elems = [1, 2, 3]\<rparr>)]\<rparr>"
    by code_simp
  have ne: "iter_leaf_coords2 [[[3]]] \<noteq> []"
    by code_simp
  have len: "axis_length [[1], [1]] \<noteq> 3"
    by code_simp
  from split_shape_mismatch
    [of 0 "\<lparr>dtype = DFloat, shape = [3], elems = [1, 2, 3]\<rparr>" "[[1], [1]]" 0 "[[[], [2]]]"
        "[([0], scalar DFloat 1), ([1], \<lparr>dtype = DFloat, shape = [2], elems = [2, 3]\<rparr>)]"]
  have first: "split_leaf \<lparr>dtype = DFloat, shape = [3], elems = [1, 2, 3]\<rparr> 0 [[1], [1]]
                 = Inl ShapeMismatch"
    and second: "split_leaves [[[], [2]]]
        [([0], scalar DFloat 1), ([1], \<lparr>dtype = DFloat, shape = [2], elems = [2, 3]\<rparr>)]
        0 [[1], [1]] = Inl (InvalidLeafshapes 0)"
    using len by simp_all
  from split_shape_mismatch
    [of 0 "\<lparr>dtype = DFloat, shape = [3], elems = [1, 2, 3]\<rparr>" "[[1], [1]]" 0 "[[[3]]]"
        "[([0], \<lparr>dtype = DFloat, shape = [3], elems = [1, 2, 3]\<rparr>)]" "[TLeaf]" _ 3]
    init ne len
  have third: "split_leaves [[[3]]] [([0], \<lparr>dtype = DFloat, shape = [3], elems = [1, 2, 3]\<rparr>)]
        0 [[1], [1]] = Inl ShapeMismatch"
    by simp
  from first second third show ?thesis by blast
qed


section \<open>The n-ary rule: which axes are split\<close>







section \<open>Structural checks of the n-ary rule\<close>

lemma mapE_Inl_iff:
  "mapE f xs = Inl e \<longleftrightarrow>
     (\<exists>i < length xs. f (xs ! i) = Inl e \<and> (\<forall>j < i. \<exists>y. f (xs ! j) = Inr y))"
proof (induction xs)
  case Nil
  show ?case by simp
next
  case (Cons x xs)
  show ?case
  proof (cases "f x")
    case (Inl e')
    show ?thesis
    proof
      assume "mapE f (x # xs) = Inl e"
      with Inl have "f ((x # xs) ! 0) = Inl e" by simp
      then show "\<exists>i < length (x # xs). f ((x # xs) ! i) = Inl e
                   \<and> (\<forall>j < i. \<exists>y. f ((x # xs) ! j) = Inr y)"
        by (intro exI [of _ 0]) simp
    next
      assume "\<exists>i < length (x # xs). f ((x # xs) ! i) = Inl e
                   \<and> (\<forall>j < i. \<exists>y. f ((x # xs) ! j) = Inr y)"
      then obtain i where i: "f ((x # xs) ! i) = Inl e"
        and before: "\<forall>j < i. \<exists>y. f ((x # xs) ! j) = Inr y" by blast
      have "i = 0"
      proof (rule ccontr)
        assume "i \<noteq> 0"
        then have "0 < i" by simp
        with before have "\<exists>y. f ((x # xs) ! 0) = Inr y" by blast
        with Inl show False by simp
      qed
      with i Inl show "mapE f (x # xs) = Inl e" by simp
    qed
  next
    case (Inr y)
    have "mapE f (x # xs) = Inl e \<longleftrightarrow> mapE f xs = Inl e"
      using Inr by (cases "mapE f xs") simp_all
    also have "\<dots> \<longleftrightarrow> (\<exists>i < length xs. f (xs ! i) = Inl e \<and> (\<forall>j < i. \<exists>y. f (xs ! j) = Inr y))"
      by (rule Cons.IH)
    also have "\<dots> \<longleftrightarrow> (\<exists>i < length (x # xs). f ((x # xs) ! i) = Inl e
                   \<and> (\<forall>j < i. \<exists>y. f ((x # xs) ! j) = Inr y))"
    proof
      assume "\<exists>i < length xs. f (xs ! i) = Inl e \<and> (\<forall>j < i. \<exists>y. f (xs ! j) = Inr y)"
      then obtain i where "i < length xs" "f (xs ! i) = Inl e"
        and before: "\<forall>j < i. \<exists>y. f (xs ! j) = Inr y" by blast
      moreover have "\<exists>y. f ((x # xs) ! j) = Inr y" if "j < Suc i" for j
        using that before Inr by (cases j) simp_all
      ultimately show "\<exists>i < length (x # xs). f ((x # xs) ! i) = Inl e
                   \<and> (\<forall>j < i. \<exists>y. f ((x # xs) ! j) = Inr y)"
        by (intro exI [of _ "Suc i"]) simp
    next
      assume "\<exists>i < length (x # xs). f ((x # xs) ! i) = Inl e
                   \<and> (\<forall>j < i. \<exists>y. f ((x # xs) ! j) = Inr y)"
      then obtain i where len: "i < length (x # xs)" and i: "f ((x # xs) ! i) = Inl e"
        and before: "\<forall>j < i. \<exists>y. f ((x # xs) ! j) = Inr y" by blast
      from i Inr obtain i' where i': "i = Suc i'" by (cases i) simp_all
      have "\<exists>y. f (xs ! j) = Inr y" if "j < i'" for j
        using before [rule_format, of "Suc j"] that i' by simp
      with len i i' show "\<exists>i < length xs. f (xs ! i) = Inl e
                             \<and> (\<forall>j < i. \<exists>y. f (xs ! j) = Inr y)"
        by (intro exI [of _ i']) simp
    qed
    finally show ?thesis .
  qed
qed

lemma mapE_upt_first_failure:
  assumes "a < n" and "f a = Inl e" and "\<forall>b < a. \<exists>r. f b = Inr r"
  shows "mapE f [0..<n] = Inl e"
  unfolding mapE_Inl_iff using assms by (intro exI [of _ a]) simp

lemma mapE_upt_some_failure:
  assumes "a < n" and "f a = Inl e"
  shows "\<exists>b \<le> a. \<exists>e'. f b = Inl e' \<and> mapE f [0..<n] = Inl e'"
proof -
  define b where "b = (LEAST b. \<exists>e'. f b = Inl e')"
  have ex: "\<exists>e'. f a = Inl e'" using assms(2) by blast
  then have fb: "\<exists>e'. f b = Inl e'" unfolding b_def by (rule LeastI)
  have ba: "b \<le> a" unfolding b_def using ex by (rule Least_le)
  have "\<exists>r. f c = Inr r" if "c < b" for c
  proof (cases "f c")
    case (Inl e')
    then have "b \<le> c" unfolding b_def by (intro Least_le) blast
    with that show ?thesis by simp
  next
    case (Inr r)
    then show ?thesis by blast
  qed
  with fb ba assms(1) show ?thesis
    by (metis le_less_trans mapE_upt_first_failure)
qed

lemma mapE_nth_column:
  "\<forall>x \<in> set xs. i < length (g x) \<Longrightarrow> mapE (\<lambda>x. nth_py (g x) i) xs = Inr (map (\<lambda>x. g x ! i) xs)"
  by (induction xs) (simp_all add: nth_py_ok)

lemma remdups_two:
  assumes "x \<in> set xs" and "y \<in> set xs" and "x \<noteq> y"
  shows "1 < length (remdups xs)"
proof -
  have "card {x, y} \<le> card (set xs)"
    using assms by (intro card_mono) simp_all
  with assms(3) show ?thesis
    by (simp add: length_remdups_card_conv)
qed

lemma remdups_constant:
  "xs \<noteq> [] \<Longrightarrow> \<forall>x \<in> set xs. x = n \<Longrightarrow> remdups xs = [n]"
proof (induction xs)
  case Nil
  then show ?case by simp
next
  case (Cons x xs)
  then show ?case by (cases xs) auto
qed

lemma naryop_axis_outcome:
  assumes "\<forall>opnd \<in> set ops. b < length (fst opnd) \<and> b < length (fst (snd opnd))"
  shows "(\<exists>r. naryop_axis ops b = Inr r)
         \<or> naryop_axis ops b = Inl (ConflictingStructure b)
         \<or> naryop_axis ops b = Inl (ConflictingShape b)"
proof -
  have tds: "mapE (\<lambda>opnd. nth_py (fst opnd) b) ops = Inr (map (\<lambda>opnd. fst opnd ! b) ops)"
    using assms by (intro mapE_nth_column) simp
  have shs: "mapE (\<lambda>opnd. nth_py (fst (snd opnd)) b) ops
             = Inr (map (\<lambda>opnd. fst (snd opnd) ! b) ops)"
    using assms by (intro mapE_nth_column) simp
  show ?thesis
    unfolding naryop_axis_def tds shs bindE_Inr Let_def by simp
qed

lemma naryop_axis_conflict:
  assumes wf: "\<forall>opnd \<in> set ops. a < length (fst opnd) \<and> a < length (fst (snd opnd))"
    and p: "p \<in> set ops" and q: "q \<in> set ops"
    and pq: "fst p ! a \<noteq> TRIVIAL_TREEDEF" "fst q ! a \<noteq> TRIVIAL_TREEDEF" "fst p ! a \<noteq> fst q ! a"
  shows "naryop_axis ops a = Inl (ConflictingStructure a)"
proof -
  have tds: "mapE (\<lambda>opnd. nth_py (fst opnd) a) ops = Inr (map (\<lambda>opnd. fst opnd ! a) ops)"
    using wf by (intro mapE_nth_column) simp
  have "1 < length (remdups (filter (\<lambda>td. td \<noteq> TRIVIAL_TREEDEF) (map (\<lambda>opnd. fst opnd ! a) ops)))"
    using p q pq by (intro remdups_two [of "fst p ! a" _ "fst q ! a"]) auto
  then show ?thesis
    unfolding naryop_axis_def tds bindE_Inr Let_def by simp
qed

lemma naryop_tree_rule_axes_fail:
  assumes filt: "filter_scalar_leaves 0 ops_in = Inr (ops, scalars)"
    and ne: "ops \<noteq> []"
    and ranks: "\<forall>opnd \<in> set ops. length (fst opnd) = ndim"
    and fail: "mapE (naryop_axis ops) [0..<ndim] = Inl e"
  shows "naryop_tree_rule prim ops_in = Inl e"
proof -
  have "remdups (map (\<lambda>opnd. length (fst opnd)) ops) = [ndim]"
    using ne ranks by (intro remdups_constant) simp_all
  then show ?thesis
    using ne by (simp add: naryop_tree_rule_def filt unpack1_def fail)
qed


text \<open>
  Claim C6, as the code has it. The operands that are not scalars have one rank. If on
  some axis two of them carry different non-trivial container descriptors, the rule
  fails without producing output. The checks run axis by axis, descriptors before
  segment layouts, and the first failing check raises: the error is
  \<^verbatim>\<open>ConflictingStructure\<close> or \<^verbatim>\<open>ConflictingShape\<close> at that axis or at an earlier one, and
  it is \<^verbatim>\<open>ConflictingStructure\<close> at that axis when the checks of all earlier axes pass.
\<close>

theorem naryop_conflicting_structure:
  assumes filt: "filter_scalar_leaves 0 ops_in = Inr (ops, scalars)"
    and ranks: "\<forall>opnd \<in> set ops. length (fst opnd) = ndim \<and> length (fst (snd opnd)) = ndim"
    and axis: "axis < ndim"
    and p: "p \<in> set ops" and q: "q \<in> set ops"
    and pq: "fst p ! axis \<noteq> TRIVIAL_TREEDEF" "fst q ! axis \<noteq> TRIVIAL_TREEDEF"
            "fst p ! axis \<noteq> fst q ! axis"
  shows "(\<exists>b \<le> axis. naryop_tree_rule prim ops_in = Inl (ConflictingStructure b)
                      \<or> naryop_tree_rule prim ops_in = Inl (ConflictingShape b))
         \<and> ((\<forall>b < axis. \<exists>r. naryop_axis ops b = Inr r)
              \<longrightarrow> naryop_tree_rule prim ops_in = Inl (ConflictingStructure axis))"
proof
  have ne: "ops \<noteq> []" using p by auto
  have rk: "\<forall>opnd \<in> set ops. length (fst opnd) = ndim" using ranks by simp
  have wf: "\<forall>opnd \<in> set ops. b < length (fst opnd) \<and> b < length (fst (snd opnd))"
    if "b < ndim" for b using ranks that by simp
  have at_axis: "naryop_axis ops axis = Inl (ConflictingStructure axis)"
    by (rule naryop_axis_conflict [OF wf [OF axis] p q pq])
  from mapE_upt_some_failure [of axis ndim "naryop_axis ops", OF axis at_axis]
  obtain b e where b: "b \<le> axis" and eb: "naryop_axis ops b = Inl e"
    and fail: "mapE (naryop_axis ops) [0..<ndim] = Inl e" by blast
  from b axis have "b < ndim" by simp
  from naryop_axis_outcome [OF wf [OF this]] eb
  have "e = ConflictingStructure b \<or> e = ConflictingShape b" by auto
  moreover have "naryop_tree_rule prim ops_in = Inl e"
    by (rule naryop_tree_rule_axes_fail [OF filt ne rk fail])
  ultimately show "\<exists>b \<le> axis. naryop_tree_rule prim ops_in = Inl (ConflictingStructure b)
                      \<or> naryop_tree_rule prim ops_in = Inl (ConflictingShape b)"
    using b by auto
  show "(\<forall>b < axis. \<exists>r. naryop_axis ops b = Inr r)
          \<longrightarrow> naryop_tree_rule prim ops_in = Inl (ConflictingStructure axis)"
  proof
    assume "\<forall>b < axis. \<exists>r. naryop_axis ops b = Inr r"
    with axis at_axis have "mapE (naryop_axis ops) [0..<ndim] = Inl (ConflictingStructure axis)"
      by (intro mapE_upt_first_failure)
    then show "naryop_tree_rule prim ops_in = Inl (ConflictingStructure axis)"
      by (rule naryop_tree_rule_axes_fail [OF filt ne rk])
  qed
qed

text \<open>
  The example of claim C6: combining values whose first axes come from flattening
  \<^verbatim>\<open>{'a': 0, 'b': 0}\<close> and \<^verbatim>\<open>{'c': 0, 'd': 0}\<close> raises \<^verbatim>\<open>ConflictingStructure\<close>.
\<close>

theorem naryop_conflicting_structure_witness:
  "naryop_tree_rule (bind2 add_p) [operand_ab, operand_cd] = Inl (ConflictingStructure 0)"
proof -
  have filt: "filter_scalar_leaves 0 [operand_ab, operand_cd]
              = Inr ([operand_ab, operand_cd], [])"
    by code_simp
  have ranks: "\<forall>opnd \<in> set [operand_ab, operand_cd].
                 length (fst opnd) = 1 \<and> length (fst (snd opnd)) = 1"
    by (simp add: operand_ab_def operand_cd_def)
  have pq: "fst operand_ab ! 0 \<noteq> TRIVIAL_TREEDEF" "fst operand_cd ! 0 \<noteq> TRIVIAL_TREEDEF"
    "fst operand_ab ! 0 \<noteq> fst operand_cd ! 0"
    by (simp_all add: operand_ab_def operand_cd_def treedef_ab_def treedef_cd_def
        TRIVIAL_TREEDEF_def)
  have mem: "operand_ab \<in> set [operand_ab, operand_cd]"
    "operand_cd \<in> set [operand_ab, operand_cd]" and axis: "(0::nat) < 1"
    by simp_all
  from naryop_conflicting_structure [OF filt ranks axis mem pq]
  show ?thesis by simp
qed

text \<open>
  Claim C6, as stated, fails: the second axes of these two operands carry the different
  descriptors of \<^verbatim>\<open>{'a', 'b'}\<close> and \<^verbatim>\<open>{'c', 'd'}\<close>, and the rule raises \<^verbatim>\<open>ConflictingShape\<close>
  for their first axes, whose check comes first.
\<close>

theorem naryop_conflicting_structure_counterexample:
  "fst operand_ab_ab ! 1 \<noteq> TRIVIAL_TREEDEF \<and> fst operand_ab1_cd ! 1 \<noteq> TRIVIAL_TREEDEF
   \<and> fst operand_ab_ab ! 1 \<noteq> fst operand_ab1_cd ! 1
   \<and> naryop_tree_rule (bind2 add_p) [operand_ab_ab, operand_ab1_cd] = Inl (ConflictingShape 0)"
  by code_simp


section \<open>The concatenation axis\<close>

lemma remdups_filter_Nil_iff: "remdups (filter P xs) = [] \<longleftrightarrow> (\<forall>x \<in> set xs. \<not> P x)"
  by (simp add: filter_empty_conv)

lemma concatenate_axis_columns:
  assumes "\<forall>opnd \<in> set ops. b < length (fst opnd) \<and> b < length (fst (snd opnd))"
  shows "mapE (\<lambda>opnd. nth_py (fst opnd) b) ops = Inr (map (\<lambda>opnd. fst opnd ! b) ops)"
    and "mapE (\<lambda>opnd. nth_py (fst (snd opnd)) b) ops = Inr (map (\<lambda>opnd. fst (snd opnd) ! b) ops)"
  using assms by (simp_all add: mapE_nth_column)

lemma concatenate_axis_rejects:
  assumes wf: "\<forall>opnd \<in> set ops. d < length (fst opnd) \<and> d < length (fst (snd opnd))"
    and p: "p \<in> set ops"
    and bad: "fst p ! d \<noteq> TRIVIAL_TREEDEF \<or> length (fst (snd p) ! d) \<noteq> 1"
  shows "concatenate_axis ops d d = Inl (InvalidConcatenateAxis d)"
proof (cases "remdups (filter (\<lambda>td. td \<noteq> TRIVIAL_TREEDEF) (map (\<lambda>opnd. fst opnd ! d) ops)) = []")
  case False
  then show ?thesis
    unfolding concatenate_axis_def concatenate_axis_columns [OF wf] bindE_Inr Let_def
    by simp
next
  case True
  then have "fst p ! d = TRIVIAL_TREEDEF"
    using p unfolding remdups_filter_Nil_iff by simp
  with bad have "length (fst (snd p) ! d) \<noteq> 1" by simp
  with p have "remdups (filter (\<lambda>s. length s \<noteq> 1) (map (\<lambda>opnd. fst (snd opnd) ! d) ops)) \<noteq> []"
    unfolding remdups_filter_Nil_iff by auto
  with True show ?thesis
    unfolding concatenate_axis_def concatenate_axis_columns [OF wf] bindE_Inr Let_def
    by simp
qed

lemma concatenate_tree_rule_unfold:
  assumes ne: "ops \<noteq> []" and ranks: "\<forall>opnd \<in> set ops. length (fst opnd) = ndim"
  shows "concatenate_tree_rule concat_p ops dimension =
     bindE (mapE (concatenate_axis ops dimension) [0..<ndim]) (\<lambda>outs.
       let out_treedefs = map fst outs; out_leafshapes = map snd outs in
       bindE (mapE (concatenate_fix out_leafshapes ndim dimension) ops) (\<lambda>leaves_fixed.
       bindE (mapE (\<lambda>coords.
                bindE (mapE (\<lambda>lvs. lookup lvs coords) leaves_fixed) (\<lambda>args.
                bindE (axes_for_leaf out_leafshapes coords [dimension]) (\<lambda>leaf_dims.
                bindE (unpack1 leaf_dims) (\<lambda>leaf_dim.
                bindE (concat_p args leaf_dim) (\<lambda>r. Inr (coords, r))))))
              (iter_leaf_coords out_treedefs))
         (\<lambda>kvs. Inr (out_treedefs, out_leafshapes, dict_of kvs))))"
proof -
  have "remdups (map (\<lambda>opnd. length (fst opnd)) ops) = [ndim]"
    using ne ranks by (intro remdups_constant) simp_all
  then show ?thesis
    by (simp add: concatenate_tree_rule_def unpack1_def)
qed

lemma mapE_upt_nth:
  assumes "mapE f [0..<n] = Inr ys" and "i < n"
  shows "f i = Inr (ys ! i)"
proof -
  from assms(1) have "list_all2 (\<lambda>x y. f x = Inr y) [0..<n] ys"
    by (simp add: mapE_eq_Inr)
  from list_all2_nthD [OF this, of i] assms(2) show ?thesis by simp
qed

lemma mapE_upt_length: "mapE f [0..<n] = Inr ys \<Longrightarrow> length ys = n"
  by (auto simp: mapE_eq_Inr dest: list_all2_lengthD)

lemma remdups_at_most_one:
  assumes "\<forall>x \<in> set xs. \<forall>y \<in> set xs. x = y"
  shows "length (remdups xs) \<le> 1"
proof (cases xs)
  case Nil
  then show ?thesis by simp
next
  case (Cons a as)
  with assms have "set xs \<subseteq> {a}" by auto
  then have "card (set xs) \<le> card {a}" by (intro card_mono) simp_all
  then show ?thesis by (simp add: length_remdups_card_conv)
qed

lemma concatenate_axis_passes:
  assumes wf: "\<forall>opnd \<in> set ops. b < length (fst opnd) \<and> b < length (fst (snd opnd))"
    and other: "b \<noteq> dimension"
    and tds: "\<forall>p \<in> set ops. \<forall>q \<in> set ops.
                fst p ! b \<noteq> TRIVIAL_TREEDEF \<and> fst q ! b \<noteq> TRIVIAL_TREEDEF
                \<longrightarrow> fst p ! b = fst q ! b"
    and shs: "\<forall>p \<in> set ops. \<forall>q \<in> set ops.
                length (fst (snd p) ! b) \<noteq> 1 \<and> length (fst (snd q) ! b) \<noteq> 1
                \<longrightarrow> fst (snd p) ! b = fst (snd q) ! b"
    and len: "(\<exists>p \<in> set ops. length (fst (snd p) ! b) \<noteq> 1) \<or> length ops = 1"
  shows "\<exists>r. concatenate_axis ops dimension b = Inr r"
proof -
  let ?nt = "remdups (filter (\<lambda>td. td \<noteq> TRIVIAL_TREEDEF) (map (\<lambda>opnd. fst opnd ! b) ops))"
  let ?ns = "remdups (filter (\<lambda>s. length s \<noteq> 1) (map (\<lambda>opnd. fst (snd opnd) ! b) ops))"
  have "\<forall>x \<in> set (filter (\<lambda>td. td \<noteq> TRIVIAL_TREEDEF) (map (\<lambda>opnd. fst opnd ! b) ops)).
          \<forall>y \<in> set (filter (\<lambda>td. td \<noteq> TRIVIAL_TREEDEF) (map (\<lambda>opnd. fst opnd ! b) ops)). x = y"
    using tds by auto
  then have "length ?nt \<le> 1" by (rule remdups_at_most_one)
  then have nt: "\<not> 1 < length ?nt" by simp
  have "\<forall>x \<in> set (filter (\<lambda>s. length s \<noteq> 1) (map (\<lambda>opnd. fst (snd opnd) ! b) ops)).
          \<forall>y \<in> set (filter (\<lambda>s. length s \<noteq> 1) (map (\<lambda>opnd. fst (snd opnd) ! b) ops)). x = y"
    using shs by auto
  then have "length ?ns \<le> 1" by (rule remdups_at_most_one)
  then have ns: "\<not> 1 < length ?ns" by simp
  show ?thesis
  proof (cases "length ?ns = 1")
    case True
    with nt other show ?thesis
      unfolding concatenate_axis_def concatenate_axis_columns [OF wf] bindE_Inr Let_def
      by simp
  next
    case False
    with ns have empty: "?ns = []" by (cases ?ns) simp_all
    then have "\<forall>p \<in> set ops. length (fst (snd p) ! b) = 1"
      unfolding remdups_filter_Nil_iff by simp
    with len have "length ops = 1" by blast
    then obtain p where p: "ops = [p]"
      by (cases ops) simp_all
    have "unpack1 (map axis_length (map (\<lambda>opnd. fst (snd opnd) ! b) ops))
          = Inr (axis_length (fst (snd p) ! b))"
      by (simp add: p unpack1_def)
    with nt other empty show ?thesis
      unfolding concatenate_axis_def concatenate_axis_columns [OF wf] bindE_Inr Let_def
      by simp
  qed
qed

lemma concatenate_axis_plain:
  assumes wf: "\<forall>opnd \<in> set ops. d < length (fst opnd) \<and> d < length (fst (snd opnd))"
    and plain: "\<forall>p \<in> set ops. fst p ! d = TRIVIAL_TREEDEF \<and> length (fst (snd p) ! d) = 1"
  shows "concatenate_axis ops d d
         = Inr (TRIVIAL_TREEDEF,
                [[sum_list (map (\<lambda>opnd. axis_length (fst (snd opnd) ! d)) ops)]])"
proof -
  from plain
  have nt: "remdups (filter (\<lambda>td. td \<noteq> TRIVIAL_TREEDEF) (map (\<lambda>opnd. fst opnd ! d) ops)) = []"
    and ns: "remdups (filter (\<lambda>s. length s \<noteq> 1) (map (\<lambda>opnd. fst (snd opnd) ! d) ops)) = []"
    unfolding remdups_filter_Nil_iff by simp_all
  show ?thesis
    unfolding concatenate_axis_def concatenate_axis_columns [OF wf] bindE_Inr Let_def nt ns
    by (simp add: comp_def)
qed

lemma mapE_map: "mapE f (map g xs) = mapE (\<lambda>x. f (g x)) xs"
  by (induction xs) (simp_all cong: sum.case_cong)

lemma mapE_single: "mapE f [x] = bindE (f x) (\<lambda>y. Inr [y])"
  by (simp add: bindE_def split: sum.splits)

lemma concatenate_fix_dimension_only:
  "concatenate_fix out_lss 1 0 opnd = Inr (snd (snd opnd))"
  by (simp add: concatenate_fix_def concatenate_fix_axis_def)

lemma concatenate_vectors:
  assumes ne: "ops \<noteq> []"
    and ranks: "\<forall>opnd \<in> set ops. length (fst opnd) = 1 \<and> length (fst (snd opnd)) = 1"
    and plain: "\<forall>p \<in> set ops. fst p ! 0 = TRIVIAL_TREEDEF \<and> length (fst (snd p) ! 0) = 1"
  shows "concatenate_tree_rule concat_p ops 0
         = bindE (mapE (\<lambda>opnd. lookup (snd (snd opnd)) [0]) ops) (\<lambda>args.
             bindE (concat_p args 0) (\<lambda>r.
               Inr ([TRIVIAL_TREEDEF],
                    [[[sum_list (map (\<lambda>opnd. axis_length (fst (snd opnd) ! 0)) ops)]]],
                    [([0], r)])))"
proof -
  let ?n = "sum_list (map (\<lambda>opnd. axis_length (fst (snd opnd) ! 0)) ops)"
  have rk: "\<forall>opnd \<in> set ops. length (fst opnd) = 1" using ranks by simp
  have wf: "\<forall>opnd \<in> set ops. 0 < length (fst opnd) \<and> 0 < length (fst (snd opnd))"
    using ranks by simp
  have axes: "mapE (concatenate_axis ops 0) [0..<1] = Inr [(TRIVIAL_TREEDEF, [[?n]])]"
    by (simp add: concatenate_axis_plain [OF wf plain])
  have fixed: "mapE (concatenate_fix [[[?n]]] 1 0) ops = Inr (map (\<lambda>opnd. snd (snd opnd)) ops)"
    unfolding concatenate_fix_dimension_only by (rule mapE_total)
  have coords: "iter_leaf_coords [TRIVIAL_TREEDEF] = [[0]]"
    by (simp add: iter_leaf_coords_def TRIVIAL_TREEDEF_def)
  have dim: "axes_for_leaf [[[?n]]] [0] [0] = Inr [0]"
    by (simp add: axes_for_leaf_def nth_py_def)
  have up: "unpack1 [0::nat] = Inr 0"
    by (simp add: unpack1_def)
  have single: "dict_of [([0::nat], r)] = [([0], r)]" for r :: ndarray
    by (simp add: dict_of_def)
  show ?thesis
    unfolding concatenate_tree_rule_unfold [OF ne rk] axes bindE_Inr Let_def list.map fst_conv
      snd_conv fixed coords mapE_map mapE_single dim up bindE_assoc single
    by (rule refl)
qed

text \<open>
  Claim C7, as the code has it. The operands have one rank and the concatenation axis is
  one of their axes. If an operand carries a non-trivial container descriptor or other
  than one segment along the concatenation axis, the rule fails without producing output.
  The axes are checked in order and the first failing check raises: the error is
  \<^verbatim>\<open>InvalidConcatenateAxis\<close> when every earlier axis passes, that is, when the operands'
  non-trivial descriptors on it agree, their layouts of other than one segment agree, and
  it has such a layout in some operand or there is only one operand. If every operand is
  plain along the concatenation axis, the rule adopts for it the trivial descriptor and a
  single segment whose length is the sum of the operands' lengths along that axis, every
  result of the rule has them there, and operands of one axis are concatenated by the
  kernel into the single block of the result. An axis other than the concatenation axis
  that is plain in all of two or more operands is not covered by this statement.
\<close>

theorem concatenate_axis_restriction:
  assumes ne: "ops \<noteq> []"
    and ranks: "\<forall>opnd \<in> set ops. length (fst opnd) = ndim \<and> length (fst (snd opnd)) = ndim"
    and dim: "dimension < ndim"
  shows "((\<exists>p \<in> set ops. fst p ! dimension \<noteq> TRIVIAL_TREEDEF
                          \<or> length (fst (snd p) ! dimension) \<noteq> 1) \<longrightarrow>
            (\<exists>e. concatenate_tree_rule concat_p ops dimension = Inl e)
            \<and> ((\<forall>b < dimension.
                   (\<forall>p \<in> set ops. \<forall>q \<in> set ops.
                       fst p ! b \<noteq> TRIVIAL_TREEDEF \<and> fst q ! b \<noteq> TRIVIAL_TREEDEF
                       \<longrightarrow> fst p ! b = fst q ! b)
                   \<and> (\<forall>p \<in> set ops. \<forall>q \<in> set ops.
                         length (fst (snd p) ! b) \<noteq> 1 \<and> length (fst (snd q) ! b) \<noteq> 1
                         \<longrightarrow> fst (snd p) ! b = fst (snd q) ! b)
                   \<and> ((\<exists>p \<in> set ops. length (fst (snd p) ! b) \<noteq> 1) \<or> length ops = 1))
                 \<longrightarrow> concatenate_tree_rule concat_p ops dimension
                     = Inl (InvalidConcatenateAxis dimension)))
         \<and> ((\<forall>p \<in> set ops. fst p ! dimension = TRIVIAL_TREEDEF
                              \<and> length (fst (snd p) ! dimension) = 1) \<longrightarrow>
              concatenate_axis ops dimension dimension
              = Inr (TRIVIAL_TREEDEF,
                     [[sum_list (map (\<lambda>opnd. axis_length (fst (snd opnd) ! dimension)) ops)]])
              \<and> (\<forall>otd ols olv.
                    concatenate_tree_rule concat_p ops dimension = Inr (otd, ols, olv) \<longrightarrow>
                    otd ! dimension = TRIVIAL_TREEDEF
                    \<and> ols ! dimension
                      = [[sum_list (map (\<lambda>opnd. axis_length (fst (snd opnd) ! dimension)) ops)]])
              \<and> (ndim = 1 \<longrightarrow>
                    concatenate_tree_rule concat_p ops dimension
                    = bindE (mapE (\<lambda>opnd. lookup (snd (snd opnd)) [0]) ops) (\<lambda>args.
                        bindE (concat_p args 0) (\<lambda>r.
                          Inr ([TRIVIAL_TREEDEF],
                               [[[sum_list (map (\<lambda>opnd. axis_length (fst (snd opnd) ! dimension))
                                     ops)]]],
                               [([0], r)])))))"
proof (intro conjI impI allI)
  have rk: "\<forall>opnd \<in> set ops. length (fst opnd) = ndim" using ranks by simp
  have wf: "\<forall>opnd \<in> set ops. b < length (fst opnd) \<and> b < length (fst (snd opnd))"
    if "b < ndim" for b using ranks that by simp
  note unfold = concatenate_tree_rule_unfold [OF ne rk]
  {
    assume "\<exists>p \<in> set ops. fst p ! dimension \<noteq> TRIVIAL_TREEDEF
                          \<or> length (fst (snd p) ! dimension) \<noteq> 1"
    then obtain p where "p \<in> set ops"
      and "fst p ! dimension \<noteq> TRIVIAL_TREEDEF \<or> length (fst (snd p) ! dimension) \<noteq> 1" by blast
    from concatenate_axis_rejects [OF wf [OF dim] this]
    have at: "concatenate_axis ops dimension dimension = Inl (InvalidConcatenateAxis dimension)" .
    from mapE_upt_some_failure [of dimension ndim "concatenate_axis ops dimension", OF dim at]
    obtain e where "mapE (concatenate_axis ops dimension) [0..<ndim] = Inl e" by blast
    then show "\<exists>e. concatenate_tree_rule concat_p ops dimension = Inl e"
      by (simp add: unfold)
    {
      assume earlier: "\<forall>b < dimension.
                   (\<forall>p \<in> set ops. \<forall>q \<in> set ops.
                       fst p ! b \<noteq> TRIVIAL_TREEDEF \<and> fst q ! b \<noteq> TRIVIAL_TREEDEF
                       \<longrightarrow> fst p ! b = fst q ! b)
                   \<and> (\<forall>p \<in> set ops. \<forall>q \<in> set ops.
                         length (fst (snd p) ! b) \<noteq> 1 \<and> length (fst (snd q) ! b) \<noteq> 1
                         \<longrightarrow> fst (snd p) ! b = fst (snd q) ! b)
                   \<and> ((\<exists>p \<in> set ops. length (fst (snd p) ! b) \<noteq> 1) \<or> length ops = 1)"
      have "\<forall>b < dimension. \<exists>r. concatenate_axis ops dimension b = Inr r"
      proof (intro allI impI)
        fix b assume b: "b < dimension"
        with dim have "b < ndim" by simp
        from wf [OF this] show "\<exists>r. concatenate_axis ops dimension b = Inr r"
        proof (rule concatenate_axis_passes)
          show "b \<noteq> dimension" using b by simp
        qed (use earlier b in blast)+
      qed
      with dim at have "mapE (concatenate_axis ops dimension) [0..<ndim]
                        = Inl (InvalidConcatenateAxis dimension)"
        by (intro mapE_upt_first_failure)
      then show "concatenate_tree_rule concat_p ops dimension
                 = Inl (InvalidConcatenateAxis dimension)"
        by (simp add: unfold)
    }
  }
  assume plain: "\<forall>p \<in> set ops. fst p ! dimension = TRIVIAL_TREEDEF
                              \<and> length (fst (snd p) ! dimension) = 1"
  show at: "concatenate_axis ops dimension dimension
        = Inr (TRIVIAL_TREEDEF,
               [[sum_list (map (\<lambda>opnd. axis_length (fst (snd opnd) ! dimension)) ops)]])"
    by (rule concatenate_axis_plain [OF wf [OF dim] plain])
  {
    fix otd ols olv
    assume ok: "concatenate_tree_rule concat_p ops dimension = Inr (otd, ols, olv)"
    then obtain outs where outs: "mapE (concatenate_axis ops dimension) [0..<ndim] = Inr outs"
      and otd: "otd = map fst outs" and ols: "ols = map snd outs"
      unfolding unfold by (auto simp: bindE_eq_Inr Let_def)
    from mapE_upt_nth [OF outs dim] at
    have r: "outs ! dimension = (TRIVIAL_TREEDEF,
                [[sum_list (map (\<lambda>opnd. axis_length (fst (snd opnd) ! dimension)) ops)]])"
      by simp
    have len: "dimension < length outs"
      using mapE_upt_length [OF outs] dim by simp
    show "otd ! dimension = TRIVIAL_TREEDEF"
      using len r by (simp add: otd)
    show "ols ! dimension
          = [[sum_list (map (\<lambda>opnd. axis_length (fst (snd opnd) ! dimension)) ops)]]"
      using len r by (simp add: ols)
  }
  assume one: "ndim = 1"
  with dim have d0: "dimension = 0" by simp
  show "concatenate_tree_rule concat_p ops dimension
        = bindE (mapE (\<lambda>opnd. lookup (snd (snd opnd)) [0]) ops) (\<lambda>args.
            bindE (concat_p args 0) (\<lambda>r.
              Inr ([TRIVIAL_TREEDEF],
                   [[[sum_list (map (\<lambda>opnd. axis_length (fst (snd opnd) ! dimension)) ops)]]],
                   [([0], r)])))"
    unfolding d0
    by (rule concatenate_vectors [OF ne ranks [unfolded one] plain [unfolded d0]])
qed

text \<open>
  Concatenating along the second axis two values whose axes both carry the container
  \<^verbatim>\<open>{'a', 'b'}\<close> raises \<^verbatim>\<open>InvalidConcatenateAxis\<close> for that axis: the first axis passes
  its checks. The plain vectors of \<^verbatim>\<open>test_concatenate_trivial\<close> are concatenated into
  one segment of length \<open>3 + 2\<close>, and so are, along their plain second axis, two values
  whose first axis carries a container.
\<close>

theorem concatenate_axis_restriction_witness:
  "concatenate_tree_rule concatenate_p [operand_ab_ab, operand_ab_ab] 1
     = Inl (InvalidConcatenateAxis 1)
   \<and> concatenate_tree_rule concatenate_p [operand_arange3, operand_arange2] 0
     = Inr ([TLeaf], [[[5]]], [([0], \<lparr>dtype = DInt, shape = [5], elems = [0, 1, 2, 3, 4]\<rparr>)])
   \<and> [[[5]]] ! 0
     = [[sum_list (map (\<lambda>opnd. axis_length (fst (snd opnd) ! 0))
                    [operand_arange3, operand_arange2])]]
   \<and> concatenate_tree_rule concatenate_p [operand_ab_expanded, operand_ab_expanded] 1
     = Inr ([treedef_ab, TLeaf], [[[], []], [[2]]],
            [([0, 0], \<lparr>dtype = DInt, shape = [2], elems = [1, 1]\<rparr>),
             ([1, 0], \<lparr>dtype = DInt, shape = [2], elems = [2, 2]\<rparr>)])
   \<and> [[[], []], [[2]]] ! 1
     = [[sum_list (map (\<lambda>opnd. axis_length (fst (snd opnd) ! 1))
                    [operand_ab_expanded, operand_ab_expanded])]]"
proof -
  have ne: "[operand_ab_ab, operand_ab_ab] \<noteq> []"
    and ne': "[operand_arange3, operand_arange2] \<noteq> []"
    and ne'': "[operand_ab_expanded, operand_ab_expanded] \<noteq> []"
    and dim0: "(0::nat) < 1" and dim1: "(1::nat) < 2"
    by simp_all
  have ranks: "\<forall>opnd \<in> set [operand_ab_ab, operand_ab_ab].
                 length (fst opnd) = 2 \<and> length (fst (snd opnd)) = 2"
    and ranks': "\<forall>opnd \<in> set [operand_arange3, operand_arange2].
                 length (fst opnd) = 1 \<and> length (fst (snd opnd)) = 1"
    and ranks'': "\<forall>opnd \<in> set [operand_ab_expanded, operand_ab_expanded].
                 length (fst opnd) = 2 \<and> length (fst (snd opnd)) = 2"
    by (simp_all add: operand_ab_ab_def operand_arange3_def operand_arange2_def
        operand_ab_expanded_def)
  have bad: "\<exists>p \<in> set [operand_ab_ab, operand_ab_ab].
               fst p ! 1 \<noteq> TRIVIAL_TREEDEF \<or> length (fst (snd p) ! 1) \<noteq> 1"
    by (simp add: operand_ab_ab_def treedef_ab_def TRIVIAL_TREEDEF_def)
  have earlier: "\<forall>b < 1.
      (\<forall>p \<in> set [operand_ab_ab, operand_ab_ab]. \<forall>q \<in> set [operand_ab_ab, operand_ab_ab].
          fst p ! b \<noteq> TRIVIAL_TREEDEF \<and> fst q ! b \<noteq> TRIVIAL_TREEDEF
          \<longrightarrow> fst p ! b = fst q ! b)
      \<and> (\<forall>p \<in> set [operand_ab_ab, operand_ab_ab]. \<forall>q \<in> set [operand_ab_ab, operand_ab_ab].
            length (fst (snd p) ! b) \<noteq> 1 \<and> length (fst (snd q) ! b) \<noteq> 1
            \<longrightarrow> fst (snd p) ! b = fst (snd q) ! b)
      \<and> ((\<exists>p \<in> set [operand_ab_ab, operand_ab_ab]. length (fst (snd p) ! b) \<noteq> 1)
           \<or> length [operand_ab_ab, operand_ab_ab] = 1)"
    by (simp add: operand_ab_ab_def)
  have first: "concatenate_tree_rule concatenate_p [operand_ab_ab, operand_ab_ab] 1
     = Inl (InvalidConcatenateAxis 1)"
    by (rule concatenate_axis_restriction [OF ne ranks dim1, of concatenate_p,
          THEN conjunct1, THEN mp, OF bad, THEN conjunct2, THEN mp, OF earlier])
  have plain': "\<forall>p \<in> set [operand_arange3, operand_arange2].
                  fst p ! 0 = TRIVIAL_TREEDEF \<and> length (fst (snd p) ! 0) = 1"
    by (simp add: operand_arange3_def operand_arange2_def TRIVIAL_TREEDEF_def)
  have plain'': "\<forall>p \<in> set [operand_ab_expanded, operand_ab_expanded].
                  fst p ! 1 = TRIVIAL_TREEDEF \<and> length (fst (snd p) ! 1) = 1"
    by (simp add: operand_ab_expanded_def TRIVIAL_TREEDEF_def)
  have ok': "concatenate_tree_rule concatenate_p [operand_arange3, operand_arange2] 0
     = Inr ([TLeaf], [[[5]]], [([0], \<lparr>dtype = DInt, shape = [5], elems = [0, 1, 2, 3, 4]\<rparr>)])"
    by code_simp
  have ok'': "concatenate_tree_rule concatenate_p [operand_ab_expanded, operand_ab_expanded] 1
     = Inr ([treedef_ab, TLeaf], [[[], []], [[2]]],
            [([0, 0], \<lparr>dtype = DInt, shape = [2], elems = [1, 1]\<rparr>),
             ([1, 0], \<lparr>dtype = DInt, shape = [2], elems = [2, 2]\<rparr>)])"
    by code_simp
  have seg': "[[[5]]] ! 0
     = [[sum_list (map (\<lambda>opnd. axis_length (fst (snd opnd) ! 0))
                    [operand_arange3, operand_arange2])]]"
    by (rule concatenate_axis_restriction [OF ne' ranks' dim0, of concatenate_p,
          THEN conjunct2, THEN mp, OF plain', THEN conjunct2, THEN conjunct1,
          THEN spec, THEN spec, THEN spec, THEN mp, OF ok', THEN conjunct2])
  have seg'': "[[[], []], [[2]]] ! 1
     = [[sum_list (map (\<lambda>opnd. axis_length (fst (snd opnd) ! 1))
                    [operand_ab_expanded, operand_ab_expanded])]]"
    by (rule concatenate_axis_restriction [OF ne'' ranks'' dim1, of concatenate_p,
          THEN conjunct2, THEN mp, OF plain'', THEN conjunct2, THEN conjunct1,
          THEN spec, THEN spec, THEN spec, THEN mp, OF ok'', THEN conjunct2])
  show ?thesis
    by (rule conjI [OF first conjI [OF ok' conjI [OF seg' conjI [OF ok'' seg'']]]])
qed

text \<open>
  Claim C7, as stated, fails: concatenating these two operands along their second axis,
  which carries a non-trivial container in both, raises \<^verbatim>\<open>ConflictingShape\<close> for the
  first axis, whose check comes first.
\<close>

theorem concatenate_axis_restriction_counterexample:
  "fst operand_ab_ab ! 1 \<noteq> TRIVIAL_TREEDEF
   \<and> concatenate_tree_rule concatenate_p [operand_ab_ab, operand_ab1_cd] 1
     = Inl (ConflictingShape 0)"
  by code_simp

text \<open>
  The length of an axis that is plain in all operands. On the concatenation axis the rule
  sums the operands' lengths; on any other axis it unpacks the list of their lengths into
  one name (\<^verbatim>\<open>size, = lengths\<close>), which fails when there are two or more operands. Two
  plain matrices of one shape, which the n-ary rule combines (it takes the maximum of the
  lengths), are not concatenated along either of their axes; a single one is returned as
  it is.
\<close>

lemma concatenate_plain_axes_unpack:
  "TreeTracer_init (fst operand_m12) (fst (snd operand_m12)) (snd (snd operand_m12))
     = Inr \<lparr>treedefs = fst operand_m12, leafshapes = fst (snd operand_m12),
             leaves = snd (snd operand_m12)\<rparr>
   \<and> concatenate_tree_rule concatenate_p [operand_m12, operand_m12] 0 = Inl UnpackError
   \<and> concatenate_tree_rule concatenate_p [operand_m12, operand_m12] 1 = Inl UnpackError
   \<and> concatenate_tree_rule concatenate_p [operand_m12] 0
     = Inr ([TLeaf, TLeaf], [[[1]], [[2]]],
            [([0, 0], \<lparr>dtype = DInt, shape = [1, 2], elems = [1, 2]\<rparr>)])
   \<and> naryop_tree_rule (bind2 add_p) [operand_m12, operand_m12]
     = Inr ([TLeaf, TLeaf], [[[1]], [[2]]],
            [([0, 0], \<lparr>dtype = DInt, shape = [1, 2], elems = [2, 4]\<rparr>)])"
  by code_simp


section \<open>The squeeze rule: checks and blocks\<close>

lemma squeeze_tree_rule_unfold:
  "squeeze_tree_rule [(tds, lss, lvs)] dimensions =
     bindE (mapE (squeeze_check dimensions) (enumerate 0 tds)) (\<lambda>_.
         bindE (mapE (\<lambda>io.
                  bindE (lookup lvs (fst io)) (\<lambda>leaf.
                  bindE (axes_for_leaf lss (fst io) dimensions) (\<lambda>leaf_dims.
                  bindE (squeeze leaf leaf_dims) (\<lambda>r. Inr (snd io, r)))))
                (zip (iter_leaf_coords tds) (iter_leaf_coords (drop_axes dimensions tds))))
           (\<lambda>kvs. Inr (drop_axes dimensions tds, drop_axes dimensions lss, dict_of kvs)))"
  by (simp add: squeeze_tree_rule_def unpack1_def Let_def)

lemma squeeze_check_enumerate:
  assumes "i < length tds"
  shows "squeeze_check dimensions (enumerate 0 tds ! i)
         = (if i \<in> set dimensions \<and> tds ! i \<noteq> TRIVIAL_TREEDEF
            then Inl (InvalidSqueezeAxis i) else Inr ())"
  using assms by (simp add: squeeze_check_def nth_enumerate_eq)

lemma squeeze_checks_fail:
  assumes i: "i < length tds" and bad: "i \<in> set dimensions" "tds ! i \<noteq> TRIVIAL_TREEDEF"
    and first: "\<forall>j < i. \<not> (j \<in> set dimensions \<and> tds ! j \<noteq> TRIVIAL_TREEDEF)"
  shows "mapE (squeeze_check dimensions) (enumerate 0 tds) = Inl (InvalidSqueezeAxis i)"
  unfolding mapE_Inl_iff
proof (intro exI [of _ i] conjI allI impI)
  show "i < length (enumerate 0 tds)" using i by simp
  show "squeeze_check dimensions (enumerate 0 tds ! i) = Inl (InvalidSqueezeAxis i)"
    using bad by (simp add: squeeze_check_enumerate [OF i])
  fix j assume j: "j < i"
  with i have "j < length tds" by simp
  from squeeze_check_enumerate [OF this] first j
  show "\<exists>y. squeeze_check dimensions (enumerate 0 tds ! j) = Inr y" by simp
qed

lemma squeeze_checks_pass:
  assumes "mapE (squeeze_check dimensions) (enumerate 0 tds) = Inr us"
    and "i < length tds" and "i \<in> set dimensions"
  shows "tds ! i = TRIVIAL_TREEDEF"
proof -
  from assms(1) have "list_all2 (\<lambda>x y. squeeze_check dimensions x = Inr y) (enumerate 0 tds) us"
    by (simp add: mapE_eq_Inr)
  from list_all2_nthD [OF this, of i] assms(2)
  have "squeeze_check dimensions (enumerate 0 tds ! i) = Inr (us ! i)" by simp
  with assms(2,3) show ?thesis
    by (simp add: squeeze_check_enumerate split: if_splits)
qed

lemma distinct_iter_leaf_coords: "distinct (iter_leaf_coords tds)"
  unfolding iter_leaf_coords_def by (rule distinct_product_lists) auto

lemma squeeze_kernel:
  "squeeze leaf dims = Inr r \<Longrightarrow> shape r = drop_axes dims (shape leaf) \<and> elems r = elems leaf"
  by (auto simp: squeeze_def drop_axes_def split: if_splits)


lemma mapE_keyed_nth:
  assumes "mapE (\<lambda>x. bindE (g x) (\<lambda>r. Inr (k x, r))) xs = Inr kvs"
  shows "length kvs = length xs
         \<and> (\<forall>n < length xs. g (xs ! n) = Inr (snd (kvs ! n)) \<and> fst (kvs ! n) = k (xs ! n))"
proof -
  from assms
  have all2: "list_all2 (\<lambda>x kv. bindE (g x) (\<lambda>r. Inr (k x, r)) = Inr kv) xs kvs"
    by (simp add: mapE_eq_Inr)
  then have len: "length kvs = length xs"
    by (simp add: list_all2_lengthD)
  have "g (xs ! n) = Inr (snd (kvs ! n)) \<and> fst (kvs ! n) = k (xs ! n)" if "n < length xs" for n
  proof -
    from list_all2_nthD [OF all2 that]
    have "bindE (g (xs ! n)) (\<lambda>r. Inr (k (xs ! n), r)) = Inr (kvs ! n)" .
    then obtain r where "g (xs ! n) = Inr r" and "kvs ! n = (k (xs ! n), r)"
      by (auto simp: bindE_eq_Inr)
    then show ?thesis by simp
  qed
  with len show ?thesis by blast
qed

lemma mapE_keyed:
  assumes run: "mapE (\<lambda>x. bindE (g x) (\<lambda>r. Inr (k x, r))) xs = Inr kvs"
    and dist: "distinct (map k xs)"
    and x: "x \<in> set xs"
  shows "\<exists>r. g x = Inr r \<and> map_of (dict_of kvs) (k x) = Some r"
proof -
  from mapE_keyed_nth [OF run] have len: "length kvs = length xs"
    and nth: "\<forall>n < length xs. g (xs ! n) = Inr (snd (kvs ! n)) \<and> fst (kvs ! n) = k (xs ! n)"
    by blast+
  have keys: "map fst kvs = map k xs"
    using len nth by (intro nth_equalityI) simp_all
  then have dk: "distinct (map fst kvs)" using dist by simp
  from x obtain n where n: "n < length xs" and xn: "xs ! n = x"
    by (auto simp: in_set_conv_nth)
  from nth n xn have g: "g x = Inr (snd (kvs ! n))" and f: "fst (kvs ! n) = k x"
    by auto
  have "(k x, snd (kvs ! n)) \<in> set kvs"
    using n len f by (metis nth_mem prod.collapse)
  with dk have "map_of kvs (k x) = Some (snd (kvs ! n))"
    by (rule map_of_is_SomeI)
  with g show ?thesis
    by (simp add: dict_of_distinct [OF dk])
qed

text \<open>
  Claim C8, as the code has it. The squeeze rule examines the container descriptor of
  every requested axis, and nothing else: it fails with \<^verbatim>\<open>InvalidSqueezeAxis\<close> at the
  first requested axis whose descriptor is not the trivial one. When it succeeds, every
  requested axis has the trivial descriptor, the result keeps the descriptors and
  segments of the other axes, and every result block is the input block with the physical
  dimensions of the requested axes removed by the squeeze kernel.
\<close>

theorem squeeze_axis_restriction:
  "(\<forall>i < length tds. i \<in> set dimensions \<longrightarrow> tds ! i \<noteq> TRIVIAL_TREEDEF
       \<longrightarrow> (\<forall>j < i. \<not> (j \<in> set dimensions \<and> tds ! j \<noteq> TRIVIAL_TREEDEF))
       \<longrightarrow> squeeze_tree_rule [(tds, lss, lvs)] dimensions = Inl (InvalidSqueezeAxis i))
   \<and> (squeeze_tree_rule [(tds, lss, lvs)] dimensions = Inr (otd, ols, olv) \<longrightarrow>
        (\<forall>i < length tds. i \<in> set dimensions \<longrightarrow> tds ! i = TRIVIAL_TREEDEF)
        \<and> otd = drop_axes dimensions tds \<and> ols = drop_axes dimensions lss
        \<and> (\<forall>io \<in> set (zip (iter_leaf_coords tds) (iter_leaf_coords otd)).
              \<exists>leaf leaf_dims r.
                map_of lvs (fst io) = Some leaf
                \<and> axes_for_leaf lss (fst io) dimensions = Inr leaf_dims
                \<and> squeeze leaf leaf_dims = Inr r
                \<and> map_of olv (snd io) = Some r
                \<and> shape r = drop_axes leaf_dims (shape leaf) \<and> elems r = elems leaf))"
proof (rule conjI)
  show "\<forall>i < length tds. i \<in> set dimensions \<longrightarrow> tds ! i \<noteq> TRIVIAL_TREEDEF
       \<longrightarrow> (\<forall>j < i. \<not> (j \<in> set dimensions \<and> tds ! j \<noteq> TRIVIAL_TREEDEF))
       \<longrightarrow> squeeze_tree_rule [(tds, lss, lvs)] dimensions = Inl (InvalidSqueezeAxis i)"
  proof (intro allI impI)
    fix i
    assume "i < length tds" "i \<in> set dimensions" "tds ! i \<noteq> TRIVIAL_TREEDEF"
      "\<forall>j < i. \<not> (j \<in> set dimensions \<and> tds ! j \<noteq> TRIVIAL_TREEDEF)"
    then have "mapE (squeeze_check dimensions) (enumerate 0 tds) = Inl (InvalidSqueezeAxis i)"
      by (rule squeeze_checks_fail)
    then show "squeeze_tree_rule [(tds, lss, lvs)] dimensions = Inl (InvalidSqueezeAxis i)"
      by (simp add: squeeze_tree_rule_unfold)
  qed
next
  show "squeeze_tree_rule [(tds, lss, lvs)] dimensions = Inr (otd, ols, olv) \<longrightarrow>
        (\<forall>i < length tds. i \<in> set dimensions \<longrightarrow> tds ! i = TRIVIAL_TREEDEF)
        \<and> otd = drop_axes dimensions tds \<and> ols = drop_axes dimensions lss
        \<and> (\<forall>io \<in> set (zip (iter_leaf_coords tds) (iter_leaf_coords otd)).
              \<exists>leaf leaf_dims r.
                map_of lvs (fst io) = Some leaf
                \<and> axes_for_leaf lss (fst io) dimensions = Inr leaf_dims
                \<and> squeeze leaf leaf_dims = Inr r
                \<and> map_of olv (snd io) = Some r
                \<and> shape r = drop_axes leaf_dims (shape leaf) \<and> elems r = elems leaf)"
  proof (rule impI, intro conjI)
  assume ok: "squeeze_tree_rule [(tds, lss, lvs)] dimensions = Inr (otd, ols, olv)"
  let ?g = "\<lambda>io. bindE (lookup lvs (fst io)) (\<lambda>leaf.
                  bindE (axes_for_leaf lss (fst io) dimensions) (\<lambda>leaf_dims.
                    squeeze leaf leaf_dims))"
  let ?ios = "zip (iter_leaf_coords tds) (iter_leaf_coords (drop_axes dimensions tds))"
  have body: "(\<lambda>io. bindE (lookup lvs (fst io)) (\<lambda>leaf.
                  bindE (axes_for_leaf lss (fst io) dimensions) (\<lambda>leaf_dims.
                  bindE (squeeze leaf leaf_dims) (\<lambda>r. Inr (snd io, r)))))
              = (\<lambda>io. bindE (?g io) (\<lambda>r. Inr (snd io, r)))"
    by (simp add: bindE_assoc)
  from ok obtain us kvs where checks: "mapE (squeeze_check dimensions) (enumerate 0 tds) = Inr us"
    and run: "mapE (\<lambda>io. bindE (?g io) (\<lambda>r. Inr (snd io, r))) ?ios = Inr kvs"
    and otd: "otd = drop_axes dimensions tds" and ols: "ols = drop_axes dimensions lss"
    and olv: "olv = dict_of kvs"
    unfolding squeeze_tree_rule_unfold body by (auto simp: bindE_eq_Inr)
  show "otd = drop_axes dimensions tds" by (rule otd)
  show "ols = drop_axes dimensions lss" by (rule ols)
  show "\<forall>i < length tds. i \<in> set dimensions \<longrightarrow> tds ! i = TRIVIAL_TREEDEF"
    using squeeze_checks_pass [OF checks] by blast
  have dist: "distinct (map snd ?ios)"
    by (simp add: map_snd_zip_take distinct_iter_leaf_coords)
  show "\<forall>io \<in> set (zip (iter_leaf_coords tds) (iter_leaf_coords otd)).
              \<exists>leaf leaf_dims r.
                map_of lvs (fst io) = Some leaf
                \<and> axes_for_leaf lss (fst io) dimensions = Inr leaf_dims
                \<and> squeeze leaf leaf_dims = Inr r
                \<and> map_of olv (snd io) = Some r
                \<and> shape r = drop_axes leaf_dims (shape leaf) \<and> elems r = elems leaf"
  proof
    fix io assume "io \<in> set (zip (iter_leaf_coords tds) (iter_leaf_coords otd))"
    then have io: "io \<in> set ?ios" by (simp add: otd)
    from mapE_keyed [OF run dist io] obtain r where g: "?g io = Inr r"
      and out: "map_of olv (snd io) = Some r" by (auto simp: olv)
    from g obtain leaf leaf_dims where "lookup lvs (fst io) = Inr leaf"
      and ld: "axes_for_leaf lss (fst io) dimensions = Inr leaf_dims"
      and sq: "squeeze leaf leaf_dims = Inr r"
      by (auto simp: bindE_eq_Inr)
    then have "map_of lvs (fst io) = Some leaf"
      by (simp add: lookup_def split: option.splits)
    with ld sq out squeeze_kernel [OF sq]
    show "\<exists>leaf leaf_dims r.
                map_of lvs (fst io) = Some leaf
                \<and> axes_for_leaf lss (fst io) dimensions = Inr leaf_dims
                \<and> squeeze leaf leaf_dims = Inr r
                \<and> map_of olv (snd io) = Some r
                \<and> shape r = drop_axes leaf_dims (shape leaf) \<and> elems r = elems leaf"
      by blast
  qed
  qed
qed


theorem squeeze_axis_restriction_witness:
  "squeeze_tree_rule [operand_ab] [0] = Inl (InvalidSqueezeAxis 0)
   \<and> squeeze_tree_rule [operand_ab_expanded] [1]
       = Inr ([treedef_ab], [[[], []]], [([0], scalar DInt 1), ([1], scalar DInt 2)])
   \<and> [treedef_ab] = drop_axes [1] [treedef_ab, TLeaf]"
proof -
  have bad: "(0::nat) < length [treedef_ab]" "(0::nat) \<in> set [0]"
    "[treedef_ab] ! 0 \<noteq> TRIVIAL_TREEDEF"
    "\<forall>j < (0::nat). \<not> (j \<in> set [0] \<and> [treedef_ab] ! j \<noteq> TRIVIAL_TREEDEF)"
    by (simp_all add: treedef_ab_def TRIVIAL_TREEDEF_def)
  note fails = squeeze_axis_restriction [of "[treedef_ab]" "[0]" "[[[], []]]"
      "[([0], scalar DInt 0), ([1], scalar DInt 0)]",
      THEN conjunct1, THEN spec, THEN mp, THEN mp, THEN mp, THEN mp, OF bad]
  have first: "squeeze_tree_rule [operand_ab] [0] = Inl (InvalidSqueezeAxis 0)"
    unfolding operand_ab_def by (rule fails)
  have ok: "squeeze_tree_rule
       [([treedef_ab, TLeaf], [[[], []], [[1]]],
         [([0, 0], \<lparr>dtype = DInt, shape = [1], elems = [1]\<rparr>),
          ([1, 0], \<lparr>dtype = DInt, shape = [1], elems = [2]\<rparr>)])] [1]
       = Inr ([treedef_ab], [[[], []]], [([0], scalar DInt 1), ([1], scalar DInt 2)])"
    by code_simp
  note succeeds = squeeze_axis_restriction [THEN conjunct2, THEN mp, OF ok,
      THEN conjunct2, THEN conjunct1]
  from first ok succeeds show ?thesis
    by (simp add: operand_ab_expanded_def)
qed

text \<open>
  Claim C8, as stated, fails. The only axis of the value converted from the array
  \<^verbatim>\<open>[[5.0]]\<close> of shape \<open>(1, 1)\<close> is not trivial (its segment is two-dimensional), and
  squeezing it succeeds; the only axis of the value converted from \<^verbatim>\<open>[[5.0, 6.0]]\<close> is
  not trivial either, and squeezing it fails inside the kernel, not with
  \<^verbatim>\<open>InvalidSqueezeAxis\<close>.
\<close>

theorem squeeze_nontrivial_axis_counterexample:
  "\<not> is_trivial_axis TLeaf [[1, 1]]
   \<and> squeeze_tree_rule
       [([TLeaf], [[[1, 1]]], [([0], \<lparr>dtype = DFloat, shape = [1, 1], elems = [5]\<rparr>)])] [0]
     = Inr ([], [], [([], scalar DFloat 5)])
   \<and> \<not> is_trivial_axis TLeaf [[1, 2]]
   \<and> squeeze_tree_rule
       [([TLeaf], [[[1, 2]]], [([0], \<lparr>dtype = DFloat, shape = [1, 2], elems = [5, 6]\<rparr>)])] [0]
     = Inl KernelError"
  by code_simp


section \<open>Accumulating contributions\<close>

lemma nodes_append_Inr:
  assumes "nodes_append k x nodes = Inr nodes'"
  shows "\<exists>v. map_of nodes k = Some v \<and> nodes' = AList.update k (v @ [x]) nodes"
  using assms by (auto simp: nodes_append_def lookup_def bindE_eq_Inr split: option.splits)

lemma update_present_keys:
  "map_of d k = Some v \<Longrightarrow> map fst (AList.update k w d) = map fst d"
  by (induction d) (auto split: if_splits)

lemma accumulate_Cons:
  "accumulate contrib (c # cs) nodes
   = bindE (contrib c) (\<lambda>kx. bindE (nodes_append (fst kx) (snd kx) nodes)
                                 (\<lambda>nodes'. accumulate contrib cs nodes'))"
  by (simp add: accumulate_def bindE_def split: sum.splits)

lemma accumulate_result:
  assumes "accumulate contrib cs nodes0 = Inr nodes"
  shows "\<exists>kxs. mapE contrib cs = Inr kxs
           \<and> map fst nodes = map fst nodes0
           \<and> (\<forall>k. map_of nodes k
                   = map_option (\<lambda>v. v @ map snd (filter (\<lambda>kx. fst kx = k) kxs))
                       (map_of nodes0 k))"
  using assms
proof (induction cs arbitrary: nodes0)
  case Nil
  then show ?case
    by (simp add: accumulate_def option.map_ident)
next
  case (Cons c cs)
  from Cons.prems obtain kx nodes1 where kx: "contrib c = Inr kx"
    and app: "nodes_append (fst kx) (snd kx) nodes0 = Inr nodes1"
    and rest: "accumulate contrib cs nodes1 = Inr nodes"
    unfolding accumulate_Cons by (auto simp: bindE_eq_Inr)
  from nodes_append_Inr [OF app] obtain v where v: "map_of nodes0 (fst kx) = Some v"
    and n1: "nodes1 = AList.update (fst kx) (v @ [snd kx]) nodes0" by blast
  from Cons.IH [OF rest] obtain kxs where run: "mapE contrib cs = Inr kxs"
    and keys: "map fst nodes = map fst nodes1"
    and vals: "\<forall>k. map_of nodes k
                   = map_option (\<lambda>v. v @ map snd (filter (\<lambda>kx. fst kx = k) kxs))
                       (map_of nodes1 k)"
    by blast
  have "mapE contrib (c # cs) = Inr (kx # kxs)"
    by (simp add: kx run)
  moreover have "map fst nodes = map fst nodes0"
    using keys by (simp add: n1 update_present_keys [OF v])
  moreover have "map_of nodes k
                   = map_option (\<lambda>v. v @ map snd (filter (\<lambda>kx. fst kx = k) (kx # kxs)))
                       (map_of nodes0 k)" for k
  proof (cases "k = fst kx")
    case True
    then show ?thesis
      using vals [rule_format, of k] v by (simp add: n1 update_conv')
  next
    case False
    then have "fst kx \<noteq> k" by simp
    then show ?thesis
      using vals [rule_format, of k] False by (simp add: n1 update_conv')
  qed
  ultimately show ?case by blast
qed

lemma empty_nodes:
  "distinct cs \<Longrightarrow> dict_of (map (\<lambda>coords. (coords, [])) cs) = map (\<lambda>coords. (coords, [])) cs"
  by (rule dict_of_distinct) (simp add: comp_def)

lemma map_of_empty_nodes:
  "map_of (map (\<lambda>coords. (coords, [])) cs) k = (if k \<in> set cs then Some [] else None)"
  by (induction cs) simp_all

lemma reduce_nodes_result:
  assumes run: "reduce_nodes binop nodes = Inr out"
    and dist: "distinct (map fst nodes)"
    and kv: "map_of nodes k = Some v"
  shows "\<exists>r. reduce_py binop v = Inr r \<and> map_of out k = Some r"
proof -
  from run obtain kvs where
    kvs: "mapE (\<lambda>kv. bindE (reduce_py binop (snd kv)) (\<lambda>r. Inr (fst kv, r))) nodes = Inr kvs"
    and out: "out = dict_of kvs"
    by (auto simp: reduce_nodes_def bindE_eq_Inr)
  from kv have mem: "(k, v) \<in> set nodes" by (rule map_of_SomeD)
  from mapE_keyed [OF kvs dist mem] show ?thesis
    by (simp add: out)
qed

lemma reduce_nodes_keys:
  assumes run: "reduce_nodes binop nodes = Inr out" and dist: "distinct (map fst nodes)"
  shows "map fst out = map fst nodes"
proof -
  from run obtain kvs where
    kvs: "mapE (\<lambda>kv. bindE (reduce_py binop (snd kv)) (\<lambda>r. Inr (fst kv, r))) nodes = Inr kvs"
    and out: "out = dict_of kvs"
    by (auto simp: reduce_nodes_def bindE_eq_Inr)
  from mapE_keyed_nth [OF kvs] have "map fst kvs = map fst nodes"
    by (intro nth_equalityI) simp_all
  with dist show ?thesis
    by (simp add: out dict_of_distinct)
qed

text \<open>
  The loop of the two accumulating rules, from empty lists at the output coordinates:
  every contribution is computed, and the block stored at an output coordinate is the
  left fold, by the binary combiner, of the contributions made to that coordinate, in the
  order of the loop.
\<close>

lemma accumulate_reduce:
  assumes acc: "accumulate contrib cs (dict_of (map (\<lambda>coords. (coords, [])) ocs)) = Inr nodes"
    and red: "reduce_nodes binop nodes = Inr out"
    and dist: "distinct ocs"
  shows "\<exists>kxs. mapE contrib cs = Inr kxs
           \<and> map fst out = ocs
           \<and> (\<forall>oc \<in> set ocs. \<exists>r.
                  reduce_py binop (map snd (filter (\<lambda>kx. fst kx = oc) kxs)) = Inr r
                  \<and> map_of out oc = Some r)"
proof -
  from accumulate_result [OF acc [unfolded empty_nodes [OF dist]]]
  obtain kxs where run: "mapE contrib cs = Inr kxs"
    and keys: "map fst nodes = ocs"
    and vals: "\<forall>k. k \<in> set ocs \<longrightarrow>
                 map_of nodes k = Some (map snd (filter (\<lambda>kx. fst kx = k) kxs))"
    by (auto simp: comp_def map_of_empty_nodes)
  have dn: "distinct (map fst nodes)" using keys dist by simp
  have "\<exists>r. reduce_py binop (map snd (filter (\<lambda>kx. fst kx = oc) kxs)) = Inr r
             \<and> map_of out oc = Some r" if "oc \<in> set ocs" for oc
  proof -
    from vals that have "map_of nodes oc = Some (map snd (filter (\<lambda>kx. fst kx = oc) kxs))"
      by simp
    from reduce_nodes_result [OF red dn this] show ?thesis .
  qed
  moreover have "map fst out = ocs"
    using reduce_nodes_keys [OF red dn] keys by simp
  ultimately show ?thesis using run by blast
qed


section \<open>The reduction rule: contributions and folds\<close>

lemma reducer_tree_rule_unfold:
  "reducer_tree_rule prim binop [(tds, lss, lvs)] axes =
     bindE (accumulate (reducer_contrib prim lss lvs axes) (iter_leaf_coords tds)
              (dict_of (map (\<lambda>coords. (coords, []))
                          (iter_leaf_coords (drop_axes axes tds)))))
       (\<lambda>nodes. bindE (reduce_nodes binop nodes)
          (\<lambda>out_leaves. Inr (drop_axes axes tds, drop_axes axes lss, out_leaves)))"
  by (simp add: reducer_tree_rule_def unpack1_def Let_def)

lemma reducer_contrib_Inr:
  assumes "reducer_contrib prim lss lvs axes in_coords = Inr kx"
  shows "\<exists>leaf leaf_axes. map_of lvs in_coords = Some leaf
           \<and> axes_for_leaf lss in_coords axes = Inr leaf_axes
           \<and> prim leaf leaf_axes = Inr (snd kx)
           \<and> fst kx = drop_axes axes in_coords"
  using assms
  by (auto simp: reducer_contrib_def Let_def bindE_eq_Inr lookup_def split: option.splits)

lemma mapE_nth_Inr:
  assumes "mapE f xs = Inr ys"
  shows "length ys = length xs \<and> (\<forall>n < length xs. f (xs ! n) = Inr (ys ! n))"
proof -
  from assms have "list_all2 (\<lambda>x y. f x = Inr y) xs ys"
    by (simp add: mapE_eq_Inr)
  then show ?thesis
    by (simp add: list_all2_conv_all_nth)
qed

lemma zip_filter_swap:
  "map snd (filter (\<lambda>ix. P (fst ix)) (zip ns xs)) = map fst (filter (\<lambda>p. P (snd p)) (zip xs ns))"
  by (induction ns xs rule: list_induct2') simp_all

lemma drop_axes_nths: "drop_axes dims xs = nths xs {i. i \<notin> set dims}"
  unfolding drop_axes_def nths_def enumerate_eq_zip mem_Collect_eq add_0 length_upt diff_zero
  by (rule zip_filter_swap [of "\<lambda>i. i \<notin> set dims"])

lemma reduce_py_foldl: "reduce_py (\<lambda>a b. Inr (f a b)) (x # xs) = Inr (foldl f x xs)"
proof -
  have "foldE (\<lambda>y acc. Inr (f acc y)) xs x = Inr (foldl f x xs)" for x
    by (induction xs arbitrary: x) simp_all
  then show ?thesis by (simp add: reduce_py_def)
qed

lemma iter_leaf_coords_set:
  "set (iter_leaf_coords tds)
   = {cs. length cs = length tds \<and> (\<forall>k < length tds. cs ! k < num_leaves (tds ! k))}"
  by (auto simp: in_iter_leaf_coords)

lemma iter_leaf_coords_in_range:
  assumes len: "length lss = length tds"
    and segs: "\<forall>k < length tds. num_leaves (tds ! k) = length (lss ! k)"
    and c: "coords \<in> set (iter_leaf_coords tds)"
  shows "\<forall>k < length coords. k < length lss \<and> coords ! k < length (lss ! k)"
  using c len segs by (auto simp: in_iter_leaf_coords)

text \<open>
  Claim C4. When the reduction rule succeeds, the result keeps, in their order, the axes
  whose positions are not among the reduced ones; for every input coordinate the kernel
  reduces the block over the physical dimensions of the reduced axes (on a constructed
  value: for each reduced axis, the dimensions of that axis' segment, counted after the
  dimensions of the segments of the axes before it), and the partial result goes to the
  output coordinate that keeps the indices at the positions not reduced; the block at an
  output coordinate is the fold, by the binary combiner, of the partial results that went
  to it, in the order of the input coordinates: the coordinates are the lists of one
  partition index per axis, each once, and the fold is a left fold, which fails on an
  empty list of contributions. For the container
  \<^verbatim>\<open>{'x': 1.0, 'y': [2.0], 'z': [[3.0, 4.0]]}\<close>, with array leaves as in
  \<^verbatim>\<open>test_reduce\<close> or read as nested lists of scalars, reducing over the only axis and
  restoring yields \<open>10.0\<close> for the sum and \<open>4.0\<close> for the maximum. Reducing one axis of
  a value of two axes keeps the descriptor, the segments and the indices of the other.
\<close>

theorem reducer_accumulates:
  "(reducer_tree_rule prim binop [(tds, lss, lvs)] axes = Inr (otd, ols, olv) \<longrightarrow>
      otd = nths tds {i. i \<notin> set axes} \<and> ols = nths lss {i. i \<notin> set axes}
      \<and> map fst olv = iter_leaf_coords otd
      \<and> (\<exists>kxs. length kxs = length (iter_leaf_coords tds)
            \<and> (\<forall>n < length kxs. \<exists>leaf leaf_axes.
                   map_of lvs (iter_leaf_coords tds ! n) = Some leaf
                   \<and> axes_for_leaf lss (iter_leaf_coords tds ! n) axes = Inr leaf_axes
                   \<and> (length lss = length tds
                        \<and> (\<forall>k < length tds. num_leaves (tds ! k) = length (lss ! k)) \<longrightarrow>
                      leaf_axes
                      = concat (map (\<lambda>a. if a \<in> set axes
                          then [sum_list (map (\<lambda>j. length (lss ! j ! (iter_leaf_coords tds ! n ! j)))
                                           [0..<a])
                                ..< sum_list (map (\<lambda>j. length (lss ! j ! (iter_leaf_coords tds ! n ! j)))
                                               [0..<Suc a])]
                          else []) [0..<length tds]))
                   \<and> prim leaf leaf_axes = Inr (snd (kxs ! n))
                   \<and> fst (kxs ! n) = nths (iter_leaf_coords tds ! n) {i. i \<notin> set axes})
            \<and> (\<forall>oc \<in> set (iter_leaf_coords otd). \<exists>r.
                   reduce_py binop (map snd (filter (\<lambda>kx. fst kx = oc) kxs)) = Inr r
                   \<and> map_of olv oc = Some r)))
   \<and> set (iter_leaf_coords tds)
      = {cs. length cs = length tds \<and> (\<forall>k < length tds. cs ! k < num_leaves (tds ! k))}
   \<and> distinct (iter_leaf_coords tds)
   \<and> reduce_py binop [] = Inl TypeError
   \<and> reduce_py (\<lambda>a b. Inr (f a b)) (x # xs) = Inr (foldl f x xs)
   \<and> bindE (convert_vectorized_tree result_type asarray example_tree)
        (\<lambda>st. bindE (reducer_tree_rule reduce_sum_p add_p [st] [0]) restore_state)
      = Inr (PLeaf (scalar DFloat 10))
   \<and> bindE (convert_vectorized_tree result_type asarray example_tree)
        (\<lambda>st. bindE (reducer_tree_rule reduce_max_p max_p [st] [0]) restore_state)
      = Inr (PLeaf (scalar DFloat 4))
   \<and> bindE (convert_vectorized_tree result_type asarray example_tree_lists)
        (\<lambda>st. bindE (reducer_tree_rule reduce_sum_p add_p [st] [0]) restore_state)
      = Inr (PLeaf (scalar DFloat 10))
   \<and> bindE (convert_vectorized_tree result_type asarray example_tree_lists)
        (\<lambda>st. bindE (reducer_tree_rule reduce_max_p max_p [st] [0]) restore_state)
      = Inr (PLeaf (scalar DFloat 4))
   \<and> reducer_tree_rule reduce_sum_p add_p [operand_ab1_cd] [0]
      = Inr ([treedef_cd], [[[], []]], [([0], scalar DInt 4), ([1], scalar DInt 6)])
   \<and> reducer_tree_rule reduce_sum_p add_p [operand_ab1_cd] [1]
      = Inr ([treedef_ab], [[[1], [1]]],
             [([0], \<lparr>dtype = DInt, shape = [1], elems = [3]\<rparr>),
              ([1], \<lparr>dtype = DInt, shape = [1], elems = [7]\<rparr>)])"
proof (intro conjI)
  show "reducer_tree_rule prim binop [(tds, lss, lvs)] axes = Inr (otd, ols, olv) \<longrightarrow>
      otd = nths tds {i. i \<notin> set axes} \<and> ols = nths lss {i. i \<notin> set axes}
      \<and> map fst olv = iter_leaf_coords otd
      \<and> (\<exists>kxs. length kxs = length (iter_leaf_coords tds)
            \<and> (\<forall>n < length kxs. \<exists>leaf leaf_axes.
                   map_of lvs (iter_leaf_coords tds ! n) = Some leaf
                   \<and> axes_for_leaf lss (iter_leaf_coords tds ! n) axes = Inr leaf_axes
                   \<and> (length lss = length tds
                        \<and> (\<forall>k < length tds. num_leaves (tds ! k) = length (lss ! k)) \<longrightarrow>
                      leaf_axes
                      = concat (map (\<lambda>a. if a \<in> set axes
                          then [sum_list (map (\<lambda>j. length (lss ! j ! (iter_leaf_coords tds ! n ! j)))
                                           [0..<a])
                                ..< sum_list (map (\<lambda>j. length (lss ! j ! (iter_leaf_coords tds ! n ! j)))
                                               [0..<Suc a])]
                          else []) [0..<length tds]))
                   \<and> prim leaf leaf_axes = Inr (snd (kxs ! n))
                   \<and> fst (kxs ! n) = nths (iter_leaf_coords tds ! n) {i. i \<notin> set axes})
            \<and> (\<forall>oc \<in> set (iter_leaf_coords otd). \<exists>r.
                   reduce_py binop (map snd (filter (\<lambda>kx. fst kx = oc) kxs)) = Inr r
                   \<and> map_of olv oc = Some r))"
  proof
    assume ok: "reducer_tree_rule prim binop [(tds, lss, lvs)] axes = Inr (otd, ols, olv)"
    then obtain nodes where
      acc: "accumulate (reducer_contrib prim lss lvs axes) (iter_leaf_coords tds)
              (dict_of (map (\<lambda>coords. (coords, []))
                          (iter_leaf_coords (drop_axes axes tds)))) = Inr nodes"
      and red: "reduce_nodes binop nodes = Inr olv"
      and otd: "otd = drop_axes axes tds" and ols: "ols = drop_axes axes lss"
      unfolding reducer_tree_rule_unfold by (auto simp: bindE_eq_Inr)
    from accumulate_reduce [OF acc red distinct_iter_leaf_coords]
    obtain kxs where
      run: "mapE (reducer_contrib prim lss lvs axes) (iter_leaf_coords tds) = Inr kxs"
      and keys: "map fst olv = iter_leaf_coords otd"
      and vals: "\<forall>oc \<in> set (iter_leaf_coords otd). \<exists>r.
                   reduce_py binop (map snd (filter (\<lambda>kx. fst kx = oc) kxs)) = Inr r
                   \<and> map_of olv oc = Some r"
      unfolding otd by blast
    from mapE_nth_Inr [OF run] have len: "length kxs = length (iter_leaf_coords tds)"
      and nth: "\<forall>n < length (iter_leaf_coords tds).
                  reducer_contrib prim lss lvs axes (iter_leaf_coords tds ! n) = Inr (kxs ! n)"
      by blast+
    have each: "\<forall>n < length kxs. \<exists>leaf leaf_axes.
                   map_of lvs (iter_leaf_coords tds ! n) = Some leaf
                   \<and> axes_for_leaf lss (iter_leaf_coords tds ! n) axes = Inr leaf_axes
                   \<and> (length lss = length tds
                        \<and> (\<forall>k < length tds. num_leaves (tds ! k) = length (lss ! k)) \<longrightarrow>
                      leaf_axes
                      = concat (map (\<lambda>a. if a \<in> set axes
                          then [sum_list (map (\<lambda>j. length (lss ! j ! (iter_leaf_coords tds ! n ! j)))
                                           [0..<a])
                                ..< sum_list (map (\<lambda>j. length (lss ! j ! (iter_leaf_coords tds ! n ! j)))
                                               [0..<Suc a])]
                          else []) [0..<length tds]))
                   \<and> prim leaf leaf_axes = Inr (snd (kxs ! n))
                   \<and> fst (kxs ! n) = nths (iter_leaf_coords tds ! n) {i. i \<notin> set axes}"
    proof (intro allI impI)
      fix n assume n: "n < length kxs"
      let ?c = "iter_leaf_coords tds ! n"
      from n nth len
      have "reducer_contrib prim lss lvs axes ?c = Inr (kxs ! n)"
        by simp
      from reducer_contrib_Inr [OF this] obtain leaf leaf_axes where
        leaf: "map_of lvs ?c = Some leaf"
        and la: "axes_for_leaf lss ?c axes = Inr leaf_axes"
        and pr: "prim leaf leaf_axes = Inr (snd (kxs ! n))"
        and oc: "fst (kxs ! n) = drop_axes axes ?c"
        by blast
      have mem: "?c \<in> set (iter_leaf_coords tds)"
        using n len by simp
      then have lc: "length ?c = length tds"
        by (simp add: in_iter_leaf_coords)
      have "leaf_axes
            = concat (map (\<lambda>a. if a \<in> set axes
                then [sum_list (map (\<lambda>j. length (lss ! j ! (?c ! j))) [0..<a])
                      ..< sum_list (map (\<lambda>j. length (lss ! j ! (?c ! j))) [0..<Suc a])]
                else []) [0..<length tds])"
        if wf: "length lss = length tds
                  \<and> (\<forall>k < length tds. num_leaves (tds ! k) = length (lss ! k))"
      proof -
        from wf have "\<forall>k < length ?c. k < length lss \<and> ?c ! k < length (lss ! k)"
          by (intro iter_leaf_coords_in_range [OF _ _ mem]) simp_all
        from axes_for_leaf_value [OF this, of axes] la show ?thesis
          by (simp only: lc sum.inject)
      qed
      with leaf la pr oc
      show "\<exists>leaf leaf_axes.
                   map_of lvs ?c = Some leaf
                   \<and> axes_for_leaf lss ?c axes = Inr leaf_axes
                   \<and> (length lss = length tds
                        \<and> (\<forall>k < length tds. num_leaves (tds ! k) = length (lss ! k)) \<longrightarrow>
                      leaf_axes
                      = concat (map (\<lambda>a. if a \<in> set axes
                          then [sum_list (map (\<lambda>j. length (lss ! j ! (?c ! j))) [0..<a])
                                ..< sum_list (map (\<lambda>j. length (lss ! j ! (?c ! j))) [0..<Suc a])]
                          else []) [0..<length tds]))
                   \<and> prim leaf leaf_axes = Inr (snd (kxs ! n))
                   \<and> fst (kxs ! n) = nths ?c {i. i \<notin> set axes}"
        unfolding drop_axes_nths by blast
    qed
    from otd ols have "otd = nths tds {i. i \<notin> set axes}" "ols = nths lss {i. i \<notin> set axes}"
      by (simp_all only: drop_axes_nths)
    with keys len each vals
    show "otd = nths tds {i. i \<notin> set axes} \<and> ols = nths lss {i. i \<notin> set axes}
      \<and> map fst olv = iter_leaf_coords otd
      \<and> (\<exists>kxs. length kxs = length (iter_leaf_coords tds)
            \<and> (\<forall>n < length kxs. \<exists>leaf leaf_axes.
                   map_of lvs (iter_leaf_coords tds ! n) = Some leaf
                   \<and> axes_for_leaf lss (iter_leaf_coords tds ! n) axes = Inr leaf_axes
                   \<and> (length lss = length tds
                        \<and> (\<forall>k < length tds. num_leaves (tds ! k) = length (lss ! k)) \<longrightarrow>
                      leaf_axes
                      = concat (map (\<lambda>a. if a \<in> set axes
                          then [sum_list (map (\<lambda>j. length (lss ! j ! (iter_leaf_coords tds ! n ! j)))
                                           [0..<a])
                                ..< sum_list (map (\<lambda>j. length (lss ! j ! (iter_leaf_coords tds ! n ! j)))
                                               [0..<Suc a])]
                          else []) [0..<length tds]))
                   \<and> prim leaf leaf_axes = Inr (snd (kxs ! n))
                   \<and> fst (kxs ! n) = nths (iter_leaf_coords tds ! n) {i. i \<notin> set axes})
            \<and> (\<forall>oc \<in> set (iter_leaf_coords otd). \<exists>r.
                   reduce_py binop (map snd (filter (\<lambda>kx. fst kx = oc) kxs)) = Inr r
                   \<and> map_of olv oc = Some r))"
      by (intro conjI exI [of _ kxs])
  qed
  show "set (iter_leaf_coords tds)
      = {cs. length cs = length tds \<and> (\<forall>k < length tds. cs ! k < num_leaves (tds ! k))}"
    by (rule iter_leaf_coords_set)
  show "distinct (iter_leaf_coords tds)"
    by (rule distinct_iter_leaf_coords)
  show "reduce_py binop [] = Inl TypeError"
    by (simp add: reduce_py_def)
  show "reduce_py (\<lambda>a b. Inr (f a b)) (x # xs) = Inr (foldl f x xs)"
    by (rule reduce_py_foldl)
  show "bindE (convert_vectorized_tree result_type asarray example_tree)
        (\<lambda>st. bindE (reducer_tree_rule reduce_sum_p add_p [st] [0]) restore_state)
      = Inr (PLeaf (scalar DFloat 10))"
    by code_simp
  show "bindE (convert_vectorized_tree result_type asarray example_tree)
        (\<lambda>st. bindE (reducer_tree_rule reduce_max_p max_p [st] [0]) restore_state)
      = Inr (PLeaf (scalar DFloat 4))"
    by code_simp
  show "bindE (convert_vectorized_tree result_type asarray example_tree_lists)
        (\<lambda>st. bindE (reducer_tree_rule reduce_sum_p add_p [st] [0]) restore_state)
      = Inr (PLeaf (scalar DFloat 10))"
    by code_simp
  show "bindE (convert_vectorized_tree result_type asarray example_tree_lists)
        (\<lambda>st. bindE (reducer_tree_rule reduce_max_p max_p [st] [0]) restore_state)
      = Inr (PLeaf (scalar DFloat 4))"
    by code_simp
  show "reducer_tree_rule reduce_sum_p add_p [operand_ab1_cd] [0]
      = Inr ([treedef_cd], [[[], []]], [([0], scalar DInt 4), ([1], scalar DInt 6)])"
    by code_simp
  show "reducer_tree_rule reduce_sum_p add_p [operand_ab1_cd] [1]
      = Inr ([treedef_ab], [[[1], [1]]],
             [([0], \<lparr>dtype = DInt, shape = [1], elems = [3]\<rparr>),
              ([1], \<lparr>dtype = DInt, shape = [1], elems = [7]\<rparr>)])"
    by code_simp
qed

theorem reducer_accumulates_witness:
  "reducer_tree_rule reduce_sum_p add_p
     [([treedef_ab, treedef_cd], [[[1], [1]], [[], []]],
       [([0, 0], \<lparr>dtype = DInt, shape = [1], elems = [1]\<rparr>),
        ([0, 1], \<lparr>dtype = DInt, shape = [1], elems = [2]\<rparr>),
        ([1, 0], \<lparr>dtype = DInt, shape = [1], elems = [3]\<rparr>),
        ([1, 1], \<lparr>dtype = DInt, shape = [1], elems = [4]\<rparr>)])] [0]
   = Inr ([treedef_cd], [[[], []]], [([0], scalar DInt 4), ([1], scalar DInt 6)])
   \<and> [treedef_cd] = nths [treedef_ab, treedef_cd] {i. i \<notin> set [0]}
   \<and> [[[], []]] = nths [[[1::nat], [1]], [[], []]] {i. i \<notin> set [0]}
   \<and> map fst [([0::nat], scalar DInt 4), ([1], scalar DInt 6)] = iter_leaf_coords [treedef_cd]
   \<and> (\<exists>leaf_axes.
         axes_for_leaf [[[1], [1]], [[], []]] (iter_leaf_coords [treedef_ab, treedef_cd] ! 0) [0]
         = Inr leaf_axes
         \<and> leaf_axes
           = concat (map (\<lambda>a. if a \<in> set [0]
               then [sum_list (map (\<lambda>j. length ([[[1::nat], [1]], [[], []]] ! j
                                       ! (iter_leaf_coords [treedef_ab, treedef_cd] ! 0 ! j)))
                                [0..<a])
                     ..< sum_list (map (\<lambda>j. length ([[[1::nat], [1]], [[], []]] ! j
                                          ! (iter_leaf_coords [treedef_ab, treedef_cd] ! 0 ! j)))
                                    [0..<Suc a])]
               else []) [0..<length [treedef_ab, treedef_cd]]))"
proof -
  have ok: "reducer_tree_rule reduce_sum_p add_p
     [([treedef_ab, treedef_cd], [[[1], [1]], [[], []]],
       [([0, 0], \<lparr>dtype = DInt, shape = [1], elems = [1]\<rparr>),
        ([0, 1], \<lparr>dtype = DInt, shape = [1], elems = [2]\<rparr>),
        ([1, 0], \<lparr>dtype = DInt, shape = [1], elems = [3]\<rparr>),
        ([1, 1], \<lparr>dtype = DInt, shape = [1], elems = [4]\<rparr>)])] [0]
   = Inr ([treedef_cd], [[[], []]], [([0], scalar DInt 4), ([1], scalar DInt 6)])"
    by code_simp
  note general = reducer_accumulates [THEN conjunct1, THEN mp, OF ok]
  from general [THEN conjunct2, THEN conjunct2, THEN conjunct2]
  obtain kxs where len: "length kxs = length (iter_leaf_coords [treedef_ab, treedef_cd])"
    and each: "\<forall>n < length kxs. \<exists>leaf leaf_axes.
       map_of [([0, 0], \<lparr>dtype = DInt, shape = [1], elems = [1]\<rparr>),
               ([0, 1], \<lparr>dtype = DInt, shape = [1], elems = [2]\<rparr>),
               ([1, 0], \<lparr>dtype = DInt, shape = [1], elems = [3]\<rparr>),
               ([1, 1], \<lparr>dtype = DInt, shape = [1], elems = [4]\<rparr>)]
          (iter_leaf_coords [treedef_ab, treedef_cd] ! n) = Some leaf
       \<and> axes_for_leaf [[[1], [1]], [[], []]] (iter_leaf_coords [treedef_ab, treedef_cd] ! n) [0]
         = Inr leaf_axes
       \<and> (length [[[1::nat], [1]], [[], []]] = length [treedef_ab, treedef_cd]
            \<and> (\<forall>k < length [treedef_ab, treedef_cd].
                   num_leaves ([treedef_ab, treedef_cd] ! k)
                   = length ([[[1::nat], [1]], [[], []]] ! k)) \<longrightarrow>
           leaf_axes
           = concat (map (\<lambda>a. if a \<in> set [0]
               then [sum_list (map (\<lambda>j. length ([[[1::nat], [1]], [[], []]] ! j
                                       ! (iter_leaf_coords [treedef_ab, treedef_cd] ! n ! j)))
                                [0..<a])
                     ..< sum_list (map (\<lambda>j. length ([[[1::nat], [1]], [[], []]] ! j
                                          ! (iter_leaf_coords [treedef_ab, treedef_cd] ! n ! j)))
                                    [0..<Suc a])]
               else []) [0..<length [treedef_ab, treedef_cd]]))
       \<and> reduce_sum_p leaf leaf_axes = Inr (snd (kxs ! n))
       \<and> fst (kxs ! n) = nths (iter_leaf_coords [treedef_ab, treedef_cd] ! n) {i. i \<notin> set [0]}"
    by blast
  have "length (iter_leaf_coords [treedef_ab, treedef_cd]) = 4"
    by code_simp
  with len have first: "0 < length kxs" by simp
  have wf: "length [[[1::nat], [1]], [[], []]] = length [treedef_ab, treedef_cd]
            \<and> (\<forall>k < length [treedef_ab, treedef_cd].
                   num_leaves ([treedef_ab, treedef_cd] ! k)
                   = length ([[[1::nat], [1]], [[], []]] ! k))"
    by (simp add: treedef_ab_def treedef_cd_def less_Suc_eq)
  from each [rule_format, OF first] wf
  have axes: "\<exists>leaf_axes.
         axes_for_leaf [[[1], [1]], [[], []]] (iter_leaf_coords [treedef_ab, treedef_cd] ! 0) [0]
         = Inr leaf_axes
         \<and> leaf_axes
           = concat (map (\<lambda>a. if a \<in> set [0]
               then [sum_list (map (\<lambda>j. length ([[[1::nat], [1]], [[], []]] ! j
                                       ! (iter_leaf_coords [treedef_ab, treedef_cd] ! 0 ! j)))
                                [0..<a])
                     ..< sum_list (map (\<lambda>j. length ([[[1::nat], [1]], [[], []]] ! j
                                          ! (iter_leaf_coords [treedef_ab, treedef_cd] ! 0 ! j)))
                                    [0..<Suc a])]
               else []) [0..<length [treedef_ab, treedef_cd]])"
    by blast
  show ?thesis
    by (rule conjI [OF ok conjI [OF general [THEN conjunct1]
          conjI [OF general [THEN conjunct2, THEN conjunct1]
            conjI [OF general [THEN conjunct2, THEN conjunct2, THEN conjunct1] axes]]]])
qed


section \<open>The contraction rule: coordinates of a batched contraction\<close>

text \<open>
  Claim C5 against the code. The claim holds of the example it names: for the container
  \<^verbatim>\<open>{'x': 1.0, 'y': [2.0], 'z': [[3.0, 4.0]]}\<close>, with array leaves as in \<^verbatim>\<open>test_dot\<close>
  or read as nested lists of scalars, the product of the converted value with itself,
  restored, is \<open>30.0\<close>. It does not hold of a contraction with a batch axis. The rule
  builds the right coordinate from the right remaining indices by inserting each
  contracted index at its axis number among all the right axes, and then puts the batch
  indices in front: with the right axes (batch, contracted, column) the coordinate for
  the batch index \<open>b\<close>, the contracted index \<open>k\<close> and the column index \<open>n\<close> is
  \<open>(b, n, k)\<close>, not \<open>(b, k, n)\<close>. On the two constructed values \<^const>\<open>operand_bmk\<close> and
  \<^const>\<open>operand_bkn\<close> the rule therefore multiplies the left block \<open>k\<close> by the right block
  \<open>(n, k)\<close> and adds the product to the output coordinate \<open>(0, 0, k)\<close>: it returns the
  blocks \<open>8\<close> and \<open>20\<close>. The sums of the claim, of the products of the left block \<open>k\<close>
  and the right block \<open>(k, n)\<close> over \<open>k\<close> at the output coordinate \<open>(0, 0, n)\<close>, are \<open>13\<close>
  and \<open>16\<close>, which is also what the kernel computes on the two plain arrays.
\<close>

theorem dot_general_batch_coordinates:
  "dot_rhs_coords [2] [1] [0] [b, m, k] [n] = Inr [b, n, k]
   \<and> TreeTracer_init (fst operand_bmk) (fst (snd operand_bmk)) (snd (snd operand_bmk))
       = Inr \<lparr>treedefs = fst operand_bmk, leafshapes = fst (snd operand_bmk),
               leaves = snd (snd operand_bmk)\<rparr>
   \<and> TreeTracer_init (fst operand_bkn) (fst (snd operand_bkn)) (snd (snd operand_bkn))
       = Inr \<lparr>treedefs = fst operand_bkn, leafshapes = fst (snd operand_bkn),
               leaves = snd (snd operand_bkn)\<rparr>
   \<and> dot_general_tree_rule dot_general_p add_p [operand_bmk, operand_bkn]
         (([2], [1]), ([0], [0]))
       = Inr ([TLeaf, TLeaf, treedef_cd], [[[1]], [[1]], [[], []]],
              [([0, 0, 0], \<lparr>dtype = DFloat, shape = [1, 1], elems = [8]\<rparr>),
               ([0, 0, 1], \<lparr>dtype = DFloat, shape = [1, 1], elems = [20]\<rparr>)])
   \<and> bindE (dot_general_p \<lparr>dtype = DFloat, shape = [1, 1], elems = [1]\<rparr>
               \<lparr>dtype = DFloat, shape = [1], elems = [3]\<rparr> (([], []), ([0], [0])))
        (\<lambda>x. bindE (dot_general_p \<lparr>dtype = DFloat, shape = [1, 1], elems = [2]\<rparr>
                       \<lparr>dtype = DFloat, shape = [1], elems = [5]\<rparr> (([], []), ([0], [0])))
                (add_p x))
       = Inr \<lparr>dtype = DFloat, shape = [1, 1], elems = [13]\<rparr>
   \<and> bindE (dot_general_p \<lparr>dtype = DFloat, shape = [1, 1], elems = [1]\<rparr>
               \<lparr>dtype = DFloat, shape = [1], elems = [4]\<rparr> (([], []), ([0], [0])))
        (\<lambda>x. bindE (dot_general_p \<lparr>dtype = DFloat, shape = [1, 1], elems = [2]\<rparr>
                       \<lparr>dtype = DFloat, shape = [1], elems = [6]\<rparr> (([], []), ([0], [0])))
                (add_p x))
       = Inr \<lparr>dtype = DFloat, shape = [1, 1], elems = [16]\<rparr>
   \<and> dot_general_p \<lparr>dtype = DFloat, shape = [1, 1, 2], elems = [1, 2]\<rparr>
         \<lparr>dtype = DFloat, shape = [1, 2, 2], elems = [3, 4, 5, 6]\<rparr> (([2], [1]), ([0], [0]))
       = Inr \<lparr>dtype = DFloat, shape = [1, 1, 2], elems = [13, 16]\<rparr>
   \<and> bindE (convert_vectorized_tree result_type asarray example_tree)
        (\<lambda>st. bindE (dot_general_tree_rule dot_general_p add_p [st, st] (([0], [0]), ([], [])))
                 restore_state)
      = Inr (PLeaf (scalar DFloat 30))
   \<and> bindE (convert_vectorized_tree result_type asarray example_tree_lists)
        (\<lambda>st. bindE (dot_general_tree_rule dot_general_p add_p [st, st] (([0], [0]), ([], [])))
                 restore_state)
      = Inr (PLeaf (scalar DFloat 30))"
proof (intro conjI)
  show "dot_rhs_coords [2] [1] [0] [b, m, k] [n] = Inr [b, n, k]"
    by (simp add: dot_rhs_coords_def nth_py_def list_insert_def)
qed code_simp+

end
